theory Spec2Isabelle
  imports Complex_Main "HOL-Library.Char_ord" "HOL-Library.List_Lexorder" "HOL-Library.Monad_Syntax"
begin

section \<open>Python values\<close>

subsection \<open>Floats\<close>

text \<open>
  A Python float (and a \<open>numpy.float64\<close>) is an IEEE double: a finite value, one of the two
  infinities, or NaN. A finite value is kept as the real number it stands for. Rounding of
  a finite result and the sign of zero are outside this development; overflow is inside:
  an operation whose exact result has magnitude \<open>float_overflow\<close> or more gives an infinity
  (\<open>float_overflow\<close> is the midpoint between the largest double and \<open>2 ^ 1024\<close>, from
  which rounding goes to infinity).
\<close>

datatype pyfloat = Fl real | PInf | NInf | NaN

definition float_overflow :: real where
  "float_overflow = 2 ^ 1024 - 2 ^ 970"

definition fl :: "real \<Rightarrow> pyfloat" where
  "fl r = (if r \<ge> float_overflow then PInf else if r \<le> - float_overflow then NInf else Fl r)"

fun is_finite :: "pyfloat \<Rightarrow> bool" where
  "is_finite (Fl r) = True"
| "is_finite _ = False"

fun fneg :: "pyfloat \<Rightarrow> pyfloat" where
  "fneg (Fl r) = Fl (- r)"
| "fneg PInf = NInf"
| "fneg NInf = PInf"
| "fneg NaN = NaN"

fun fadd :: "pyfloat \<Rightarrow> pyfloat \<Rightarrow> pyfloat" where
  "fadd (Fl a) (Fl b) = fl (a + b)"
| "fadd NaN y = NaN"
| "fadd x NaN = NaN"
| "fadd PInf NInf = NaN"
| "fadd NInf PInf = NaN"
| "fadd PInf y = PInf"
| "fadd x PInf = PInf"
| "fadd NInf y = NInf"
| "fadd x NInf = NInf"

definition fsub :: "pyfloat \<Rightarrow> pyfloat \<Rightarrow> pyfloat" where
  "fsub x y = fadd x (fneg y)"

text \<open>The sign of a float that is not NaN: \<open>-1\<close>, \<open>0\<close> or \<open>1\<close>.\<close>

fun fsign :: "pyfloat \<Rightarrow> int" where
  "fsign (Fl r) = (if r < 0 then - 1 else if r = 0 then 0 else 1)"
| "fsign PInf = 1"
| "fsign NInf = - 1"
| "fsign NaN = 0"

definition signed_inf :: "int \<Rightarrow> pyfloat" where
  "signed_inf s = (if s < 0 then NInf else PInf)"

fun fmul :: "pyfloat \<Rightarrow> pyfloat \<Rightarrow> pyfloat" where
  "fmul (Fl a) (Fl b) = fl (a * b)"
| "fmul NaN y = NaN"
| "fmul x NaN = NaN"
| "fmul x y = (if fsign x * fsign y = 0 then NaN else signed_inf (fsign x * fsign y))"

text \<open>IEEE division by a divisor that is not zero (Python raises on a zero divisor).\<close>

fun fdiv :: "pyfloat \<Rightarrow> pyfloat \<Rightarrow> pyfloat" where
  "fdiv (Fl a) (Fl b) = fl (a / b)"
| "fdiv NaN y = NaN"
| "fdiv x NaN = NaN"
| "fdiv (Fl a) y = Fl 0"
| "fdiv x (Fl b) = signed_inf (fsign x * fsign (Fl b))"
| "fdiv x y = NaN"

text \<open>\<open><\<close>, \<open><=\<close> and \<open>==\<close>: every comparison with NaN is false.\<close>

fun flt :: "pyfloat \<Rightarrow> pyfloat \<Rightarrow> bool" where
  "flt (Fl a) (Fl b) = (a < b)"
| "flt NaN y = False"
| "flt x NaN = False"
| "flt x NInf = False"
| "flt NInf y = True"
| "flt PInf y = False"
| "flt x PInf = True"

fun feq :: "pyfloat \<Rightarrow> pyfloat \<Rightarrow> bool" where
  "feq NaN y = False"
| "feq x NaN = False"
| "feq x y = (x = y)"

definition fle :: "pyfloat \<Rightarrow> pyfloat \<Rightarrow> bool" where
  "fle x y = (flt x y \<or> feq x y)"

fun fabs :: "pyfloat \<Rightarrow> pyfloat" where
  "fabs (Fl r) = Fl \<bar>r\<bar>"
| "fabs PInf = PInf"
| "fabs NInf = PInf"
| "fabs NaN = NaN"

text \<open>\<open>numpy.sqrt\<close> of a float: NaN for a negative argument.\<close>

fun fsqrt :: "pyfloat \<Rightarrow> pyfloat" where
  "fsqrt (Fl r) = (if r < 0 then NaN else Fl (sqrt r))"
| "fsqrt PInf = PInf"
| "fsqrt NInf = NaN"
| "fsqrt NaN = NaN"

text \<open>\<open>numpy.clip(x, 0.0, 1.0)\<close> of a float: NaN passes through.\<close>

fun np_clip_unit :: "pyfloat \<Rightarrow> pyfloat" where
  "np_clip_unit (Fl r) = Fl (min 1 (max 0 r))"
| "np_clip_unit PInf = Fl 1"
| "np_clip_unit NInf = Fl 0"
| "np_clip_unit NaN = NaN"

subsection \<open>Values\<close>

text \<open>
  The pipeline passes duck-typed nested mappings around. A snapshot, a state and an
  action are Python dictionaries with string keys; their values are numbers, strings,
  lists and further dictionaries. A dictionary is an association list with distinct
  keys, in insertion order. An integer is a Python \<open>int\<close>, of any size.
\<close>

datatype pyval =
    VNone
  | VBool bool
  | VInt int
  | VFloat pyfloat
  | VStr string
  | VList "pyval list"
  | VDict "(string \<times> pyval) list"
  | VObject string

text \<open>\<open>VObject\<close> stands for any other Python object (a \<open>datetime\<close>, a bound method, ...),
  named by its type; such an object is truthy and hashable, equal to itself only, and
  supports none of the operations below.\<close>

type_synonym pydict = "(string \<times> pyval) list"

text \<open>\<open>d.get(k, default)\<close>, \<open>k in d\<close>, \<open>d[k] = v\<close> and \<open>d.update(e)\<close>.\<close>

definition dict_get :: "pydict \<Rightarrow> string \<Rightarrow> pyval \<Rightarrow> pyval" where
  "dict_get d k dflt = (case map_of d k of None \<Rightarrow> dflt | Some v \<Rightarrow> v)"

definition dict_has :: "pydict \<Rightarrow> string \<Rightarrow> bool" where
  "dict_has d k = (map_of d k \<noteq> None)"

fun dict_set :: "pydict \<Rightarrow> string \<Rightarrow> pyval \<Rightarrow> pydict" where
  "dict_set [] k v = [(k, v)]"
| "dict_set ((k', v') # d) k v = (if k' = k then (k, v) # d else (k', v') # dict_set d k v)"

fun dict_update :: "pydict \<Rightarrow> pydict \<Rightarrow> pydict" where
  "dict_update d [] = d"
| "dict_update d ((k, v) # e) = dict_update (dict_set d k v) e"

definition dict_keys :: "pydict \<Rightarrow> string set" where
  "dict_keys d = fst ` set d"

text \<open>Truthiness (\<open>if v:\<close>, \<open>not v\<close>): NaN and the infinities are truthy.\<close>

fun truthy :: "pyval \<Rightarrow> bool" where
  "truthy VNone = False"
| "truthy (VBool b) = b"
| "truthy (VInt i) = (i \<noteq> 0)"
| "truthy (VFloat x) = (x \<noteq> Fl 0)"
| "truthy (VStr s) = (s \<noteq> [])"
| "truthy (VList xs) = (xs \<noteq> [])"
| "truthy (VDict d) = (d \<noteq> [])"
| "truthy (VObject n) = True"

subsection \<open>Arithmetic\<close>

text \<open>
  A number is an \<open>int\<close> (\<open>bool\<close> is a subclass of \<open>int\<close>) or a float. Among the values
  above, \<open>-\<close>, \<open>/\<close> and \<open>**\<close> are defined on numbers only; every \<open>+\<close> of the code below
  has a number on one side (a literal, or the 0 that \<open>sum\<close> starts from, or a value
  that a multiplication returned) and every \<open>*\<close> has a number on one side or the same
  value on both sides. So a
  successful operation is an operation on numbers; \<open>None\<close> stands for the \<open>TypeError\<close>
  Python raises on another operand, the \<open>OverflowError\<close> it raises when it has to convert
  an \<open>int\<close> outside the range of a double to a float, and the \<open>ZeroDivisionError\<close> of a
  division.
\<close>

datatype pynum = PI int | PF pyfloat

fun to_num :: "pyval \<Rightarrow> pynum option" where
  "to_num (VBool b) = Some (PI (if b then 1 else 0))"
| "to_num (VInt i) = Some (PI i)"
| "to_num (VFloat x) = Some (PF x)"
| "to_num _ = None"

fun of_num :: "pynum \<Rightarrow> pyval" where
  "of_num (PI i) = VInt i"
| "of_num (PF x) = VFloat x"

definition int_to_float :: "int \<Rightarrow> pyfloat option" where
  "int_to_float i = (if \<bar>real_of_int i\<bar> \<ge> float_overflow then None else Some (Fl (real_of_int i)))"

fun num_float :: "pynum \<Rightarrow> pyfloat option" where
  "num_float (PI i) = int_to_float i"
| "num_float (PF x) = Some x"

text \<open>The operand of an operation whose other operand is a float.\<close>

definition as_float :: "pyval \<Rightarrow> pyfloat option" where
  "as_float v = (case to_num v of None \<Rightarrow> None | Some n \<Rightarrow> num_float n)"

fun num_add :: "pynum \<Rightarrow> pynum \<Rightarrow> pynum option" where
  "num_add (PI a) (PI b) = Some (PI (a + b))"
| "num_add x y =
     (case num_float x of None \<Rightarrow> None
      | Some a \<Rightarrow> (case num_float y of None \<Rightarrow> None | Some b \<Rightarrow> Some (PF (fadd a b))))"

fun num_sub :: "pynum \<Rightarrow> pynum \<Rightarrow> pynum option" where
  "num_sub (PI a) (PI b) = Some (PI (a - b))"
| "num_sub x y =
     (case num_float x of None \<Rightarrow> None
      | Some a \<Rightarrow> (case num_float y of None \<Rightarrow> None | Some b \<Rightarrow> Some (PF (fsub a b))))"

fun num_mul :: "pynum \<Rightarrow> pynum \<Rightarrow> pynum option" where
  "num_mul (PI a) (PI b) = Some (PI (a * b))"
| "num_mul x y =
     (case num_float x of None \<Rightarrow> None
      | Some a \<Rightarrow> (case num_float y of None \<Rightarrow> None | Some b \<Rightarrow> Some (PF (fmul a b))))"

text \<open>
  \<open>/\<close>: the quotient of two ints is the correctly rounded quotient, \<open>OverflowError\<close> when it
  is outside the range of a double; a zero divisor raises.
\<close>

fun num_div :: "pynum \<Rightarrow> pynum \<Rightarrow> pyfloat option" where
  "num_div (PI a) (PI b) =
     (if b = 0 then None
      else if \<bar>real_of_int a / real_of_int b\<bar> \<ge> float_overflow then None
      else Some (Fl (real_of_int a / real_of_int b)))"
| "num_div x y =
     (case num_float x of None \<Rightarrow> None
      | Some a \<Rightarrow>
          (case num_float y of None \<Rightarrow> None
           | Some b \<Rightarrow> if b = Fl 0 then None else Some (fdiv a b)))"

text \<open>\<open>x ** 2\<close>: the power of a float raises \<open>OverflowError\<close> where its product overflows.\<close>

fun num_square :: "pynum \<Rightarrow> pynum option" where
  "num_square (PI a) = Some (PI (a * a))"
| "num_square (PF (Fl r)) = (if r * r \<ge> float_overflow then None else Some (PF (Fl (r * r))))"
| "num_square (PF NaN) = Some (PF NaN)"
| "num_square (PF x) = Some (PF PInf)"

text \<open>Comparison of two numbers is exact: an \<open>int\<close> is not rounded to a float first.\<close>

fun num_value :: "pynum \<Rightarrow> pyfloat" where
  "num_value (PI i) = Fl (real_of_int i)"
| "num_value (PF x) = x"

definition py_add :: "pyval \<Rightarrow> pyval \<Rightarrow> pyval option" where
  "py_add u v =
     (case to_num u of None \<Rightarrow> None
      | Some a \<Rightarrow> (case to_num v of None \<Rightarrow> None | Some b \<Rightarrow> map_option of_num (num_add a b)))"

definition py_sub :: "pyval \<Rightarrow> pyval \<Rightarrow> pyval option" where
  "py_sub u v =
     (case to_num u of None \<Rightarrow> None
      | Some a \<Rightarrow> (case to_num v of None \<Rightarrow> None | Some b \<Rightarrow> map_option of_num (num_sub a b)))"

definition py_mul :: "pyval \<Rightarrow> pyval \<Rightarrow> pyval option" where
  "py_mul u v =
     (case to_num u of None \<Rightarrow> None
      | Some a \<Rightarrow> (case to_num v of None \<Rightarrow> None | Some b \<Rightarrow> map_option of_num (num_mul a b)))"

definition py_div :: "pyval \<Rightarrow> pyval \<Rightarrow> pyval option" where
  "py_div u v =
     (case to_num u of None \<Rightarrow> None
      | Some a \<Rightarrow> (case to_num v of None \<Rightarrow> None | Some b \<Rightarrow> map_option VFloat (num_div a b)))"

definition py_square :: "pyval \<Rightarrow> pyval option" where
  "py_square v = (case to_num v of None \<Rightarrow> None | Some a \<Rightarrow> map_option of_num (num_square a))"

text \<open>
  \<open>u < v\<close> and \<open>u <= v\<close>: two numbers, or two strings (by code point); \<open>TypeError\<close>
  otherwise (no comparison below has a list on both sides). \<open>u > v\<close> is \<open>v < u\<close>.
\<close>

definition py_lt :: "pyval \<Rightarrow> pyval \<Rightarrow> bool option" where
  "py_lt u v =
     (case (u, v) of
        (VStr s, VStr t) \<Rightarrow> Some (s < t)
      | _ \<Rightarrow>
          (case to_num u of None \<Rightarrow> None
           | Some a \<Rightarrow> (case to_num v of None \<Rightarrow> None
                        | Some b \<Rightarrow> Some (flt (num_value a) (num_value b)))))"

definition py_le :: "pyval \<Rightarrow> pyval \<Rightarrow> bool option" where
  "py_le u v =
     (case (u, v) of
        (VStr s, VStr t) \<Rightarrow> Some (s \<le> t)
      | _ \<Rightarrow>
          (case to_num u of None \<Rightarrow> None
           | Some a \<Rightarrow> (case to_num v of None \<Rightarrow> None
                        | Some b \<Rightarrow> Some (fle (num_value a) (num_value b)))))"

definition py_gt :: "pyval \<Rightarrow> pyval \<Rightarrow> bool option" where
  "py_gt u v = py_lt v u"

text \<open>\<open>max(a, b)\<close> is \<open>b if b > a else a\<close> and \<open>min(a, b)\<close> is \<open>b if b < a else a\<close>.\<close>

definition py_max :: "pyval \<Rightarrow> pyval \<Rightarrow> pyval option" where
  "py_max a b = (case py_gt b a of None \<Rightarrow> None | Some c \<Rightarrow> Some (if c then b else a))"

definition py_min :: "pyval \<Rightarrow> pyval \<Rightarrow> pyval option" where
  "py_min a b = (case py_lt b a of None \<Rightarrow> None | Some c \<Rightarrow> Some (if c then b else a))"

definition fmax :: "pyfloat \<Rightarrow> pyfloat \<Rightarrow> pyfloat" where
  "fmax a b = (if flt a b then b else a)"

definition fmin :: "pyfloat \<Rightarrow> pyfloat \<Rightarrow> pyfloat" where
  "fmin a b = (if flt b a then b else a)"

text \<open>
  \<open>u == v\<close> never raises. Numbers are equal by value (\<open>True == 1 == 1.0\<close>), lists
  element by element, dictionaries entry by entry whatever their order. Two occurrences
  of NaN are taken to be distinct objects, so NaN equals nothing.
\<close>

fun py_eq :: "pyval \<Rightarrow> pyval \<Rightarrow> bool"
  and py_eq_list :: "pyval list \<Rightarrow> pyval list \<Rightarrow> bool"
  and py_sub_dict :: "(string \<times> pyval) list \<Rightarrow> (string \<times> pyval) list \<Rightarrow> bool"
  and py_in_dict :: "string \<Rightarrow> pyval \<Rightarrow> (string \<times> pyval) list \<Rightarrow> bool" where
  "py_eq (VList xs) (VList ys) = py_eq_list xs ys"
| "py_eq (VDict d) (VDict e) = (length d = length e \<and> py_sub_dict d e)"
| "py_eq (VStr s) (VStr t) = (s = t)"
| "py_eq VNone VNone = True"
| "py_eq (VObject n) (VObject m) = (n = m)"
| "py_eq u v =
     (case to_num u of None \<Rightarrow> False
      | Some a \<Rightarrow> (case to_num v of None \<Rightarrow> False | Some b \<Rightarrow> feq (num_value a) (num_value b)))"
| "py_eq_list [] [] = True"
| "py_eq_list (x # xs) (y # ys) = (py_eq x y \<and> py_eq_list xs ys)"
| "py_eq_list xs ys = False"
| "py_sub_dict [] e = True"
| "py_sub_dict ((k, v) # d) e = (py_in_dict k v e \<and> py_sub_dict d e)"
| "py_in_dict k v [] = False"
| "py_in_dict k v ((k', v') # e) = (if k = k' then py_eq v v' else py_in_dict k v e)"

text \<open>\<open>v == 0\<close>.\<close>

definition eq_zero :: "pyval \<Rightarrow> bool" where
  "eq_zero v = py_eq v (VInt 0)"

text \<open>\<open>v.get(k, default)\<close>, \<open>v.items()\<close>, \<open>v.values()\<close>: \<open>AttributeError\<close> unless \<open>v\<close> is a dict.\<close>

fun py_get :: "pyval \<Rightarrow> string \<Rightarrow> pyval \<Rightarrow> pyval option" where
  "py_get (VDict d) k dflt = Some (dict_get d k dflt)"
| "py_get _ k dflt = None"

fun py_items :: "pyval \<Rightarrow> (string \<times> pyval) list option" where
  "py_items (VDict d) = Some d"
| "py_items _ = None"

definition py_values :: "pyval \<Rightarrow> pyval list option" where
  "py_values v = map_option (map snd) (py_items v)"

text \<open>\<open>len(v)\<close>: \<open>TypeError\<close> unless \<open>v\<close> is sized.\<close>

fun py_len :: "pyval \<Rightarrow> nat option" where
  "py_len (VList xs) = Some (length xs)"
| "py_len (VDict d) = Some (length d)"
| "py_len (VStr s) = Some (length s)"
| "py_len _ = None"

text \<open>Iteration (\<open>for x in v\<close>, \<open>enumerate(v)\<close>, \<open>zip\<close>): a dict yields its keys, a string its characters.\<close>

fun py_iter :: "pyval \<Rightarrow> pyval list option" where
  "py_iter (VList xs) = Some xs"
| "py_iter (VDict d) = Some (map (\<lambda>kv. VStr (fst kv)) d)"
| "py_iter (VStr s) = Some (map (\<lambda>c. VStr [c]) s)"
| "py_iter _ = None"

text \<open>\<open>v[i]\<close> for a non-negative integer \<open>i\<close>: \<open>IndexError\<close> out of range, \<open>KeyError\<close> on a
  dict (its keys are strings), \<open>TypeError\<close> on an unsubscriptable value.\<close>

fun py_index :: "pyval \<Rightarrow> nat \<Rightarrow> pyval option" where
  "py_index (VList xs) i = (if i < length xs then Some (xs ! i) else None)"
| "py_index (VStr s) i = (if i < length s then Some (VStr [s ! i]) else None)"
| "py_index _ i = None"

text \<open>\<open>k in v\<close> for a string \<open>k\<close>: key of a dict, element of a list, substring of a string.\<close>

fun is_substring :: "string \<Rightarrow> string \<Rightarrow> bool" where
  "is_substring k [] = (k = [])"
| "is_substring k (c # cs) = (take (length k) (c # cs) = k \<or> is_substring k cs)"

fun py_contains :: "pyval \<Rightarrow> string \<Rightarrow> bool option" where
  "py_contains (VDict d) k = Some (dict_has d k)"
| "py_contains (VList xs) k = Some (VStr k \<in> set xs)"
| "py_contains (VStr s) k = Some (is_substring k s)"
| "py_contains _ k = None"

text \<open>\<open>sum(vs)\<close>: the values are added to the integer 0 from left to right.\<close>

fun py_sum_from :: "pyval \<Rightarrow> pyval list \<Rightarrow> pyval option" where
  "py_sum_from acc [] = Some acc"
| "py_sum_from acc (v # vs) = (case py_add acc v of None \<Rightarrow> None | Some s \<Rightarrow> py_sum_from s vs)"

definition py_sum :: "pyval list \<Rightarrow> pyval option" where
  "py_sum vs = py_sum_from (VInt 0) vs"

text \<open>A running float total \<open>t += x\<close>, from left to right.\<close>

definition fsum_from :: "pyfloat \<Rightarrow> pyfloat list \<Rightarrow> pyfloat" where
  "fsum_from acc xs = foldl fadd acc xs"

subsection \<open>Sets of identifiers\<close>

text \<open>
  An identifier can be put in a \<open>set\<close> and looked up in a dict when it is hashable: a list
  and a dict are not (\<open>TypeError\<close>). \<open>id_member\<close> is \<open>x in s\<close> for a set or a dict \<open>s\<close> given by
  its elements or keys.
\<close>

fun hashable :: "pyval \<Rightarrow> bool" where
  "hashable (VList xs) = False"
| "hashable (VDict d) = False"
| "hashable _ = True"

definition id_member :: "pyval \<Rightarrow> pyval list \<Rightarrow> bool option" where
  "id_member x s = (if hashable x then Some (list_ex (py_eq x) s) else None)"

text \<open>
  The loop \<open>for x in xs: if x: s.add(x)\<close> on an empty set: the truthy values, each once, in
  the order of their first occurrence.
\<close>

fun add_truthy :: "pyval list \<Rightarrow> pyval list \<Rightarrow> pyval list option" where
  "add_truthy s [] = Some s"
| "add_truthy s (x # xs) =
     (if truthy x then
        (case id_member x s of
           None \<Rightarrow> None
         | Some present \<Rightarrow> add_truthy (if present then s else s @ [x]) xs)
      else add_truthy s xs)"

fun is_str :: "pyval \<Rightarrow> bool" where
  "is_str (VStr s) = True"
| "is_str _ = False"

fun str_of :: "pyval \<Rightarrow> string" where
  "str_of (VStr s) = s"
| "str_of _ = []"

fun insert_by_value :: "pyval \<Rightarrow> pyval list \<Rightarrow> pyval list" where
  "insert_by_value x [] = [x]"
| "insert_by_value x (y # ys) =
     (if py_lt x y = Some True then x # y # ys else y # insert_by_value x ys)"

text \<open>
  \<open>sorted(s)\<close> of a set of hashable values: strings by code point, numbers by value;
  \<open>TypeError\<close> when two elements cannot be compared. The order \<open>sorted\<close> gives numbers
  among which there is a NaN depends on the memory layout of the set; here it is the
  order an insertion sort gives the elements taken in the order of their first occurrence.
\<close>

definition py_sorted :: "pyval list \<Rightarrow> pyval list option" where
  "py_sorted s =
     (if length s \<le> 1 then Some s
      else if list_all is_str s then Some (map VStr (sort (map str_of s)))
      else if list_all (\<lambda>x. to_num x \<noteq> None) s then Some (foldr insert_by_value s [])
      else None)"

fun index_of :: "pyval list \<Rightarrow> pyval \<Rightarrow> nat option" where
  "index_of [] x = None"
| "index_of (y # ys) x = (if py_eq x y then Some 0 else map_option Suc (index_of ys x))"

subsection \<open>Strings\<close>

text \<open>\<open>str.lower()\<close> on ASCII letters.\<close>

definition lower_char :: "char \<Rightarrow> char" where
  "lower_char c = (if CHR ''A'' \<le> c \<and> c \<le> CHR ''Z'' then char_of (of_char c + (32::nat)) else c)"

definition py_lower :: "string \<Rightarrow> string" where
  "py_lower s = map lower_char s"

text \<open>Decimal rendering of a counter, and the zero-padded \<open>{n:04d}\<close>.\<close>

fun str_nat :: "nat \<Rightarrow> string" where
  "str_nat n = (if n < 10 then [char_of (48 + n)] else str_nat (n div 10) @ [char_of (48 + n mod 10)])"

definition fmt04 :: "nat \<Rightarrow> string" where
  "fmt04 n = replicate (4 - length (str_nat n)) (CHR ''0'') @ str_nat n"

text \<open>\<open>s.replace('Z', '+00:00')\<close>.\<close>

definition replace_Z :: "string \<Rightarrow> string" where
  "replace_Z s = concat (map (\<lambda>c. if c = CHR ''Z'' then ''+00:00'' else [c]) s)"

subsection \<open>Interpreter and libraries\<close>

text \<open>
  What belongs to the interpreter and to the libraries is a parameter of the model:
  the attributes Python itself gives a value (\<open>hasattr\<close>/\<open>getattr\<close> on the methods of a dict,
  a list, a float, and on the special attributes of a dataclass instance);
  \<open>numpy.mean\<close> and \<open>numpy.std\<close> of a value, \<open>None\<close> when numpy raises (the order in which
  numpy adds the entries of an array, hence where a sum overflows, is numpy's own); and
  the time of day \<open>(hour, minute, second)\<close> that \<open>datetime.fromisoformat\<close> reads from a
  string, \<open>None\<close> when it raises.
\<close>

record runtime =
  builtin_attr :: "pyval \<Rightarrow> string \<Rightarrow> pyval option"
  instance_attr :: "string \<Rightarrow> pyval option"
  np_mean :: "pyval \<Rightarrow> pyfloat option"
  np_std :: "pyval \<Rightarrow> pyfloat option"
  fromisoformat :: "string \<Rightarrow> (nat \<times> nat \<times> nat) option"

text \<open>
  \<open>numpy.isfinite(x)\<close> and \<open>numpy.sqrt(x)\<close> of a number: numpy turns an \<open>int\<close> into a 64-bit
  integer, signed or unsigned; an \<open>int\<close> outside both ranges becomes an object and the
  function raises \<open>TypeError\<close>.
\<close>

definition np_int_ok :: "int \<Rightarrow> bool" where
  "np_int_ok i = (- (2 ^ 63) \<le> i \<and> i < 2 ^ 64)"

fun np_isfinite :: "pynum \<Rightarrow> bool option" where
  "np_isfinite (PI i) = (if np_int_ok i then Some True else None)"
| "np_isfinite (PF x) = Some (is_finite x)"

fun np_sqrt :: "pynum \<Rightarrow> pyfloat option" where
  "np_sqrt (PI i) = (if np_int_ok i then Some (fsqrt (Fl (real_of_int i))) else None)"
| "np_sqrt (PF x) = Some (fsqrt x)"

section \<open>Scenario generator\<close>

text \<open>
  \<open>scenario_generator.py\<close>. A scenario carries its id, type and difficulty; the fields
  \<open>_generate_single_scenario\<close> draws at random (missile count, constellation,
  environment, time constraints) are the value \<open>draw\<close> returns for the call.
\<close>

record 'r ScenarioConfig =
  scenario_id :: string
  scenario_type :: string
  difficulty_level :: string
  drawn :: 'r

definition generate_single_scenario ::
  "(string \<Rightarrow> string \<Rightarrow> string \<Rightarrow> 'r) \<Rightarrow> string \<Rightarrow> string \<Rightarrow> string \<Rightarrow> 'r ScenarioConfig" where
  "generate_single_scenario draw sid stype difficulty =
     \<lparr>scenario_id = sid, scenario_type = stype, difficulty_level = difficulty,
      drawn = draw sid stype difficulty\<rparr>"

definition difficulty_levels :: "string list" where
  "difficulty_levels = [''easy'', ''medium'', ''hard'', ''extreme'']"

definition scenario_types :: "string list" where
  "scenario_types = [''single_threat'', ''multiple_threats'', ''saturation_attack'', ''evasive_targets'']"

text \<open>
  The three nested loops of \<open>generate_evaluation_scenarios\<close>, innermost first. The loop
  state is the list built so far and the running \<open>scenario_id\<close> counter; each loop
  leaves (\<open>break\<close>) as soon as the list holds \<open>num_scenarios\<close> entries.
\<close>

fun repeat_loop ::
  "(string \<Rightarrow> string \<Rightarrow> string \<Rightarrow> 'r) \<Rightarrow> int \<Rightarrow> string \<Rightarrow> string \<Rightarrow> nat \<Rightarrow>
   'r ScenarioConfig list \<times> nat \<Rightarrow> 'r ScenarioConfig list \<times> nat" where
  "repeat_loop draw num difficulty stype 0 st = st"
| "repeat_loop draw num difficulty stype (Suc k) (scenarios, sid) =
     (if int (length scenarios) \<ge> num then (scenarios, sid)
      else repeat_loop draw num difficulty stype k
             (scenarios @ [generate_single_scenario draw (''eval_scenario_'' @ fmt04 sid) stype difficulty],
              sid + 1))"

fun type_loop ::
  "(string \<Rightarrow> string \<Rightarrow> string \<Rightarrow> 'r) \<Rightarrow> int \<Rightarrow> nat \<Rightarrow> string \<Rightarrow> string list \<Rightarrow>
   'r ScenarioConfig list \<times> nat \<Rightarrow> 'r ScenarioConfig list \<times> nat" where
  "type_loop draw num per difficulty [] st = st"
| "type_loop draw num per difficulty (stype # stypes) st =
     (let st' = repeat_loop draw num difficulty stype per st
      in if int (length (fst st')) \<ge> num then st'
         else type_loop draw num per difficulty stypes st')"

fun difficulty_loop ::
  "(string \<Rightarrow> string \<Rightarrow> string \<Rightarrow> 'r) \<Rightarrow> int \<Rightarrow> nat \<Rightarrow> string list \<Rightarrow>
   'r ScenarioConfig list \<times> nat \<Rightarrow> 'r ScenarioConfig list \<times> nat" where
  "difficulty_loop draw num per [] st = st"
| "difficulty_loop draw num per (difficulty # rest) st =
     (let st' = type_loop draw num per difficulty scenario_types st
      in if int (length (fst st')) \<ge> num then st'
         else difficulty_loop draw num per rest st')"

definition scenarios_per_combination :: "int \<Rightarrow> nat" where
  "scenarios_per_combination num =
     nat (max 1 (num div (int (length difficulty_levels) * int (length scenario_types))))"

definition generate_evaluation_scenarios ::
  "(string \<Rightarrow> string \<Rightarrow> string \<Rightarrow> 'r) \<Rightarrow> int \<Rightarrow> 'r ScenarioConfig list" where
  "generate_evaluation_scenarios draw num =
     fst (difficulty_loop draw num (scenarios_per_combination num) difficulty_levels ([], 1))"

text \<open>The combination a scenario covers, and the full cross product in generation order.\<close>

definition combination :: "'r ScenarioConfig \<Rightarrow> string \<times> string" where
  "combination s = (difficulty_level s, scenario_type s)"

definition all_combinations :: "(string \<times> string) list" where
  "all_combinations = concat (map (\<lambda>d. map (\<lambda>t. (d, t)) scenario_types) difficulty_levels)"

section \<open>Expert policy: threat priority\<close>

text \<open>
  \<open>expert_policy.py\<close>, \<open>_get_missile_priority\<close> and \<open>_sort_missiles_by_threat\<close>. The
  priority function reads the threat levels, the missile positions and the missile id,
  and returns the constant 2. \<open>sorted(..., key=threat_score, reverse=True)\<close> is a stable
  sort by descending key.
\<close>

text \<open>
  A missile record as the policy receives it. Every key of the record is optional, as the
  code reads each with \<open>.get\<close> and a default; a sub-record of numbers is an association
  list from key to number, \<open>None\<close> for a sub-record stands for a missing key.
\<close>

type_synonym numdict = "(string \<times> real) list"

record trajectory =
  launch_position :: "numdict option"
  impact_position :: "numdict option"
  flight_time :: "real option"
  max_altitude :: "real option"

record flight_status =
  status :: "string option"
  flight_duration :: "real option"

record missile =
  missile_id :: "string option"
  m_position :: "numdict option"
  m_velocity :: "numdict option"
  m_trajectory :: "trajectory option"
  threat_level :: "string option"
  m_flight_status :: "flight_status option"

text \<open>\<open>x.get('missile_id', '')\<close>: the empty string when the key is missing.\<close>

definition id_or_empty :: "string option \<Rightarrow> string" where
  "id_or_empty i = (case i of None \<Rightarrow> [] | Some s \<Rightarrow> s)"

definition get_missile_priority :: "missile \<Rightarrow> pydict \<Rightarrow> int" where
  "get_missile_priority m state =
     (let missile_threat_levels = dict_get state ''missile_threat_levels'' (VList []);
          missile_positions = dict_get state ''missile_positions'' (VList []);
          mid = id_or_empty (missile_id m)
      in 2)"

definition sort_missiles_by_threat :: "missile list \<Rightarrow> pydict \<Rightarrow> missile list" where
  "sort_missiles_by_threat ms state = sort_key (\<lambda>m. - get_missile_priority m state) ms"

section \<open>State extractor\<close>

text \<open>
  \<open>rlhf_data_collector.py\<close>, \<open>_extract_state_vector\<close> and its helpers. The configuration
  \<open>state_space\<close> is a set of flags \<open>group.flag\<close>, each read as
  \<open>state_space_config.get(group, {}).get(flag, False)\<close>.

  A snapshot (\<open>base_data\<close>) is the dict the base collector returns for one timestep. The
  code reads it with \<open>.get\<close> and a default at every level and checks the type of what it
  finds in a few places only, so a helper raises on a malformed record; a helper is an
  \<open>option\<close> computation, with \<open>None\<close> for a raised exception. All helpers run inside the
  one \<open>try\<close> of \<open>_extract_state_vector\<close>, whose \<open>except\<close> discards what was extracted so far
  and returns \<open>_get_empty_state()\<close>.
\<close>

record state_space_config =
  sat_position_flag :: bool
  sat_velocity_flag :: bool
  sat_attitude_flag :: bool
  sat_orbital_elements_flag :: bool
  sat_power_status_flag :: bool
  sat_payload_status_flag :: bool
  mis_position_flag :: bool
  mis_velocity_flag :: bool
  mis_trajectory_prediction_flag :: bool
  mis_threat_level_flag :: bool
  mis_flight_phase_flag :: bool
  mis_remaining_time_flag :: bool
  env_time_of_day_flag :: bool
  env_sun_position_flag :: bool
  env_earth_shadow_flag :: bool
  mission_tracking_assignments_flag :: bool
  mission_resource_utilization_flag :: bool
  mission_coverage_gaps_flag :: bool

subsection \<open>Satellites and missiles\<close>

text \<open>\<open>[d.get(k1, v1), d.get(k2, v2), ...]\<close> for a dict \<open>d\<close>.\<close>

definition fields_of :: "pydict \<Rightarrow> (string \<times> pyval) list \<Rightarrow> pyval" where
  "fields_of d keys = VList (map (\<lambda>kd. dict_get d (fst kd) (snd kd)) keys)"

text \<open>
  \<open>sub = rec.get(key, {})\<close> followed by the fields of \<open>sub\<close> when it is a dict and by the
  list of the defaults when it is not; \<open>rec.get\<close> raises unless \<open>rec\<close> is a dict.
\<close>

definition vector_of :: "string \<Rightarrow> (string \<times> pyval) list \<Rightarrow> pyval \<Rightarrow> pyval option" where
  "vector_of key keys rec =
     (case py_get rec key (VDict []) of
        None \<Rightarrow> None
      | Some (VDict d) \<Rightarrow> Some (fields_of d keys)
      | Some _ \<Rightarrow> Some (VList (map snd keys)))"

text \<open>\<open>for x in xs: out.append(f(x))\<close>.\<close>

definition for_each :: "pyval \<Rightarrow> (pyval \<Rightarrow> pyval option) \<Rightarrow> pyval list option" where
  "for_each xs f = (case py_iter xs of None \<Rightarrow> None | Some ys \<Rightarrow> those (map f ys))"

text \<open>
  One field group: its value is computed, and its key is set, only when the flag is on.
  \<open>list_entry\<close> is a group whose value is the list a loop builds.
\<close>

definition entry :: "bool \<Rightarrow> string \<Rightarrow> pyval option \<Rightarrow> pydict option" where
  "entry flag name val =
     (if flag then (case val of None \<Rightarrow> None | Some v \<Rightarrow> Some [(name, v)]) else Some [])"

definition list_entry :: "bool \<Rightarrow> string \<Rightarrow> pyval list option \<Rightarrow> pydict option" where
  "list_entry flag name vals = entry flag name (map_option VList vals)"

definition groups :: "pydict option list \<Rightarrow> pydict option" where
  "groups gs = map_option concat (those gs)"

definition zero_f :: pyval where "zero_f = VFloat (Fl 0)"

definition unit_flag :: "pyval \<Rightarrow> pyval" where
  "unit_flag v = VFloat (Fl (if truthy v then 1 else 0))"

definition power_state :: "pyval \<Rightarrow> pyval option" where
  "power_state sat =
     (case py_get sat ''payload_status'' (VDict []) of
        Some (VDict payload) \<Rightarrow>
          Some (VList [dict_get payload ''power_consumption'' (VFloat (Fl 80)),
                       unit_flag (dict_get payload ''operational'' (VBool True)),
                       dict_get payload ''temperature'' (VFloat (Fl 25))])
      | _ \<Rightarrow> None)"

definition payload_state :: "pyval \<Rightarrow> pyval option" where
  "payload_state sat =
     (case py_get sat ''payload_status'' (VDict []) of
        Some (VDict payload) \<Rightarrow>
          Some (VList [unit_flag (dict_get payload ''operational'' (VBool True)),
                       dict_get payload ''pointing_accuracy'' (VFloat (Fl (1 / 10))),
                       dict_get payload ''detection_range'' (VFloat (Fl 5000))])
      | _ \<Rightarrow> None)"

definition get_empty_satellite_state :: pydict where
  "get_empty_satellite_state =
     [(''satellite_positions'', VList []),
      (''satellite_velocities'', VList []),
      (''satellite_attitudes'', VList []),
      (''satellite_orbital_elements'', VList []),
      (''satellite_power_states'', VList []),
      (''satellite_payload_states'', VList [])]"

definition extract_satellite_states :: "state_space_config \<Rightarrow> pyval \<Rightarrow> pydict option" where
  "extract_satellite_states cfg sats =
     (if \<not> truthy sats then Some get_empty_satellite_state
      else groups
        [list_entry (sat_position_flag cfg) ''satellite_positions''
           (for_each sats (vector_of ''position'' [(''x'', zero_f), (''y'', zero_f), (''z'', zero_f)])),
         list_entry (sat_velocity_flag cfg) ''satellite_velocities''
           (for_each sats (vector_of ''velocity'' [(''vx'', zero_f), (''vy'', zero_f), (''vz'', zero_f)])),
         list_entry (sat_attitude_flag cfg) ''satellite_attitudes''
           (for_each sats (vector_of ''attitude''
              [(''q0'', VFloat (Fl 1)), (''q1'', zero_f), (''q2'', zero_f), (''q3'', zero_f)])),
         list_entry (sat_orbital_elements_flag cfg) ''satellite_orbital_elements''
           (for_each sats (vector_of ''orbital_elements''
              [(''semi_major_axis'', zero_f), (''eccentricity'', zero_f), (''inclination'', zero_f),
               (''raan'', zero_f), (''arg_perigee'', zero_f), (''mean_anomaly'', zero_f)])),
         list_entry (sat_power_status_flag cfg) ''satellite_power_states'' (for_each sats power_state),
         list_entry (sat_payload_status_flag cfg) ''satellite_payload_states''
           (for_each sats payload_state)])"

definition get_empty_missile_state :: pydict where
  "get_empty_missile_state =
     [(''missile_positions'', VList []),
      (''missile_velocities'', VList []),
      (''missile_trajectory_predictions'', VList []),
      (''missile_threat_levels'', VList []),
      (''missile_flight_phases'', VList []),
      (''missile_remaining_times'', VList [])]"

text \<open>\<open>mapping.get(level.lower(), 0)\<close>: \<open>.lower()\<close> raises unless the level is a string.\<close>

definition encode_threat_level :: "pyval \<Rightarrow> pyval option" where
  "encode_threat_level level =
     (case level of
        VStr s \<Rightarrow>
          Some (VInt (case map_of [(''low'', 1), (''medium'', 2), (''high'', 3), (''critical'', 4),
                                    (''unknown'', 0)] (py_lower s) of
                        None \<Rightarrow> 0 | Some n \<Rightarrow> n))
      | _ \<Rightarrow> None)"

definition encode_flight_phase :: "pyval \<Rightarrow> pyval option" where
  "encode_flight_phase phase =
     (case phase of
        VStr s \<Rightarrow>
          Some (VInt (case map_of [(''boost'', 1), (''midcourse'', 2), (''terminal'', 3),
                                    (''in_flight'', 2), (''impact'', 4), (''unknown'', 0)]
                               (py_lower s) of
                        None \<Rightarrow> 0 | Some n \<Rightarrow> n))
      | _ \<Rightarrow> None)"

definition trajectory_prediction :: "pyval \<Rightarrow> pyval option" where
  "trajectory_prediction m =
     (case py_get m ''trajectory'' (VDict []) of
        None \<Rightarrow> None
      | Some (VDict traj) \<Rightarrow>
          (case (dict_get traj ''launch_position'' (VDict []),
                 dict_get traj ''impact_position'' (VDict [])) of
             (VDict launch_pos, VDict impact_pos) \<Rightarrow>
               Some (VList [dict_get launch_pos ''lat'' zero_f, dict_get launch_pos ''lon'' zero_f,
                            dict_get impact_pos ''lat'' zero_f, dict_get impact_pos ''lon'' zero_f,
                            dict_get traj ''flight_time'' zero_f, dict_get traj ''max_altitude'' zero_f])
           | _ \<Rightarrow> None)
      | Some _ \<Rightarrow> Some (VList [zero_f, zero_f, zero_f, zero_f, zero_f, zero_f]))"

definition threat_level_of :: "pyval \<Rightarrow> pyval option" where
  "threat_level_of m =
     (case py_get m ''threat_level'' (VStr ''unknown'') of
        None \<Rightarrow> None
      | Some level \<Rightarrow> encode_threat_level level)"

definition flight_phase_of :: "pyval \<Rightarrow> pyval option" where
  "flight_phase_of m =
     (case py_get m ''flight_status'' (VDict []) of
        Some (VDict fs) \<Rightarrow> encode_flight_phase (dict_get fs ''status'' (VStr ''unknown''))
      | _ \<Rightarrow> None)"

text \<open>\<open>max(0.0, total_flight_time - flight_duration)\<close>.\<close>

definition remaining_time :: "pyval \<Rightarrow> pyval option" where
  "remaining_time m =
     (case (py_get m ''flight_status'' (VDict []), py_get m ''trajectory'' (VDict [])) of
        (Some (VDict fs), Some (VDict traj)) \<Rightarrow>
          (case py_sub (dict_get traj ''flight_time'' (VFloat (Fl 1800)))
                       (dict_get fs ''flight_duration'' zero_f) of
             None \<Rightarrow> None
           | Some left \<Rightarrow> py_max zero_f left)
      | _ \<Rightarrow> None)"

definition extract_missile_states :: "state_space_config \<Rightarrow> pyval \<Rightarrow> pydict option" where
  "extract_missile_states cfg ms =
     (if \<not> truthy ms then Some get_empty_missile_state
      else groups
        [list_entry (mis_position_flag cfg) ''missile_positions''
           (for_each ms (vector_of ''position'' [(''x'', zero_f), (''y'', zero_f), (''z'', zero_f)])),
         list_entry (mis_velocity_flag cfg) ''missile_velocities''
           (for_each ms (vector_of ''velocity'' [(''vx'', zero_f), (''vy'', zero_f), (''vz'', zero_f)])),
         list_entry (mis_trajectory_prediction_flag cfg) ''missile_trajectory_predictions''
           (for_each ms trajectory_prediction),
         list_entry (mis_threat_level_flag cfg) ''missile_threat_levels'' (for_each ms threat_level_of),
         list_entry (mis_flight_phase_flag cfg) ''missile_flight_phases'' (for_each ms flight_phase_of),
         list_entry (mis_remaining_time_flag cfg) ''missile_remaining_times''
           (for_each ms remaining_time)])"

subsection \<open>Visibility matrix and coverage\<close>

text \<open>
  The ids the visibility records mention, \<open>sorted(set(...))\<close>; a falsy id is skipped. The
  index of an id is its place in that list: the matrix is indexed by the ids of the
  visibility records, not by the satellites and missiles of the snapshot.
\<close>

definition observed_ids :: "string \<Rightarrow> pyval list \<Rightarrow> pyval list option" where
  "observed_ids key recs =
     (case those (map (\<lambda>vis. py_get vis key (VStr [])) recs) of
        None \<Rightarrow> None
      | Some ids \<Rightarrow> (case add_truthy [] ids of None \<Rightarrow> None | Some s \<Rightarrow> py_sorted s))"

text \<open>
  One round of the filling loop of \<open>_create_visibility_matrix\<close>: the cell the record
  writes, if any, and the bit it writes there.
\<close>

definition mark ::
  "pyval list \<Rightarrow> pyval list \<Rightarrow> nat \<Rightarrow> nat \<Rightarrow> pyval \<Rightarrow> ((nat \<times> nat) \<times> nat) option option" where
  "mark sat_ids missile_ids num_satellites num_missiles vis =
     (case vis of
        VDict v \<Rightarrow>
          (let sat_id = dict_get v ''satellite_id'' (VStr []);
               mid = dict_get v ''missile_id'' (VStr []);
               shown = (if truthy (dict_get v ''has_visibility'' (VBool False)) then 1 else 0)
           in case id_member sat_id sat_ids of
                None \<Rightarrow> None
              | Some False \<Rightarrow> Some None
              | Some True \<Rightarrow>
                  (case id_member mid missile_ids of
                     None \<Rightarrow> None
                   | Some False \<Rightarrow> Some None
                   | Some True \<Rightarrow>
                       (case (index_of sat_ids sat_id, index_of missile_ids mid) of
                          (Some sat_idx, Some missile_idx) \<Rightarrow>
                            if sat_idx < num_satellites \<and> missile_idx < num_missiles
                            then Some (Some ((sat_idx, missile_idx), shown)) else Some None
                        | _ \<Rightarrow> Some None)))
      | _ \<Rightarrow> None)"

fun put :: "nat list list \<Rightarrow> ((nat \<times> nat) \<times> nat) option \<Rightarrow> nat list list" where
  "put matrix None = matrix"
| "put matrix (Some ((i, j), b)) = matrix[i := (matrix ! i)[j := b]]"

definition create_visibility_matrix :: "pyval \<Rightarrow> nat \<Rightarrow> nat \<Rightarrow> nat list list option" where
  "create_visibility_matrix vis_data num_satellites num_missiles =
     (if num_satellites = 0 \<or> num_missiles = 0 then Some []
      else
        (case py_iter vis_data of
           None \<Rightarrow> None
         | Some recs \<Rightarrow>
             (case (observed_ids ''satellite_id'' recs, observed_ids ''missile_id'' recs) of
                (Some sat_ids, Some missile_ids) \<Rightarrow>
                  (case those (map (mark sat_ids missile_ids num_satellites num_missiles) recs) of
                     None \<Rightarrow> None
                   | Some marks \<Rightarrow>
                       Some (foldl put (replicate num_satellites (replicate num_missiles 0)) marks))
              | _ \<Rightarrow> None)))"

definition matrix_value :: "nat list list \<Rightarrow> pyval" where
  "matrix_value matrix = VList (map (\<lambda>row. VList (map (\<lambda>c. VInt (int c)) row)) matrix)"

definition visibility_state :: "nat list list \<Rightarrow> nat \<Rightarrow> nat \<Rightarrow> pydict" where
  "visibility_state visibility_matrix num_satellites num_missiles =
     (if visibility_matrix \<noteq> [] then
        (let total_pairs = num_satellites * num_missiles;
             covered_pairs = sum_list (map sum_list visibility_matrix);
             coverage_ratio = (if total_pairs > 0 then real covered_pairs / real total_pairs else 0)
         in [(''visibility_matrix'', matrix_value visibility_matrix),
             (''coverage_ratio'', VFloat (Fl coverage_ratio)),
             (''satellite_coverage_counts'',
                VList (map (\<lambda>row. VInt (int (sum_list row))) visibility_matrix)),
             (''missile_coverage_counts'',
                (if length (hd visibility_matrix) > 0
                 then VList (map (\<lambda>j. VInt (int (sum_list (map (\<lambda>row. row ! j) visibility_matrix))))
                               [0 ..< length (hd visibility_matrix)])
                 else VList []))])
      else
        [(''visibility_matrix'', matrix_value visibility_matrix),
         (''coverage_ratio'', VFloat (Fl 0)),
         (''satellite_coverage_counts'', VList []),
         (''missile_coverage_counts'', VList [])])"

definition extract_visibility_states :: "pyval \<Rightarrow> nat \<Rightarrow> nat \<Rightarrow> pydict option" where
  "extract_visibility_states vis_data num_satellites num_missiles =
     (case create_visibility_matrix vis_data num_satellites num_missiles of
        None \<Rightarrow> None
      | Some visibility_matrix \<Rightarrow> Some (visibility_state visibility_matrix num_satellites num_missiles))"

subsection \<open>Environment and mission\<close>

text \<open>
  \<open>_encode_time_of_day\<close>: the seconds of the day over 86400; its bare \<open>except\<close> returns 0.0
  when the value is not a string or does not parse.
\<close>

definition encode_time_of_day :: "runtime \<Rightarrow> pyval \<Rightarrow> real" where
  "encode_time_of_day rt t =
     (case t of
        VStr s \<Rightarrow>
          (case fromisoformat rt (replace_Z s) of
             None \<Rightarrow> 0
           | Some (h, m, sec) \<Rightarrow> real (h * 3600 + m * 60 + sec) / 86400)
      | _ \<Rightarrow> 0)"

definition extract_environment_states :: "runtime \<Rightarrow> state_space_config \<Rightarrow> pydict \<Rightarrow> pydict" where
  "extract_environment_states rt cfg base_data =
     (let time_of_day = (if env_time_of_day_flag cfg
                         then encode_time_of_day rt (dict_get base_data ''collection_time'' (VStr []))
                         else 0);
          sun_elevation = (if env_sun_position_flag cfg
                           then sin (2 * pi * time_of_day) * 90 else 0)
      in (if env_time_of_day_flag cfg then [(''time_of_day'', VFloat (Fl time_of_day))] else []) @
         [(''simulation_progress'', dict_get base_data ''simulation_progress'' zero_f)] @
         (if env_sun_position_flag cfg then [(''sun_elevation'', VFloat (Fl sun_elevation))] else []) @
         (if env_earth_shadow_flag cfg
          then [(''earth_shadow'', VFloat (Fl (if sun_elevation < 0 then 1 else 0)))] else []))"

text \<open>\<open>len([v for v in visibility_data if v.get('has_visibility', False)])\<close>.\<close>

definition count_visible :: "pyval \<Rightarrow> pyval option" where
  "count_visible vis_data =
     (case for_each vis_data (\<lambda>v. py_get v ''has_visibility'' (VBool False)) of
        None \<Rightarrow> None
      | Some flags \<Rightarrow> Some (VInt (int (length (filter truthy flags)))))"

text \<open>
  \<open>min(1.0, total_power / (total_satellites * 100.0))\<close>, with \<open>total_power\<close> the \<open>sum\<close> of the
  satellites' power consumption; 0.0 without satellites.
\<close>

definition consumption :: "pyval \<Rightarrow> pyval option" where
  "consumption sat =
     (case py_get sat ''payload_status'' (VDict []) of
        Some (VDict payload) \<Rightarrow> Some (dict_get payload ''power_consumption'' (VFloat (Fl 80)))
      | _ \<Rightarrow> None)"

definition power_utilization :: "pyval \<Rightarrow> nat \<Rightarrow> pyval option" where
  "power_utilization sats total_satellites =
     (if total_satellites > 0 then
        (case for_each sats consumption of
           None \<Rightarrow> None
         | Some amounts \<Rightarrow>
             (case py_sum amounts of
                None \<Rightarrow> None
              | Some total_power \<Rightarrow>
                  (case py_div total_power (VFloat (Fl (real total_satellites * 100))) of
                     None \<Rightarrow> None
                   | Some avg \<Rightarrow> py_min (VFloat (Fl 1)) avg)))
      else Some zero_f)"

text \<open>
  \<open>any(v.get('missile_id') == m.get('missile_id') and v.get('has_visibility') for v in ...)\<close>:
  the records are tried in order up to the first that covers the missile.
\<close>

fun covered_by :: "pyval \<Rightarrow> pyval list \<Rightarrow> bool option" where
  "covered_by m [] = Some False"
| "covered_by m (v # vs) =
     (case (py_get v ''missile_id'' VNone, py_get m ''missile_id'' VNone) of
        (Some vid, Some mid) \<Rightarrow>
          if py_eq vid mid \<and> truthy (case py_get v ''has_visibility'' VNone of None \<Rightarrow> VNone | Some h \<Rightarrow> h)
          then Some True else covered_by m vs
      | _ \<Rightarrow> None)"

definition coverage_gap_ratio :: "pyval \<Rightarrow> nat \<Rightarrow> pyval \<Rightarrow> pyval option" where
  "coverage_gap_ratio ms num_missiles vis_data =
     (case py_iter ms of
        None \<Rightarrow> None
      | Some missile_list \<Rightarrow>
          (case those (map (\<lambda>m. case py_iter vis_data of None \<Rightarrow> None
                                  | Some recs \<Rightarrow> covered_by m recs) missile_list) of
             None \<Rightarrow> None
           | Some found \<Rightarrow>
               if truthy ms
               then Some (VFloat (Fl (real (length (filter (\<lambda>c. \<not> c) found)) / real num_missiles)))
               else Some zero_f))"

definition extract_mission_states :: "state_space_config \<Rightarrow> pydict \<Rightarrow> pyval \<Rightarrow> pyval \<Rightarrow> pydict option" where
  "extract_mission_states cfg base_data sats ms =
     (case (py_len sats, py_len ms) of
        (Some num_satellites, Some num_missiles) \<Rightarrow>
          groups
            [Some [(''active_satellites'', VInt (int num_satellites)),
                   (''active_missiles'', VInt (int num_missiles)),
                   (''mission_progress'', dict_get base_data ''simulation_progress'' zero_f)],
             entry (mission_tracking_assignments_flag cfg) ''active_tracking_assignments''
               (count_visible (dict_get base_data ''visibility'' (VList []))),
             entry (mission_resource_utilization_flag cfg) ''power_utilization''
               (power_utilization sats num_satellites),
             entry (mission_coverage_gaps_flag cfg) ''coverage_gap_ratio''
               (coverage_gap_ratio ms num_missiles (dict_get base_data ''visibility'' (VList [])))]
      | _ \<Rightarrow> None)"

subsection \<open>The state vector\<close>

definition get_empty_state :: pydict where
  "get_empty_state =
     [(''satellite_positions'', VList []),
      (''satellite_velocities'', VList []),
      (''satellite_attitudes'', VList []),
      (''missile_positions'', VList []),
      (''missile_velocities'', VList []),
      (''visibility_matrix'', VList []),
      (''coverage_ratio'', VFloat (Fl 0)),
      (''mission_progress'', VFloat (Fl 0)),
      (''active_satellites'', VInt 0),
      (''active_missiles'', VInt 0),
      (''time_of_day'', VFloat (Fl 0))]"

text \<open>
  The body of the \<open>try\<close> of \<open>_extract_state_vector\<close>: five \<open>state.update(...)\<close> calls on an
  empty dict; \<open>None\<close> when one of the helpers, or \<open>len\<close>, raises.
\<close>

definition extracted :: "runtime \<Rightarrow> state_space_config \<Rightarrow> pydict \<Rightarrow> pydict option" where
  "extracted rt cfg base_data =
     (let sats = dict_get base_data ''satellites'' (VList []);
          ms = dict_get base_data ''missiles'' (VList []);
          vis_data = dict_get base_data ''visibility'' (VList [])
      in case (extract_satellite_states cfg sats, extract_missile_states cfg ms,
               py_len sats, py_len ms) of
           (Some satellite_state, Some missile_state, Some num_satellites, Some num_missiles) \<Rightarrow>
             (case (extract_visibility_states vis_data num_satellites num_missiles,
                    extract_mission_states cfg base_data sats ms) of
                (Some visibility_part, Some mission_state) \<Rightarrow>
                  Some (dict_update
                         (dict_update
                            (dict_update
                               (dict_update (dict_update [] satellite_state) missile_state)
                               visibility_part)
                            (extract_environment_states rt cfg base_data))
                         mission_state)
              | _ \<Rightarrow> None)
         | _ \<Rightarrow> None)"

definition extract_state_vector :: "runtime \<Rightarrow> state_space_config \<Rightarrow> pydict \<Rightarrow> pydict" where
  "extract_state_vector rt cfg base_data =
     (case extracted rt cfg base_data of
        None \<Rightarrow> get_empty_state
      | Some state \<Rightarrow> state)"

subsection \<open>Coverage, as stated and as computed\<close>

text \<open>
  The coverage ratio in the words of the specification: the pairs of a satellite and a
  missile of the snapshot that some visibility record with \<open>has_visibility\<close> names, over
  satellite count times missile count; 0 when either count is 0.
\<close>

definition records :: "pyval \<Rightarrow> pyval list" where
  "records v = (case v of VList xs \<Rightarrow> xs | _ \<Rightarrow> [])"

definition field_of :: "pyval \<Rightarrow> string \<Rightarrow> pyval \<Rightarrow> pyval" where
  "field_of v k dflt = (case v of VDict d \<Rightarrow> dict_get d k dflt | _ \<Rightarrow> dflt)"

definition pair_seen :: "pyval list \<Rightarrow> pyval \<times> pyval \<Rightarrow> bool" where
  "pair_seen recs sm =
     list_ex (\<lambda>v. py_eq (field_of v ''satellite_id'' VNone) (field_of (fst sm) ''satellite_id'' VNone) \<and>
                   py_eq (field_of v ''missile_id'' VNone) (field_of (snd sm) ''missile_id'' VNone) \<and>
                   truthy (field_of v ''has_visibility'' VNone)) recs"

definition stated_coverage_ratio :: "pydict \<Rightarrow> real" where
  "stated_coverage_ratio base_data =
     (let sats = records (dict_get base_data ''satellites'' (VList []));
          ms = records (dict_get base_data ''missiles'' (VList []));
          recs = records (dict_get base_data ''visibility'' (VList []))
      in if sats = [] \<or> ms = [] then 0
         else real (length (filter (pair_seen recs) (List.product sats ms))) /
              real (length sats * length ms))"

text \<open>
  What the code counts instead. The visibility records are indexed by their own ids: the
  index of a record is the place of its satellite id among the sorted satellite ids that
  the visibility records mention, and the same for its missile id. An index pair is
  covered when the last record with that index has \<open>has_visibility\<close>; the covered pairs
  are the covered index pairs below the satellite count and the missile count.
\<close>

definition shown_at :: "pyval list \<Rightarrow> pyval list \<Rightarrow> pyval list \<Rightarrow> nat \<times> nat \<Rightarrow> bool" where
  "shown_at sat_ids missile_ids recs c =
     (case filter (\<lambda>v. index_of sat_ids (field_of v ''satellite_id'' (VStr [])) = Some (fst c) \<and>
                        index_of missile_ids (field_of v ''missile_id'' (VStr [])) = Some (snd c)) recs of
        [] \<Rightarrow> False
      | vs \<Rightarrow> truthy (field_of (last vs) ''has_visibility'' (VBool False)))"

definition covered_pairs :: "pyval \<Rightarrow> nat \<Rightarrow> nat \<Rightarrow> nat" where
  "covered_pairs vis_data num_satellites num_missiles =
     (case py_iter vis_data of
        None \<Rightarrow> 0
      | Some recs \<Rightarrow>
          (case (observed_ids ''satellite_id'' recs, observed_ids ''missile_id'' recs) of
             (Some sat_ids, Some missile_ids) \<Rightarrow>
               length (filter (shown_at sat_ids missile_ids recs)
                         (List.product [0 ..< num_satellites] [0 ..< num_missiles]))
           | _ \<Rightarrow> 0))"

text \<open>\<open>len(v)\<close> where it does not raise.\<close>

definition count_of :: "pyval \<Rightarrow> nat" where
  "count_of v = (case py_len v of None \<Rightarrow> 0 | Some n \<Rightarrow> n)"

subsection \<open>Example inputs\<close>

definition all_disabled :: state_space_config where
  "all_disabled =
     \<lparr>sat_position_flag = False, sat_velocity_flag = False, sat_attitude_flag = False,
      sat_orbital_elements_flag = False, sat_power_status_flag = False,
      sat_payload_status_flag = False,
      mis_position_flag = False, mis_velocity_flag = False,
      mis_trajectory_prediction_flag = False, mis_threat_level_flag = False,
      mis_flight_phase_flag = False, mis_remaining_time_flag = False,
      env_time_of_day_flag = False, env_sun_position_flag = False, env_earth_shadow_flag = False,
      mission_tracking_assignments_flag = False, mission_resource_utilization_flag = False,
      mission_coverage_gaps_flag = False\<rparr>"

definition bare_satellite :: "string \<Rightarrow> pyval" where
  "bare_satellite name = VDict [(''satellite_id'', VStr name)]"

definition bare_missile :: "string \<Rightarrow> pyval" where
  "bare_missile name = VDict [(''missile_id'', VStr name)]"

definition sees :: "string \<Rightarrow> string \<Rightarrow> bool \<Rightarrow> pyval" where
  "sees sat mis b =
     VDict [(''satellite_id'', VStr sat), (''missile_id'', VStr mis), (''has_visibility'', VBool b)]"

definition empty_snapshot :: pydict where
  "empty_snapshot = [(''satellites'', VList []), (''missiles'', VList []), (''visibility'', VList [])]"

definition small_snapshot :: pydict where
  "small_snapshot =
     [(''satellites'', VList [bare_satellite ''S1'', bare_satellite ''S2'']),
      (''missiles'', VList [bare_missile ''M1'']),
      (''visibility'', VList [sees ''S1'' ''M1'' True, sees ''S2'' ''M1'' False]),
      (''simulation_progress'', VFloat (Fl (1 / 2)))]"

text \<open>
  A snapshot whose satellite has \<open>payload_status: None\<close>, for a configuration that reads the
  power status; and a snapshot whose only visibility record names a satellite that is not
  in the snapshot.
\<close>

definition power_only :: state_space_config where
  "power_only = all_disabled\<lparr>sat_power_status_flag := True\<rparr>"

definition broken_snapshot :: pydict where
  "broken_snapshot =
     [(''satellites'', VList [VDict [(''satellite_id'', VStr ''S1''), (''payload_status'', VNone)]]),
      (''missiles'', VList [bare_missile ''M1'']),
      (''visibility'', VList [sees ''S1'' ''M1'' True])]"

definition stale_snapshot :: pydict where
  "stale_snapshot =
     [(''satellites'', VList [bare_satellite ''S1'']),
      (''missiles'', VList [bare_missile ''M1'']),
      (''visibility'', VList [sees ''S0'' ''M1'' True])]"

subsection \<open>Invariants of the visibility matrix\<close>

text \<open>
  A mark fits a matrix of \<open>ns\<close> rows and \<open>nm\<close> columns when its cell lies inside and its
  value is 0 or 1; a record names a cell when its two ids are found at the cell's two
  indices; a matrix is shaped when it has \<open>ns\<close> rows of \<open>nm\<close> entries, each 0 or 1.
\<close>

definition fits :: "nat \<Rightarrow> nat \<Rightarrow> ((nat \<times> nat) \<times> nat) option \<Rightarrow> bool" where
  "fits ns nm m = (case m of None \<Rightarrow> True | Some (c, b) \<Rightarrow> fst c < ns \<and> snd c < nm \<and> b \<le> 1)"

definition names :: "pyval list \<Rightarrow> pyval list \<Rightarrow> pyval \<Rightarrow> nat \<times> nat \<Rightarrow> bool" where
  "names sids mids v c =
     (index_of sids (field_of v ''satellite_id'' (VStr [])) = Some (fst c) \<and>
      index_of mids (field_of v ''missile_id'' (VStr [])) = Some (snd c))"

definition shaped :: "nat \<Rightarrow> nat \<Rightarrow> nat list list \<Rightarrow> bool" where
  "shaped ns nm M = (length M = ns \<and> (\<forall>row \<in> set M. length row = nm \<and> (\<forall>x \<in> set row. x \<le> 1)))"

section \<open>Data quality gate\<close>

text \<open>
  \<open>data_quality_validator.py\<close>. A data point is the dataclass \<open>RLHFDataPoint\<close>; its
  timestamp is a \<open>datetime\<close>, kept as microseconds, and its reward a float, which may be
  an infinity or NaN. The \<open>info\<close> payload is a dict whose entries the collector fills; each
  entry may be missing (a hand-made data point has \<open>info = {}\<close>).
\<close>

datatype finding =
    Msg string
  | MsgValue string pyfloat
  | MsgValues string pyfloat pyfloat
  | MsgTimes string int int

text \<open>
  An error, warning or anomaly message. The code builds each as a formatted string;
  \<open>Msg\<close> is a literal text, the other constructors carry the text together with the
  numbers or timestamps the format inserts.
\<close>

record completeness_result =
  is_complete :: bool
  completeness_score :: real
  missing_fields :: "string list"
  present_fields :: "string list"
  required_completeness :: real
  optional_completeness :: real

record format_result =
  format_is_valid :: bool
  format_errors :: "finding list"

record physics_result =
  physics_is_valid :: bool
  constraint_violations :: "finding list"

record temporal_result =
  is_consistent :: bool
  inconsistencies :: "finding list"

record anomaly_result =
  found_anomalies :: "finding list"
  anomaly_score :: real

record quality_metrics =
  qm_completeness :: "completeness_result option"
  qm_format :: "format_result option"
  qm_physics :: "physics_result option"
  qm_temporal :: "temporal_result option"
  qm_anomaly_score :: "real option"

record validation_result =
  is_valid :: bool
  validation_score :: real
  errors :: "finding list"
  warnings :: "finding list"
  anomalies :: "finding list"
  metrics :: quality_metrics

record info_payload =
  info_base_data :: "pydict option"
  info_simulation_progress :: "pyval option"
  info_action_result :: "pyval option"
  info_validation_result :: "validation_result option"

record data_point =
  dp_timestamp :: int
  dp_state :: pydict
  dp_action :: pydict
  dp_reward :: pyfloat
  dp_next_state :: pydict
  dp_done :: bool
  dp_info :: info_payload

record history_record =
  h_timestamp :: int
  h_reward :: pyfloat
  h_state :: pydict
  h_validation_score :: real

record validation_stats =
  total_validations :: nat
  passed_validations :: nat
  failed_validations :: nat
  anomaly_detections :: nat

record validator =
  stats :: validation_stats
  historical_data :: "history_record list"

definition max_history_size :: nat where
  "max_history_size = 1000"

text \<open>
  The configuration \<open>data_quality\<close>: the flags of \<open>validation_rules\<close> and
  \<open>anomaly_detection\<close> (each read with default \<open>False\<close>) and the lists and threshold of
  \<open>completeness_checks\<close> (defaults \<open>[]\<close>, \<open>[]\<close>, 0.05).
\<close>

record quality_config =
  rule_position_bounds :: bool
  rule_velocity_limits :: bool
  rule_attitude_constraints :: bool
  required_fields :: "string list"
  optional_fields :: "string list"
  missing_data_threshold :: real
  detect_statistical :: bool
  detect_physical :: bool
  detect_temporal :: bool

subsection \<open>Completeness\<close>

text \<open>
  \<open>_check_field_exists\<close> walks a dotted path with \<open>hasattr\<close>/\<open>getattr\<close> first and dict
  lookup second. The attributes Python itself gives a value (the methods of a dict, a
  list, a float, the special attributes of the dataclass instance) belong to the
  interpreter; they are the functions \<open>builtin_attr\<close> and \<open>instance_attr\<close> of \<open>runtime\<close>.
\<close>

fun split_on :: "char \<Rightarrow> string \<Rightarrow> string list" where
  "split_on c [] = [[]]"
| "split_on c (x # xs) =
     (if x = c then [] # split_on c xs
      else (case split_on c xs of [] \<Rightarrow> [[x]] | p # ps \<Rightarrow> (x # p) # ps))"

text \<open>
  The \<open>info\<close> dict as the validator sees it: the keys that are set. The validation result
  is attached after the validation, so its own content is never walked.
\<close>

definition info_dict :: "info_payload \<Rightarrow> pydict" where
  "info_dict i =
     (case info_base_data i of None \<Rightarrow> [] | Some b \<Rightarrow> [(''base_data'', VDict b)]) @
     (case info_simulation_progress i of None \<Rightarrow> [] | Some p \<Rightarrow> [(''simulation_progress'', p)]) @
     (case info_action_result i of None \<Rightarrow> [] | Some r \<Rightarrow> [(''action_result'', r)]) @
     (if info_validation_result i \<noteq> None then [(''validation_result'', VObject ''dict'')] else [])"

definition dp_getattr :: "runtime \<Rightarrow> data_point \<Rightarrow> string \<Rightarrow> pyval option" where
  "dp_getattr rt dp name =
     (if name = ''timestamp'' then Some (VObject ''datetime'')
      else if name = ''state'' then Some (VDict (dp_state dp))
      else if name = ''action'' then Some (VDict (dp_action dp))
      else if name = ''reward'' then Some (VFloat (dp_reward dp))
      else if name = ''next_state'' then Some (VDict (dp_next_state dp))
      else if name = ''done'' then Some (VBool (dp_done dp))
      else if name = ''info'' then Some (VDict (info_dict (dp_info dp)))
      else instance_attr rt name)"

fun resolve :: "runtime \<Rightarrow> pyval \<Rightarrow> string list \<Rightarrow> pyval option" where
  "resolve rt current [] = Some current"
| "resolve rt current (part # parts) =
     (case builtin_attr rt current part of
        Some v \<Rightarrow> resolve rt v parts
      | None \<Rightarrow>
          (case current of
             VDict d \<Rightarrow> (case map_of d part of None \<Rightarrow> None | Some v \<Rightarrow> resolve rt v parts)
           | _ \<Rightarrow> None))"

definition check_field_exists :: "runtime \<Rightarrow> data_point \<Rightarrow> string \<Rightarrow> bool" where
  "check_field_exists rt dp field_path =
     (case split_on (CHR ''.'') field_path of
        [] \<Rightarrow> True
      | part # parts \<Rightarrow>
          (case dp_getattr rt dp part of
             None \<Rightarrow> False
           | Some v \<Rightarrow> (case resolve rt v parts of None \<Rightarrow> False | Some r \<Rightarrow> r \<noteq> VNone)))"

definition check_data_completeness :: "runtime \<Rightarrow> quality_config \<Rightarrow> data_point \<Rightarrow> completeness_result" where
  "check_data_completeness rt cfg dp =
     (let missing = filter (\<lambda>f. \<not> check_field_exists rt dp f) (required_fields cfg);
          present = filter (check_field_exists rt dp) (required_fields cfg);
          optional_present = length (filter (check_field_exists rt dp) (optional_fields cfg));
          required_c = (if required_fields cfg \<noteq> []
                        then real (length present) / real (length (required_fields cfg)) else 1);
          optional_c = (if optional_fields cfg \<noteq> []
                        then real optional_present / real (length (optional_fields cfg)) else 1);
          overall = 0.8 * required_c + 0.2 * optional_c
      in \<lparr>is_complete = (length missing = 0 \<and> overall \<ge> 1 - missing_data_threshold cfg),
          completeness_score = overall,
          missing_fields = missing,
          present_fields = present,
          required_completeness = required_c,
          optional_completeness = optional_c\<rparr>)"

subsection \<open>Format\<close>

fun is_list :: "pyval \<Rightarrow> bool" where
  "is_list (VList xs) = True"
| "is_list _ = False"

fun is_dict :: "pyval \<Rightarrow> bool" where
  "is_dict (VDict d) = True"
| "is_dict _ = False"

text \<open>
  \<open>all(isinstance(x, (int, float)) and np.isfinite(x) for x in pos)\<close>: the entries are
  tried in order up to the first that fails; \<open>np.isfinite\<close> raises on an \<open>int\<close> that numpy
  cannot hold.
\<close>

fun all_finite_numbers :: "pyval list \<Rightarrow> bool option" where
  "all_finite_numbers [] = Some True"
| "all_finite_numbers (x # xs) =
     (case to_num x of
        None \<Rightarrow> Some False
      | Some n \<Rightarrow>
          (case np_isfinite n of
             None \<Rightarrow> None
           | Some ok \<Rightarrow> if ok then all_finite_numbers xs else Some False))"

fun is_int_or_bool :: "pyval \<Rightarrow> bool" where
  "is_int_or_bool (VBool b) = True"
| "is_int_or_bool (VInt i) = True"
| "is_int_or_bool _ = False"

fun elements :: "pyval \<Rightarrow> pyval list" where
  "elements (VList xs) = xs"
| "elements _ = []"

text \<open>
  A loop inside a \<open>try\<close>: when an iteration raises, the messages found so far are kept and
  the rest of the \<open>try\<close> is skipped. \<open>run_checks\<close> is such a loop: the messages of the
  iterations that ran, and whether all of them ran. \<open>run_sections\<close> is a sequence of loops
  in one \<open>try\<close>, whose \<open>except\<close> adds one message.
\<close>

fun run_checks :: "('a \<Rightarrow> finding list option) \<Rightarrow> 'a list \<Rightarrow> finding list \<times> bool" where
  "run_checks f [] = ([], True)"
| "run_checks f (x # xs) =
     (case f x of
        None \<Rightarrow> ([], False)
      | Some fs \<Rightarrow> (case run_checks f xs of (rest, ok) \<Rightarrow> (fs @ rest, ok)))"

fun run_sections :: "(finding list \<times> bool) list \<Rightarrow> string \<Rightarrow> finding list" where
  "run_sections [] err = []"
| "run_sections ((fs, ok) # rest) err = (if ok then fs @ run_sections rest err else fs @ [Msg err])"

definition position_format_check :: "string \<Rightarrow> nat \<times> pyval \<Rightarrow> finding list option" where
  "position_format_check kind ip =
     (if \<not> is_list (snd ip) \<or> length (elements (snd ip)) \<noteq> 3
      then Some [Msg (''invalid_'' @ kind @ ''_position_'' @ str_nat (fst ip))]
      else (case all_finite_numbers (elements (snd ip)) of
              None \<Rightarrow> None
            | Some ok \<Rightarrow>
                if \<not> ok then Some [Msg (''invalid_'' @ kind @ ''_position_values_'' @ str_nat (fst ip))]
                else Some []))"

definition position_format_errors :: "string \<Rightarrow> pyval \<Rightarrow> finding list \<times> bool" where
  "position_format_errors kind positions =
     (if \<not> is_list positions then ([Msg (''invalid_'' @ kind @ ''_positions_type'')], True)
      else run_checks (position_format_check kind) (enumerate 0 (elements positions)))"

definition matrix_format_errors :: "pyval \<Rightarrow> finding list" where
  "matrix_format_errors matrix =
     (if \<not> is_list matrix then [Msg ''invalid_visibility_matrix_type'']
      else concat (map (\<lambda>ir.
             if \<not> is_list (snd ir)
             then [Msg (''invalid_visibility_matrix_row_'' @ str_nat (fst ir))]
             else if \<not> list_all is_int_or_bool (elements (snd ir))
             then [Msg (''invalid_visibility_matrix_values_'' @ str_nat (fst ir))]
             else [])
           (enumerate 0 (elements matrix))))"

definition validate_state_format :: "pydict \<Rightarrow> finding list" where
  "validate_state_format st =
     run_sections
       [(case map_of st ''satellite_positions'' of None \<Rightarrow> ([], True)
         | Some v \<Rightarrow> position_format_errors ''satellite'' v),
        (case map_of st ''missile_positions'' of None \<Rightarrow> ([], True)
         | Some v \<Rightarrow> position_format_errors ''missile'' v),
        (case map_of st ''visibility_matrix'' of None \<Rightarrow> ([], True)
         | Some v \<Rightarrow> (matrix_format_errors v, True))]
       ''state_format_error''"

definition assignment_format_errors :: "pyval \<Rightarrow> finding list" where
  "assignment_format_errors assignments =
     (if \<not> is_list assignments then [Msg ''invalid_target_assignments_type'']
      else concat (map (\<lambda>ia.
             (case snd ia of
                VDict a \<Rightarrow>
                  if \<not> (dict_has a ''satellite_id'' \<and> dict_has a ''target_id'')
                  then [Msg (''incomplete_target_assignment_'' @ str_nat (fst ia))] else []
              | _ \<Rightarrow> [Msg (''invalid_target_assignment_'' @ str_nat (fst ia))]))
           (enumerate 0 (elements assignments))))"

definition validate_action_format :: "pydict \<Rightarrow> finding list" where
  "validate_action_format act =
     (case map_of act ''satellite_actions'' of
        None \<Rightarrow> []
      | Some (VDict sat_actions) \<Rightarrow>
          concat (map (\<lambda>kv. if \<not> is_dict (snd kv)
                             then [Msg (''invalid_satellite_action_'' @ fst kv)] else []) sat_actions)
      | Some _ \<Rightarrow> [Msg ''invalid_satellite_actions_type'']) @
     (case map_of act ''mission_actions'' of
        None \<Rightarrow> []
      | Some (VDict mission_actions) \<Rightarrow>
          (case map_of mission_actions ''target_assignments'' of
             None \<Rightarrow> []
           | Some assignments \<Rightarrow> assignment_format_errors assignments)
      | Some _ \<Rightarrow> [Msg ''invalid_mission_actions_type''])"

text \<open>
  \<open>_validate_data_format\<close>. A data point has all its attributes, its reward is a float and
  its timestamp a \<open>datetime\<close>, so the state, the action and a reward that is not finite can
  add errors.
\<close>

definition validate_data_format :: "data_point \<Rightarrow> format_result" where
  "validate_data_format dp =
     (let errs = validate_state_format (dp_state dp) @ validate_action_format (dp_action dp) @
                 (if \<not> is_finite (dp_reward dp) then [Msg ''invalid_reward_value''] else [])
      in \<lparr>format_is_valid = (length errs = 0), format_errors = errs\<rparr>)"

subsection \<open>Physical constraints\<close>

text \<open>\<open>for i, v in enumerate(state[key])\<close> with the loop body \<open>f\<close>; a missing key skips the loop.\<close>

definition check_each :: "pydict \<Rightarrow> string \<Rightarrow> (nat \<times> pyval \<Rightarrow> finding list option) \<Rightarrow> finding list \<times> bool" where
  "check_each st key f =
     (case map_of st key of
        None \<Rightarrow> ([], True)
      | Some v \<Rightarrow> (case py_iter v of None \<Rightarrow> ([], False) | Some xs \<Rightarrow> run_checks f (enumerate 0 xs)))"

text \<open>Two loops in one \<open>try\<close>: the second runs only when the first did not raise.\<close>

definition in_one_try :: "finding list \<times> bool \<Rightarrow> finding list \<times> bool \<Rightarrow> string \<Rightarrow> finding list" where
  "in_one_try first second err =
     (if \<not> snd first then fst first @ [Msg err]
      else if \<not> snd second then fst first @ fst second @ [Msg err]
      else fst first @ fst second)"

text \<open>
  \<open>np.sqrt(v[0]*v[0] + ... + v[n-1]*v[n-1])\<close> for \<open>n\<close> at least 1: raises unless every
  component is a number, when a product or the sum needs an \<open>int\<close> too large for a float,
  and when the sum is an \<open>int\<close> that numpy cannot hold.
\<close>

definition norm_of :: "pyval \<Rightarrow> nat \<Rightarrow> pyfloat option" where
  "norm_of v n =
     (case those (map (\<lambda>i. case py_index v i of None \<Rightarrow> None | Some c \<Rightarrow> py_mul c c) [0 ..< n]) of
        None \<Rightarrow> None
      | Some [] \<Rightarrow> None
      | Some (s # squares) \<Rightarrow>
          (case py_sum_from s squares of
             None \<Rightarrow> None
           | Some summed \<Rightarrow> (case to_num summed of None \<Rightarrow> None | Some t \<Rightarrow> np_sqrt t)))"

definition earth_radius :: real where "earth_radius = 6371"
definition min_altitude :: real where "min_altitude = 200"
definition max_altitude_bound :: real where "max_altitude_bound = 50000"
definition max_orbital_velocity :: real where "max_orbital_velocity = 15"
definition max_missile_velocity :: real where "max_missile_velocity = 8"
definition quaternion_norm_tolerance :: real where "quaternion_norm_tolerance = 1 / 100"
definition max_time_gap :: real where "max_time_gap = 3600"
definition min_time_step :: real where "min_time_step = 1"

definition satellite_altitude_check :: "nat \<times> pyval \<Rightarrow> finding list option" where
  "satellite_altitude_check ip =
     (case py_len (snd ip) of
        None \<Rightarrow> None
      | Some n \<Rightarrow>
          if n \<ge> 3 then
            (case norm_of (snd ip) 3 of
               None \<Rightarrow> None
             | Some distance \<Rightarrow>
                 (let altitude = fsub distance (Fl earth_radius)
                  in if flt altitude (Fl min_altitude)
                     then Some [MsgValue (''satellite_'' @ str_nat (fst ip) @ ''_altitude_too_low'') altitude]
                     else if flt (Fl max_altitude_bound) altitude
                     then Some [MsgValue (''satellite_'' @ str_nat (fst ip) @ ''_altitude_too_high'') altitude]
                     else Some []))
          else Some [])"

definition missile_altitude_check :: "nat \<times> pyval \<Rightarrow> finding list option" where
  "missile_altitude_check ip =
     (case py_len (snd ip) of
        None \<Rightarrow> None
      | Some n \<Rightarrow>
          if n \<ge> 3 then
            (case norm_of (snd ip) 3 of
               None \<Rightarrow> None
             | Some distance \<Rightarrow>
                 (let altitude = fsub distance (Fl earth_radius)
                  in if flt altitude (Fl (- 1))
                     then Some [MsgValue (''missile_'' @ str_nat (fst ip) @ ''_underground'') altitude]
                     else if flt (Fl max_altitude_bound) altitude
                     then Some [MsgValue (''missile_'' @ str_nat (fst ip) @ ''_altitude_too_high'') altitude]
                     else Some []))
          else Some [])"

definition check_position_bounds :: "pydict \<Rightarrow> finding list" where
  "check_position_bounds st =
     in_one_try (check_each st ''satellite_positions'' satellite_altitude_check)
                (check_each st ''missile_positions'' missile_altitude_check)
                ''position_bounds_error''"

definition speed_check :: "string \<Rightarrow> real \<Rightarrow> nat \<times> pyval \<Rightarrow> finding list option" where
  "speed_check kind limit iv =
     (case py_len (snd iv) of
        None \<Rightarrow> None
      | Some n \<Rightarrow>
          if n \<ge> 3 then
            (case norm_of (snd iv) 3 of
               None \<Rightarrow> None
             | Some speed \<Rightarrow>
                 if flt (Fl limit) speed
                 then Some [MsgValue (kind @ ''_'' @ str_nat (fst iv) @ ''_speed_too_high'') speed]
                 else Some [])
          else Some [])"

definition check_velocity_limits :: "pydict \<Rightarrow> finding list" where
  "check_velocity_limits st =
     in_one_try (check_each st ''satellite_velocities'' (speed_check ''satellite'' max_orbital_velocity))
                (check_each st ''missile_velocities'' (speed_check ''missile'' max_missile_velocity))
                ''velocity_limits_error''"

definition quaternion_check :: "nat \<times> pyval \<Rightarrow> finding list option" where
  "quaternion_check ia =
     (case py_len (snd ia) of
        None \<Rightarrow> None
      | Some n \<Rightarrow>
          if n \<ge> 4 then
            (case norm_of (snd ia) 4 of
               None \<Rightarrow> None
             | Some qnorm \<Rightarrow>
                 if flt (Fl quaternion_norm_tolerance) (fabs (fsub qnorm (Fl 1)))
                 then Some [MsgValue (''satellite_'' @ str_nat (fst ia) @ ''_quaternion_norm_invalid'') qnorm]
                 else Some [])
          else Some [])"

definition check_attitude_constraints :: "pydict \<Rightarrow> finding list" where
  "check_attitude_constraints st =
     in_one_try (check_each st ''satellite_attitudes'' quaternion_check) ([], True)
                ''attitude_constraints_error''"

definition check_physical_constraints :: "quality_config \<Rightarrow> data_point \<Rightarrow> physics_result" where
  "check_physical_constraints cfg dp =
     (let violations =
            (if rule_position_bounds cfg then check_position_bounds (dp_state dp) else []) @
            (if rule_velocity_limits cfg then check_velocity_limits (dp_state dp) else []) @
            (if rule_attitude_constraints cfg then check_attitude_constraints (dp_state dp) else [])
      in \<lparr>physics_is_valid = (length violations = 0), constraint_violations = violations\<rparr>)"

subsection \<open>Temporal consistency\<close>

definition total_seconds :: "int \<Rightarrow> real" where
  "total_seconds microseconds = real_of_int microseconds / 1000000"

definition check_temporal_consistency :: "validator \<Rightarrow> data_point \<Rightarrow> temporal_result" where
  "check_temporal_consistency v dp =
     (let found =
            (if historical_data v \<noteq> [] then
               (let time_gap = total_seconds (dp_timestamp dp - h_timestamp (last (historical_data v)))
                in if time_gap > max_time_gap then [MsgValue ''time_gap_too_large'' (Fl time_gap)]
                   else if time_gap < min_time_step then [MsgValue ''time_step_too_small'' (Fl time_gap)]
                   else [])
             else [])
      in \<lparr>is_consistent = (length found = 0), inconsistencies = found\<rparr>)"

subsection \<open>Anomaly detection\<close>

text \<open>
  The 3-sigma rule on the rewards of the history; \<open>np.mean\<close> and \<open>np.std\<close> are the library's.
\<close>

definition detect_statistical_outliers :: "runtime \<Rightarrow> validator \<Rightarrow> data_point \<Rightarrow> finding list" where
  "detect_statistical_outliers rt v dp =
     (let historical_rewards = map h_reward (historical_data v)
      in if length historical_rewards < 5 then []
         else
           (case (np_mean rt (VList (map VFloat historical_rewards)),
                  np_std rt (VList (map VFloat historical_rewards))) of
              (Some mean_reward, Some std_reward) \<Rightarrow>
                if flt (fmul (Fl 3) std_reward) (fabs (fsub (dp_reward dp) mean_reward))
                then [MsgValues ''reward_outlier'' (dp_reward dp) mean_reward]
                else []
            | _ \<Rightarrow> [Msg ''statistical_outlier_error'']))"

text \<open>\<open>np.sqrt(sum((c - l)**2 for c, l in zip(curr_pos, last_pos)))\<close>.\<close>

definition displacement :: "pyval \<Rightarrow> pyval \<Rightarrow> pyfloat option" where
  "displacement curr_pos last_pos =
     (case (py_iter curr_pos, py_iter last_pos) of
        (Some cs, Some ls) \<Rightarrow>
          (case those (map (\<lambda>cl. case py_sub (fst cl) (snd cl) of
                                    None \<Rightarrow> None
                                  | Some d \<Rightarrow> py_square d)
                           (zip cs ls)) of
             None \<Rightarrow> None
           | Some ds \<Rightarrow>
               (case py_sum ds of
                  None \<Rightarrow> None
                | Some summed \<Rightarrow> (case to_num summed of None \<Rightarrow> None | Some t \<Rightarrow> np_sqrt t)))
      | _ \<Rightarrow> None)"

definition position_jump_check :: "nat \<times> pyval \<times> pyval \<Rightarrow> finding list option" where
  "position_jump_check icl =
     (case py_len (fst (snd icl)) of
        None \<Rightarrow> None
      | Some n \<Rightarrow>
          if n \<ge> 3 then
            (case py_len (snd (snd icl)) of
               None \<Rightarrow> None
             | Some m \<Rightarrow>
                 if m \<ge> 3 then
                   (case displacement (fst (snd icl)) (snd (snd icl)) of
                      None \<Rightarrow> None
                    | Some distance \<Rightarrow>
                        if flt (Fl (15 * 300)) distance
                        then Some [MsgValue (''satellite_'' @ str_nat (fst icl) @ ''_position_jump'') distance]
                        else Some [])
                 else Some [])
          else Some [])"

definition detect_physical_anomalies :: "validator \<Rightarrow> data_point \<Rightarrow> finding list" where
  "detect_physical_anomalies v dp =
     (case map_of (dp_state dp) ''satellite_positions'' of
        None \<Rightarrow> []
      | Some current_positions \<Rightarrow>
          if historical_data v = [] then []
          else
            (let last_positions =
                   dict_get (h_state (last (historical_data v))) ''satellite_positions'' (VList []);
                 looped =
                   (case py_iter current_positions of
                      None \<Rightarrow> ([], False)
                    | Some cs \<Rightarrow>
                        (case py_iter last_positions of
                           None \<Rightarrow> ([], False)
                         | Some ls \<Rightarrow> run_checks position_jump_check (enumerate 0 (zip cs ls))))
             in in_one_try looped ([], True) ''physical_anomaly_error''))"

definition detect_temporal_anomalies :: "validator \<Rightarrow> data_point \<Rightarrow> finding list" where
  "detect_temporal_anomalies v dp =
     (if historical_data v = [] then []
      else if dp_timestamp dp < h_timestamp (last (historical_data v))
      then [MsgTimes ''time_regression'' (dp_timestamp dp) (h_timestamp (last (historical_data v)))]
      else [])"

definition detect_anomalies :: "runtime \<Rightarrow> quality_config \<Rightarrow> validator \<Rightarrow> data_point \<Rightarrow> anomaly_result" where
  "detect_anomalies rt cfg v dp =
     (if length (historical_data v) < 10
      then \<lparr>found_anomalies = [], anomaly_score = 0\<rparr>
      else
        (let found =
               (if detect_statistical cfg then detect_statistical_outliers rt v dp else []) @
               (if detect_physical cfg then detect_physical_anomalies v dp else []) @
               (if detect_temporal cfg then detect_temporal_anomalies v dp else [])
         in \<lparr>found_anomalies = found, anomaly_score = min 1 (real (length found) / 10)\<rparr>))"

subsection \<open>Score, history and the gate\<close>

definition calculate_quality_score :: "validation_result \<Rightarrow> real" where
  "calculate_quality_score r =
     (let score = 1 - real (length (errors r)) * 0.3
                    - real (length (warnings r)) * 0.1
                    - real (length (anomalies r)) * 0.05;
          scaled = (case qm_completeness (metrics r) of
                      None \<Rightarrow> score
                    | Some c \<Rightarrow> score * completeness_score c)
      in max 0 (min 1 scaled))"

definition update_historical_data :: "data_point \<Rightarrow> validation_result \<Rightarrow> validator \<Rightarrow> validator" where
  "update_historical_data dp r v =
     (let history = historical_data v @
                      [\<lparr>h_timestamp = dp_timestamp dp, h_reward = dp_reward dp,
                        h_state = dp_state dp, h_validation_score = validation_score r\<rparr>]
      in v\<lparr>historical_data :=
             (if length history > max_history_size
              then drop (length history - max_history_size) history else history)\<rparr>)"

definition validate_rlhf_data_point ::
  "runtime \<Rightarrow> quality_config \<Rightarrow> data_point \<Rightarrow> validator \<Rightarrow> validation_result \<times> validator" where
  "validate_rlhf_data_point rt cfg dp v =
     (let completeness = check_data_completeness rt cfg dp;
          fmt = validate_data_format dp;
          physics = check_physical_constraints cfg dp;
          temporal = check_temporal_consistency v dp;
          anomaly = (if detect_statistical cfg then Some (detect_anomalies rt cfg v dp) else None);
          found = (case anomaly of None \<Rightarrow> [] | Some a \<Rightarrow> found_anomalies a);
          r0 = \<lparr>is_valid = is_complete completeness \<and> format_is_valid fmt,
                validation_score = 1,
                errors = (if \<not> is_complete completeness
                          then map Msg (missing_fields completeness) else []) @
                         (if \<not> format_is_valid fmt then format_errors fmt else []),
                warnings = (if \<not> physics_is_valid physics then constraint_violations physics else []) @
                           (if \<not> is_consistent temporal then inconsistencies temporal else []),
                anomalies = found,
                metrics = \<lparr>qm_completeness = Some completeness, qm_format = Some fmt,
                           qm_physics = Some physics, qm_temporal = Some temporal,
                           qm_anomaly_score = map_option anomaly_score anomaly\<rparr>\<rparr>;
          r = r0\<lparr>validation_score := calculate_quality_score r0\<rparr>;
          s = stats v;
          s' = s\<lparr>total_validations := total_validations s + 1,
                 anomaly_detections := anomaly_detections s + (if found \<noteq> [] then 1 else 0),
                 passed_validations := passed_validations s + (if is_valid r then 1 else 0),
                 failed_validations := failed_validations s + (if is_valid r then 0 else 1)\<rparr>
      in (r, update_historical_data dp r (v\<lparr>stats := s'\<rparr>)))"

section \<open>Reward model\<close>

text \<open>
  \<open>reward_calculator.py\<close>. The configuration \<open>reward_components\<close> is a set of flags
  \<open>component.metric\<close>, each read with default \<open>False\<close>. Every metric is computed inside its
  own \<open>try\<close> whose \<open>except\<close> returns 0.0; a metric below is an \<open>option\<close> computation (with
  \<open>None\<close> for a raised exception) followed by \<open>or_zero\<close>. The state and the action are
  dicts of any content; every metric that returns does return a float.
\<close>

record reward_config =
  rw_coverage_time :: bool
  rw_tracking_accuracy :: bool
  rw_target_detection :: bool
  rw_power_consumption :: bool
  rw_communication_bandwidth :: bool
  rw_computational_load :: bool
  rw_threat_neutralization :: bool
  rw_response_time :: bool
  rw_coverage_completeness :: bool

definition or_zero :: "pyfloat option \<Rightarrow> pyfloat" where
  "or_zero r = (case r of None \<Rightarrow> Fl 0 | Some x \<Rightarrow> x)"


text \<open>
  A component: \<open>r = 0.0\<close>, then \<open>r += w * metric\<close> for each metric whose flag is on, then
  \<open>np.clip(r, 0.0, 1.0)\<close>.
\<close>

definition weighted_sum :: "(bool \<times> real \<times> pyfloat) list \<Rightarrow> pyfloat" where
  "weighted_sum terms =
     foldl (\<lambda>acc t. if fst t then fadd acc (fmul (Fl (fst (snd t))) (snd (snd t))) else acc)
           (Fl 0) terms"

subsection \<open>Tracking performance\<close>

definition calculate_coverage_reward :: "pydict \<Rightarrow> pyfloat" where
  "calculate_coverage_reward st =
     or_zero
       (case (as_float (dict_get st ''mission_progress'' (VFloat (Fl 0))),
              as_float (dict_get st ''coverage_ratio'' (VFloat (Fl 0)))) of
          (Some mission_progress, Some coverage_ratio) \<Rightarrow>
            Some (fmul coverage_ratio (fadd (Fl (1 / 2)) (fmul (Fl (1 / 2)) mission_progress)))
        | _ \<Rightarrow> None)"

definition pointing_score :: "pyval \<Rightarrow> pyval option" where
  "pointing_score sat_action =
     (case py_get sat_action ''payload_pointing'' (VDict []) of
        Some (VDict payload_pointing) \<Rightarrow>
          (let pointing_mode = dict_get payload_pointing ''pointing_mode'' (VStr ''fixed'')
           in Some (VFloat (Fl (if pointing_mode = VStr ''tracking'' then 9 / 10
                                else if pointing_mode = VStr ''scanning'' then 6 / 10
                                else 3 / 10))))
      | _ \<Rightarrow> None)"

definition calculate_accuracy_reward :: "runtime \<Rightarrow> pydict \<Rightarrow> pyfloat" where
  "calculate_accuracy_reward rt act =
     (let satellite_actions = dict_get act ''satellite_actions'' (VDict [])
      in if \<not> truthy satellite_actions then Fl 0
         else or_zero
                (case py_values satellite_actions of
                   None \<Rightarrow> None
                 | Some sat_actions \<Rightarrow>
                     (case those (map pointing_score sat_actions) of
                        None \<Rightarrow> None
                      | Some accuracy_scores \<Rightarrow>
                          if accuracy_scores \<noteq> [] then np_mean rt (VList accuracy_scores)
                          else Some (Fl 0))))"

text \<open>
  The missiles some visibility record with \<open>has_visibility\<close> names: the set of their
  truthy ids.
\<close>

definition seen_id :: "pyval \<Rightarrow> pyval option" where
  "seen_id vis =
     (case vis of
        VDict v \<Rightarrow>
          Some (if truthy (dict_get v ''has_visibility'' (VBool False))
                then dict_get v ''missile_id'' (VStr []) else VNone)
      | _ \<Rightarrow> None)"

definition seen_missiles :: "pydict \<Rightarrow> pyval list option" where
  "seen_missiles base_data =
     (case for_each (dict_get base_data ''visibility'' (VList [])) seen_id of
        None \<Rightarrow> None
      | Some ids \<Rightarrow> add_truthy [] ids)"

definition calculate_detection_reward :: "pydict \<Rightarrow> pydict \<Rightarrow> pyfloat" where
  "calculate_detection_reward st base_data =
     (let active_missiles = dict_get st ''active_missiles'' (VInt 0)
      in if eq_zero active_missiles then Fl 1
         else or_zero
                (case seen_missiles base_data of
                   None \<Rightarrow> None
                 | Some detected \<Rightarrow>
                     (case to_num active_missiles of
                        None \<Rightarrow> None
                      | Some n \<Rightarrow> num_div (PI (int (length detected))) n)))"

definition calculate_tracking_performance_reward ::
  "runtime \<Rightarrow> reward_config \<Rightarrow> pydict \<Rightarrow> pydict \<Rightarrow> pydict \<Rightarrow> pyfloat" where
  "calculate_tracking_performance_reward rt cfg st act base_data =
     np_clip_unit (weighted_sum
       [(rw_coverage_time cfg, 4 / 10, calculate_coverage_reward st),
        (rw_tracking_accuracy cfg, 3 / 10, calculate_accuracy_reward rt act),
        (rw_target_detection cfg, 3 / 10, calculate_detection_reward st base_data)])"

subsection \<open>Resource efficiency\<close>

text \<open>\<open>sum(power_allocation.values())\<close> of one satellite action: an \<open>int\<close> or a float.\<close>

definition total_allocation :: "pyval \<Rightarrow> pynum option" where
  "total_allocation sat_action =
     (case py_get sat_action ''power_management'' (VDict []) of
        Some (VDict power_mgmt) \<Rightarrow>
          (case dict_get power_mgmt ''power_allocation'' (VDict []) of
             VDict power_allocation \<Rightarrow>
               (case py_sum (map snd power_allocation) of
                  None \<Rightarrow> None
                | Some s \<Rightarrow> to_num s)
           | _ \<Rightarrow> None)
      | _ \<Rightarrow> None)"

definition efficiency_score :: "pyval \<Rightarrow> pyval option" where
  "efficiency_score sat_action =
     (case total_allocation sat_action of
        None \<Rightarrow> None
      | Some allocated \<Rightarrow>
          (case num_float allocated of
             None \<Rightarrow> None
           | Some a \<Rightarrow>
               if fle (num_value allocated) (Fl 1)
               then Some (VFloat (fsub (Fl 1) (fmul a (Fl (1 / 2)))))
               else Some (VFloat (fmax (Fl 0) (fsub (Fl 1) (fsub a (Fl 1)))))))"

definition calculate_power_efficiency_reward :: "runtime \<Rightarrow> pydict \<Rightarrow> pyfloat" where
  "calculate_power_efficiency_reward rt act =
     (let satellite_actions = dict_get act ''satellite_actions'' (VDict [])
      in if \<not> truthy satellite_actions then Fl 1
         else or_zero
                (case py_values satellite_actions of
                   None \<Rightarrow> None
                 | Some sat_actions \<Rightarrow>
                     (case those (map efficiency_score sat_actions) of
                        None \<Rightarrow> None
                      | Some efficiency_scores \<Rightarrow>
                          if efficiency_scores \<noteq> [] then np_mean rt (VList efficiency_scores)
                          else Some (Fl 1))))"

definition calculate_communication_efficiency_reward :: "pydict \<Rightarrow> pyfloat" where
  "calculate_communication_efficiency_reward act =
     or_zero
       (case (py_len (dict_get act ''satellite_actions'' (VDict [])),
              dict_get act ''mission_actions'' (VDict [])) of
          (Some n_actions, VDict mission_actions) \<Rightarrow>
            (case (py_len (dict_get mission_actions ''target_assignments'' (VList [])),
                   py_len (dict_get mission_actions ''coordination_commands'' (VDict []))) of
               (Some n_assignments, Some n_coordination) \<Rightarrow>
                 Some (Fl (max 0 (1 - (real n_actions * (1 / 10) + real n_assignments * (2 / 10) +
                                       real n_coordination * (3 / 10)) / 2)))
             | _ \<Rightarrow> None)
        | _ \<Rightarrow> None)"

definition control_load :: "pyval \<Rightarrow> real option" where
  "control_load sat_action =
     (case (py_contains sat_action ''attitude_control'', py_contains sat_action ''payload_pointing'') of
        (Some has_attitude, Some has_pointing) \<Rightarrow>
          Some ((if has_attitude then 3 / 10 else 0) + (if has_pointing then 2 / 10 else 0))
      | _ \<Rightarrow> None)"

definition calculate_computational_efficiency_reward :: "pydict \<Rightarrow> pyfloat" where
  "calculate_computational_efficiency_reward act =
     or_zero
       (case (py_values (dict_get act ''satellite_actions'' (VDict [])),
              dict_get act ''mission_actions'' (VDict [])) of
          (Some sat_actions, VDict mission_actions) \<Rightarrow>
            (case (those (map control_load sat_actions),
                   py_len (dict_get mission_actions ''target_assignments'' (VList [])),
                   py_len (dict_get mission_actions ''resource_allocation'' (VDict []))) of
               (Some loads, Some n_assignments, Some n_resources) \<Rightarrow>
                 Some (Fl (max 0 (1 - (sum_list loads + real n_assignments * (1 / 10) +
                                       real n_resources * (2 / 10)) / 3)))
             | _ \<Rightarrow> None)
        | _ \<Rightarrow> None)"

definition calculate_resource_efficiency_reward ::
  "runtime \<Rightarrow> reward_config \<Rightarrow> pydict \<Rightarrow> pydict \<Rightarrow> pydict \<Rightarrow> pyfloat" where
  "calculate_resource_efficiency_reward rt cfg st act base_data =
     np_clip_unit (weighted_sum
       [(rw_power_consumption cfg, 4 / 10, calculate_power_efficiency_reward rt act),
        (rw_communication_bandwidth cfg, 3 / 10, calculate_communication_efficiency_reward act),
        (rw_computational_load cfg, 3 / 10, calculate_computational_efficiency_reward act)])"

subsection \<open>Mission completion\<close>

text \<open>
  One round of the weighting loop of \<open>_calculate_threat_neutralization_reward\<close>, on the
  running \<open>(weighted_score, total_weight)\<close>: the weight of missile \<open>i\<close> is its threat level
  (1 past the end of the list), counted in the score when the missile is tracked.
\<close>

definition threat_weight ::
  "pyval \<Rightarrow> pyval list \<Rightarrow> pyfloat \<times> pyfloat \<Rightarrow> nat \<times> pyval \<Rightarrow> (pyfloat \<times> pyfloat) option" where
  "threat_weight levels tracked totals im =
     (case py_len levels of
        None \<Rightarrow> None
      | Some n \<Rightarrow>
          (case (if fst im < n then py_index levels (fst im) else Some (VInt 1)) of
             None \<Rightarrow> None
           | Some level \<Rightarrow>
               (case snd im of
                  VDict m \<Rightarrow>
                    (case (id_member (dict_get m ''missile_id'' (VStr [])) tracked, as_float level) of
                       (Some is_tracked, Some weight) \<Rightarrow>
                         Some (fadd (fst totals) (fmul weight (Fl (if is_tracked then 1 else 0))),
                               fadd (snd totals) weight)
                     | _ \<Rightarrow> None)
                | _ \<Rightarrow> None)))"

fun weigh_all ::
  "pyval \<Rightarrow> pyval list \<Rightarrow> pyfloat \<times> pyfloat \<Rightarrow> (nat \<times> pyval) list \<Rightarrow> (pyfloat \<times> pyfloat) option" where
  "weigh_all levels tracked totals [] = Some totals"
| "weigh_all levels tracked totals (im # rest) =
     (case threat_weight levels tracked totals im of
        None \<Rightarrow> None
      | Some totals' \<Rightarrow> weigh_all levels tracked totals' rest)"

definition calculate_threat_neutralization_reward :: "pydict \<Rightarrow> pydict \<Rightarrow> pyfloat" where
  "calculate_threat_neutralization_reward st base_data =
     (let active_missiles = dict_get st ''active_missiles'' (VInt 0)
      in if eq_zero active_missiles then Fl 1
         else or_zero
                (case (seen_missiles base_data, to_num active_missiles) of
                   (Some tracked, Some n) \<Rightarrow>
                     (case num_div (PI (int (length tracked))) n of
                        None \<Rightarrow> None
                      | Some neutralization_ratio \<Rightarrow>
                          (let levels = dict_get st ''missile_threat_levels'' (VList [])
                           in if truthy levels then
                                (case py_iter (dict_get base_data ''missiles'' (VList [])) of
                                   None \<Rightarrow> None
                                 | Some ms \<Rightarrow>
                                     (case weigh_all levels tracked (Fl 0, Fl 0) (enumerate 0 ms) of
                                        None \<Rightarrow> None
                                      | Some (weighted_score, total_weight) \<Rightarrow>
                                          if flt (Fl 0) total_weight
                                          then Some (fdiv weighted_score total_weight)
                                          else Some neutralization_ratio))
                              else Some neutralization_ratio))
                 | _ \<Rightarrow> None))"

definition calculate_response_time_reward :: "pydict \<Rightarrow> pydict \<Rightarrow> pyfloat" where
  "calculate_response_time_reward st act =
     or_zero
       (case dict_get act ''mission_actions'' (VDict []) of
          VDict mission_actions \<Rightarrow>
            (let target_assignments = dict_get mission_actions ''target_assignments'' (VList []);
                 active_missiles = dict_get st ''active_missiles'' (VInt 0)
             in if \<not> truthy target_assignments then Some (Fl (1 / 2))
                else if eq_zero active_missiles then Some (Fl 1)
                else (case (py_len target_assignments, to_num active_missiles) of
                        (Some n_assignments, Some n) \<Rightarrow>
                          (case num_div (PI (int n_assignments)) n of
                             None \<Rightarrow> None
                           | Some assignment_ratio \<Rightarrow> Some (fmin (Fl 1) assignment_ratio))
                      | _ \<Rightarrow> None))
        | _ \<Rightarrow> None)"

text \<open>
  The two halves of \<open>_calculate_coverage_completeness_reward\<close>: the uniformity of the
  satellites' coverage counts (\<open>np.std\<close> over \<open>np.mean\<close>) and the share of covered missiles.
\<close>

definition uniformity_part :: "runtime \<Rightarrow> pyval \<Rightarrow> pyfloat option" where
  "uniformity_part rt satellite_coverage =
     (if truthy satellite_coverage then
        (case (np_std rt satellite_coverage, np_mean rt satellite_coverage) of
           (Some sat_coverage_std, Some sat_coverage_mean) \<Rightarrow>
             if flt (Fl 0) sat_coverage_mean
             then Some (fmul (Fl (1 / 2))
                          (fsub (Fl 1) (fmin (Fl 1) (fdiv sat_coverage_std sat_coverage_mean))))
             else Some (Fl 0)
         | _ \<Rightarrow> None)
      else Some (Fl 0))"

definition completeness_part :: "pyval \<Rightarrow> pyfloat option" where
  "completeness_part missile_coverage =
     (if truthy missile_coverage then
        (case (py_iter missile_coverage, py_len missile_coverage) of
           (Some counts, Some n) \<Rightarrow>
             Some (Fl ((1 / 2) * (1 - real (length (filter eq_zero counts)) / real n)))
         | _ \<Rightarrow> None)
      else Some (Fl 0))"

definition calculate_coverage_completeness_reward :: "runtime \<Rightarrow> pydict \<Rightarrow> pyfloat" where
  "calculate_coverage_completeness_reward rt st =
     (if \<not> truthy (dict_get st ''visibility_matrix'' (VList [])) then Fl 0
      else or_zero
             (case (uniformity_part rt (dict_get st ''satellite_coverage_counts'' (VList [])),
                    completeness_part (dict_get st ''missile_coverage_counts'' (VList []))) of
                (Some u, Some c) \<Rightarrow> Some (fadd (fadd (Fl 0) u) c)
              | _ \<Rightarrow> None))"

definition calculate_mission_completion_reward ::
  "runtime \<Rightarrow> reward_config \<Rightarrow> pydict \<Rightarrow> pydict \<Rightarrow> pydict \<Rightarrow> pyfloat" where
  "calculate_mission_completion_reward rt cfg st act base_data =
     np_clip_unit (weighted_sum
       [(rw_threat_neutralization cfg, 5 / 10, calculate_threat_neutralization_reward st base_data),
        (rw_response_time cfg, 3 / 10, calculate_response_time_reward st act),
        (rw_coverage_completeness cfg, 2 / 10, calculate_coverage_completeness_reward rt st)])"

subsection \<open>Penalties and total\<close>

definition calculate_false_alarm_penalty :: "pydict \<Rightarrow> pydict \<Rightarrow> pyfloat" where
  "calculate_false_alarm_penalty st base_data = Fl 0"

text \<open>One round of the loop of \<open>_calculate_resource_waste_penalty\<close> on the running penalty.\<close>

definition waste_of :: "pyfloat \<Rightarrow> pyval \<Rightarrow> pyfloat option" where
  "waste_of penalty sat_action =
     (case total_allocation sat_action of
        None \<Rightarrow> None
      | Some allocated \<Rightarrow>
          if flt (Fl 1) (num_value allocated)
          then (case num_float allocated of
                  None \<Rightarrow> None
                | Some a \<Rightarrow> Some (fadd penalty (fmul (fsub a (Fl 1)) (Fl (1 / 2)))))
          else Some penalty)"

fun waste_all :: "pyfloat \<Rightarrow> pyval list \<Rightarrow> pyfloat option" where
  "waste_all penalty [] = Some penalty"
| "waste_all penalty (a # rest) =
     (case waste_of penalty a of None \<Rightarrow> None | Some p \<Rightarrow> waste_all p rest)"

definition calculate_resource_waste_penalty :: "pydict \<Rightarrow> pyfloat" where
  "calculate_resource_waste_penalty act =
     or_zero
       (case py_values (dict_get act ''satellite_actions'' (VDict [])) of
          None \<Rightarrow> None
        | Some sat_actions \<Rightarrow> waste_all (Fl 0) sat_actions)"

definition calculate_mission_failure_penalty :: "pydict \<Rightarrow> pyfloat" where
  "calculate_mission_failure_penalty st =
     or_zero
       (case (as_float (dict_get st ''coverage_gap_ratio'' (VFloat (Fl 0))),
              py_gt (dict_get st ''active_missiles'' (VInt 0)) (VInt 0)) of
          (Some coverage_gap, Some threatened) \<Rightarrow>
            (let penalty = fadd (Fl 0) (fmul coverage_gap (Fl (3 / 10)))
             in if threatened \<and> eq_zero (dict_get st ''active_tracking_assignments'' (VInt 0))
                then Some (fadd penalty (Fl (1 / 2))) else Some penalty)
        | _ \<Rightarrow> None)"

definition calculate_penalty_terms :: "pydict \<Rightarrow> pydict \<Rightarrow> pydict \<Rightarrow> pyfloat" where
  "calculate_penalty_terms st act base_data =
     fadd (fadd (fadd (Fl 0) (calculate_false_alarm_penalty st base_data))
                (calculate_resource_waste_penalty act))
          (calculate_mission_failure_penalty st)"

definition tracking_weight :: real where "tracking_weight = 4 / 10"
definition efficiency_weight :: real where "efficiency_weight = 3 / 10"
definition completion_weight :: real where "completion_weight = 3 / 10"

text \<open>
  \<open>calculate_total_reward\<close>: \<open>total = 0.0\<close>, then the three weighted components are added
  and the penalty is subtracted, in float arithmetic.
\<close>

definition calculate_total_reward ::
  "runtime \<Rightarrow> reward_config \<Rightarrow> pydict \<Rightarrow> pydict \<Rightarrow> pydict \<Rightarrow> pyfloat" where
  "calculate_total_reward rt cfg st act base_data =
     fsub (fadd (fadd (fadd (Fl 0)
                    (fmul (Fl tracking_weight)
                       (calculate_tracking_performance_reward rt cfg st act base_data)))
                  (fmul (Fl efficiency_weight)
                     (calculate_resource_efficiency_reward rt cfg st act base_data)))
            (fmul (Fl completion_weight)
               (calculate_mission_completion_reward rt cfg st act base_data)))
          (calculate_penalty_terms st act base_data)"

section \<open>Episode and dataset manager\<close>

text \<open>
  \<open>rlhf_data_collector.py\<close>, the class \<open>RLHFDataCollector\<close>. The collector's attributes are
  the fields of \<open>collector\<close>; every method takes the collector and returns the new one.
\<close>

record episode =
  episode_id :: string
  ep_scenario_type :: string
  start_time :: int
  end_time :: "int option"
  data_points :: "data_point list"
  total_reward :: pyfloat
  success :: bool
  scenario_params :: pydict
  constellation_info :: pyval

record collection_stats =
  total_data_points :: nat
  valid_data_points :: nat
  invalid_data_points :: nat
  average_reward :: pyfloat
  average_quality_score :: pyfloat

record collector =
  current_episode :: "episode option"
  episodes :: "episode list"
  state_history :: "pydict list"
  action_history :: "pydict list"
  reward_history :: "pyfloat list"
  validation_history :: "validation_result list"
  statistics :: collection_stats
  has_action_executor :: bool
  quality_validator :: validator

record config =
  state_space :: state_space_config
  reward_components :: reward_config
  data_quality :: quality_config

datatype py_error = Exception string

text \<open>
  What the external collaborators answer during one \<open>start_episode\<close>: the wall clock
  (already formatted), the simulation time and the constellation description.
\<close>

record start_env =
  now_stamp :: string
  start_simulation_time :: int
  constellation :: pyval

text \<open>
  \<open>start_episode\<close> has no guard and no \<open>raise\<close>: it builds a fresh episode, stores it in
  \<open>current_episode\<close> and returns its id. Its result is written as a sum so that raising an
  exception would be a possible result.
\<close>

definition start_episode ::
  "start_env \<Rightarrow> string \<Rightarrow> pydict \<Rightarrow> collector \<Rightarrow> py_error + (string \<times> collector)" where
  "start_episode env stype params c =
     (let eid = ''episode_'' @ now_stamp env @ ''_'' @ stype
      in Inr (eid,
              c\<lparr>current_episode :=
                   Some \<lparr>episode_id = eid, ep_scenario_type = stype,
                         start_time = start_simulation_time env, end_time = None,
                         data_points = [], total_reward = Fl 0, success = False,
                         scenario_params = params, constellation_info = constellation env\<rparr>\<rparr>))"

text \<open>
  What the external collaborators answer during one \<open>collect_rlhf_data_point\<close>: the
  simulation time, the snapshot (\<open>None\<close> for the answer \<open>None\<close>), the simulation progress,
  the two end-of-run tests and the result of executing the action. \<open>Raises\<close> is a call in
  which one of them raises; all of them are called before the collector changes.
\<close>

record observation =
  current_simulation_time :: int
  collected :: "pydict option"
  time_progress :: pyval
  simulation_finished :: bool
  collection_finished :: bool
  executed :: pyval

datatype world = Raises | Responds observation

text \<open>\<open>_predict_next_state\<close>: a copy of the state with \<open>mission_progress\<close>, when present, raised
  by 0.01; \<open>+=\<close> raises when that entry is not a number.\<close>

definition predict_next_state :: "pydict \<Rightarrow> pydict \<Rightarrow> pydict option" where
  "predict_next_state current_state act =
     (case map_of current_state ''mission_progress'' of
        None \<Rightarrow> Some current_state
      | Some v \<Rightarrow>
          (case py_add v (VFloat (Fl (1 / 100))) of
             None \<Rightarrow> None
           | Some p \<Rightarrow> Some (dict_set current_state ''mission_progress'' p)))"

definition is_episode_done :: "observation \<Rightarrow> pydict \<Rightarrow> bool" where
  "is_episode_done obs base_data =
     (if simulation_finished obs then True
      else if collection_finished obs then True
      else if \<not> truthy (dict_get base_data ''missiles'' (VList [])) then True
      else False)"

text \<open>
  \<open>_update_average_statistics\<close>: two \<open>np.mean\<close> in one \<open>try\<close>; when the first raises the
  second average is not updated either.
\<close>

definition update_average_statistics :: "runtime \<Rightarrow> collector \<Rightarrow> collector" where
  "update_average_statistics rt c =
     (let s = statistics c;
          rewards = (if reward_history c \<noteq> []
                     then np_mean rt (VList (map VFloat (reward_history c))) else None);
          scores = (if validation_history c \<noteq> []
                    then np_mean rt (VList (map (\<lambda>r. VFloat (Fl (validation_score r)))
                                                (validation_history c)))
                    else None);
          s1 = (case rewards of None \<Rightarrow> s | Some m \<Rightarrow> s\<lparr>average_reward := m\<rparr>);
          s2 = (if reward_history c \<noteq> [] \<and> rewards = None then s1
                else (case scores of None \<Rightarrow> s1 | Some q \<Rightarrow> s1\<lparr>average_quality_score := q\<rparr>))
      in c\<lparr>statistics := s2\<rparr>)"

text \<open>
  The second half of \<open>collect_rlhf_data_point\<close> (from the comment on data quality
  validation to \<open>return data_point\<close>): validate the point, attach the result to its info,
  count it, append it to the open episode and to the histories.
\<close>

definition record_data_point :: "runtime \<Rightarrow> config \<Rightarrow> data_point \<Rightarrow> collector \<Rightarrow> data_point \<times> collector" where
  "record_data_point rt cfg dp c =
     (case validate_rlhf_data_point rt (data_quality cfg) dp (quality_validator c) of
        (validation, v') \<Rightarrow>
          (let dp' = dp\<lparr>dp_info := (dp_info dp)\<lparr>info_validation_result := Some validation\<rparr>\<rparr>;
               s = statistics c;
               s' = s\<lparr>total_data_points := total_data_points s + 1,
                      valid_data_points := valid_data_points s + (if is_valid validation then 1 else 0),
                      invalid_data_points := invalid_data_points s + (if is_valid validation then 0 else 1)\<rparr>;
               ep' = (case current_episode c of
                        None \<Rightarrow> None
                      | Some e \<Rightarrow> Some (e\<lparr>data_points := data_points e @ [dp'],
                                          total_reward := fadd (total_reward e) (dp_reward dp')\<rparr>))
           in (dp',
               update_average_statistics rt
                 (c\<lparr>quality_validator := v',
                    statistics := s',
                    current_episode := ep',
                    state_history := state_history c @ [dp_state dp'],
                    action_history := action_history c @ [dp_action dp'],
                    reward_history := reward_history c @ [dp_reward dp'],
                    validation_history := validation_history c @ [validation]\<rparr>))))"

definition count_failure :: "collector \<Rightarrow> collector" where
  "count_failure c =
     c\<lparr>statistics := (statistics c)\<lparr>invalid_data_points := invalid_data_points (statistics c) + 1\<rparr>\<rparr>"

text \<open>
  \<open>collect_rlhf_data_point\<close>. A falsy snapshot (\<open>None\<close> or the empty dict) returns \<open>None\<close>
  and changes nothing. An exception anywhere else (here: the result of the executed
  action is not a dict when it is logged, or the state's \<open>mission_progress\<close> cannot be
  raised by 0.01) is caught, counted as an invalid point, and returns \<open>None\<close>.
\<close>

definition collect_rlhf_data_point ::
  "runtime \<Rightarrow> config \<Rightarrow> world \<Rightarrow> pydict \<Rightarrow> bool \<Rightarrow> collector \<Rightarrow> data_point option \<times> collector" where
  "collect_rlhf_data_point rt cfg w act execute_action c =
     (case w of
        Raises \<Rightarrow> (None, count_failure c)
      | Responds obs \<Rightarrow>
          (case collected obs of
             None \<Rightarrow> (None, c)
           | Some base_data \<Rightarrow>
               if base_data = [] then (None, c)
               else
               (let st = extract_state_vector rt (state_space cfg) base_data;
                    action_result = (if execute_action \<and> has_action_executor c
                                     then Some (executed obs) else None);
                    reward = calculate_total_reward rt (reward_components cfg) st act base_data
                in if action_result \<noteq> None \<and> \<not> is_dict (executed obs) then (None, count_failure c)
                   else
                   case predict_next_state st act of
                     None \<Rightarrow> (None, count_failure c)
                   | Some next_st \<Rightarrow>
                       (case record_data_point rt cfg
                               \<lparr>dp_timestamp = current_simulation_time obs,
                                dp_state = st, dp_action = act, dp_reward = reward,
                                dp_next_state = next_st,
                                dp_done = is_episode_done obs base_data,
                                dp_info = \<lparr>info_base_data = Some base_data,
                                           info_simulation_progress = Some (time_progress obs),
                                           info_action_result = action_result,
                                           info_validation_result = None\<rparr>\<rparr>
                               c of
                          (dp, c') \<Rightarrow> (Some dp, c')))))"

definition end_episode :: "int \<Rightarrow> bool \<Rightarrow> collector \<Rightarrow> episode option \<times> collector" where
  "end_episode now ok c =
     (case current_episode c of
        None \<Rightarrow> (None, c)
      | Some e \<Rightarrow>
          (let completed = e\<lparr>end_time := Some now, success := ok\<rparr>
           in (Some completed, c\<lparr>episodes := episodes c @ [completed], current_episode := None\<rparr>)))"

text \<open>A run of \<open>collect_rlhf_data_point\<close> calls, one per entry: what each call returned.\<close>

fun collect_calls ::
  "runtime \<Rightarrow> config \<Rightarrow> (world \<times> pydict \<times> bool) list \<Rightarrow> collector \<Rightarrow> data_point option list \<times> collector" where
  "collect_calls rt cfg [] c = ([], c)"
| "collect_calls rt cfg ((w, act, ex) # calls) c =
     (case collect_rlhf_data_point rt cfg w act ex c of
        (r, c') \<Rightarrow> (case collect_calls rt cfg calls c' of (rs, c'') \<Rightarrow> (r # rs, c'')))"

subsection \<open>Example inputs\<close>

text \<open>
  An interpreter for the examples: no attribute beyond the fields of a data point, no
  timestamp that parses, and the mean and the standard deviation of a flat list of
  numbers, added from left to right.
\<close>

definition plain_mean :: "pyval \<Rightarrow> pyfloat option" where
  "plain_mean v =
     (case v of
        VList xs \<Rightarrow>
          (case those (map as_float xs) of
             None \<Rightarrow> None
           | Some fs \<Rightarrow>
               if fs = [] then Some NaN
               else Some (fdiv (foldl fadd (Fl 0) fs) (Fl (real (length fs)))))
      | _ \<Rightarrow> None)"

definition plain_std :: "pyval \<Rightarrow> pyfloat option" where
  "plain_std v =
     (case v of
        VList xs \<Rightarrow>
          (case (those (map as_float xs), plain_mean v) of
             (Some fs, Some m) \<Rightarrow>
               if fs = [] then Some NaN
               else Some (fsqrt (fdiv (foldl fadd (Fl 0) (map (\<lambda>x. fmul (fsub x m) (fsub x m)) fs))
                                      (Fl (real (length fs)))))
           | _ \<Rightarrow> None)
      | _ \<Rightarrow> None)"

definition plain_runtime :: runtime where
  "plain_runtime =
     \<lparr>builtin_attr = (\<lambda>v name. None), instance_attr = (\<lambda>name. None),
      np_mean = plain_mean, np_std = plain_std, fromisoformat = (\<lambda>s. None)\<rparr>"

definition all_rewards_disabled :: reward_config where
  "all_rewards_disabled =
     \<lparr>rw_coverage_time = False, rw_tracking_accuracy = False, rw_target_detection = False,
      rw_power_consumption = False, rw_communication_bandwidth = False,
      rw_computational_load = False, rw_threat_neutralization = False,
      rw_response_time = False, rw_coverage_completeness = False\<rparr>"

definition strict_quality :: quality_config where
  "strict_quality =
     \<lparr>rule_position_bounds = True, rule_velocity_limits = True, rule_attitude_constraints = True,
      required_fields = [''state.satellite_positions'', ''reward''],
      optional_fields = [],
      missing_data_threshold = 0.05,
      detect_statistical = True, detect_physical = True, detect_temporal = True\<rparr>"

definition example_config :: config where
  "example_config =
     \<lparr>state_space = all_disabled, reward_components = all_rewards_disabled,
      data_quality = strict_quality\<rparr>"

definition fresh_validator :: validator where
  "fresh_validator =
     \<lparr>stats = \<lparr>total_validations = 0, passed_validations = 0, failed_validations = 0,
               anomaly_detections = 0\<rparr>,
      historical_data = []\<rparr>"

definition fresh_collector :: collector where
  "fresh_collector =
     \<lparr>current_episode = None, episodes = [], state_history = [], action_history = [],
      reward_history = [], validation_history = [],
      statistics = \<lparr>total_data_points = 0, valid_data_points = 0, invalid_data_points = 0,
                    average_reward = Fl 0, average_quality_score = Fl 0\<rparr>,
      has_action_executor = False,
      quality_validator = fresh_validator\<rparr>"

definition empty_state_point :: data_point where
  "empty_state_point =
     \<lparr>dp_timestamp = 0, dp_state = [], dp_action = [(''satellite_actions'', VDict [])],
      dp_reward = Fl 0, dp_next_state = [], dp_done = False,
      dp_info = \<lparr>info_base_data = None, info_simulation_progress = None,
                 info_action_result = None, info_validation_result = None\<rparr>\<rparr>"

definition test_start :: start_env where
  "test_start = \<lparr>now_stamp = ''20240101_000000'', start_simulation_time = 0, constellation = VDict []\<rparr>"

definition observe :: "int \<Rightarrow> world" where
  "observe t =
     Responds \<lparr>current_simulation_time = t, collected = Some small_snapshot,
               time_progress = VFloat (Fl 0),
               simulation_finished = False, collection_finished = False, executed = VNone\<rparr>"

definition one_record_validator :: validator where
  "one_record_validator =
     fresh_validator\<lparr>historical_data :=
       [\<lparr>h_timestamp = 0, h_reward = Fl 0, h_state = [], h_validation_score = 1\<rparr>]\<rparr>"

definition outlier_point :: data_point where
  "outlier_point = empty_state_point\<lparr>dp_timestamp := 30000000, dp_reward := Fl 1000\<rparr>"

definition first_episode :: episode where
  "first_episode =
     \<lparr>episode_id = ''episode_20240101_000000_a'', ep_scenario_type = ''a'',
      start_time = 0, end_time = None, data_points = [empty_state_point], total_reward = Fl 0,
      success = False, scenario_params = [], constellation_info = VDict []\<rparr>"

definition open_collector :: collector where
  "open_collector = fresh_collector\<lparr>current_episode := Some first_episode\<rparr>"

definition three_calls :: "(world \<times> pydict \<times> bool) list" where
  "three_calls = [(observe 0, [], False), (observe 30000000, [], False), (observe 60000000, [], False)]"







section \<open>Dictionary lemmas\<close>

lemma map_of_dict_set: "map_of (dict_set d k v) = (map_of d)(k \<mapsto> v)"
  by (induction d) (auto simp: fun_eq_iff)

lemma dict_keys_dict_set: "dict_keys (dict_set d k v) = insert k (dict_keys d)"
proof (induction d)
  case Nil
  then show ?case by (simp add: dict_keys_def)
next
  case (Cons a d)
  obtain k' v' where a: "a = (k', v')" by (cases a)
  from Cons show ?case unfolding a dict_keys_def by (cases "k' = k") auto
qed

lemma dict_keys_dict_update: "dict_keys (dict_update d e) = dict_keys d \<union> dict_keys e"
proof (induction e arbitrary: d)
  case Nil
  then show ?case by (simp add: dict_keys_def)
next
  case (Cons a e)
  obtain k v where a: "a = (k, v)" by (cases a)
  show ?case unfolding a using Cons.IH[of "dict_set d k v"]
    by (simp add: dict_keys_dict_set) (simp add: dict_keys_def)
qed

lemma map_of_dict_update_other:
  "k \<notin> dict_keys e \<Longrightarrow> map_of (dict_update d e) k = map_of d k"
proof (induction e arbitrary: d)
  case Nil
  then show ?case by simp
next
  case (Cons a e)
  obtain k' v where a: "a = (k', v)" by (cases a)
  from Cons.prems have "k \<noteq> k'" "k \<notin> dict_keys e" unfolding a by (auto simp: dict_keys_def)
  then show ?case unfolding a using Cons.IH[of "dict_set d k' v"]
    by (simp add: map_of_dict_set)
qed

lemma map_of_dict_update_last:
  "k \<notin> dict_keys e \<Longrightarrow> map_of (dict_update d (e0 @ (k, v) # e)) k = Some v"
proof (induction e0 arbitrary: d)
  case Nil
  then show ?case by (simp add: map_of_dict_update_other map_of_dict_set)
next
  case (Cons a e0)
  obtain k' v' where a: "a = (k', v')" by (cases a)
  show ?case unfolding a using Cons.IH[OF Cons.prems] by simp
qed

lemma dict_keys_append: "dict_keys (xs @ ys) = dict_keys xs \<union> dict_keys ys"
  by (auto simp: dict_keys_def)

lemma dict_keys_if: "dict_keys (if b then [(k, v)] else []) = (if b then {k} else {})"
  by (simp add: dict_keys_def)

lemma dict_keys_Cons: "dict_keys ((k, v) # d) = insert k (dict_keys d)"
  by (simp add: dict_keys_def)

lemma dict_keys_Nil: "dict_keys [] = {}"
  by (simp add: dict_keys_def)

section \<open>Properties of the scenario generator\<close>

lemma repeat_loop_combos:
  "map combination (fst (repeat_loop draw num d t k (acc, sid))) =
     map combination acc @ replicate (min k (nat (num - int (length acc)))) (d, t)
   \<and> length (fst (repeat_loop draw num d t k (acc, sid))) = length acc + min k (nat (num - int (length acc)))"
proof (induction k arbitrary: acc sid)
  case 0
  then show ?case by simp
next
  case (Suc k)
  show ?case
  proof (cases "int (length acc) \<ge> num")
    case True
    then show ?thesis by simp
  next
    case False
    define m where "m = nat (num - int (length acc)) - 1"
    have m: "nat (num - int (length acc)) = Suc m"
      using False unfolding m_def by arith
    have m': "nat (num - int (length (acc @ [generate_single_scenario draw (''eval_scenario_'' @ fmt04 sid) t d]))) = m"
      using m by simp
    show ?thesis using False Suc.IH[of "acc @ [generate_single_scenario draw (''eval_scenario_'' @ fmt04 sid) t d]" "sid + 1"]
      unfolding m' m
      by (simp add: combination_def generate_single_scenario_def replicate_append_same)
  qed
qed

lemma take_replicate_append:
  "take m (replicate k x @ ys) = replicate (min k m) x @ take (m - k) ys"
  by (simp add: min.commute)

lemma type_loop_combos:
  "map combination (fst (type_loop draw num per d ts st)) =
     map combination (fst st) @
       take (nat (num - int (length (fst st)))) (concat (map (\<lambda>t. replicate per (d, t)) ts))"
proof (induction ts arbitrary: st)
  case Nil
  then show ?case by simp
next
  case (Cons t ts)
  obtain acc sid where st: "st = (acc, sid)" by (cases st)
  define st' where "st' = repeat_loop draw num d t per (acc, sid)"
  define m where "m = nat (num - int (length acc))"
  have c: "map combination (fst st') = map combination acc @ replicate (min per m) (d, t)"
    and l: "length (fst st') = length acc + min per m"
    using repeat_loop_combos[of draw num d t per acc sid] unfolding st'_def m_def by auto
  show ?case
  proof (cases "int (length (fst st')) \<ge> num")
    case True
    then have "m \<le> per" using l unfolding m_def by arith
    then show ?thesis using True c unfolding st
      by (simp add: st'_def[symmetric] Let_def m_def[symmetric] take_replicate_append min.absorb2)
  next
    case False
    then have pm: "per < m" using l unfolding m_def by arith
    have r: "nat (num - int (length (fst st'))) = m - per"
      using l pm unfolding m_def by arith
    show ?thesis using False Cons.IH[of st'] c pm unfolding st
      by (simp add: st'_def[symmetric] Let_def m_def[symmetric] r take_replicate_append min.absorb1)
  qed
qed

lemma difficulty_loop_combos:
  "map combination (fst (difficulty_loop draw num per ds st)) =
     map combination (fst st) @
       take (nat (num - int (length (fst st))))
         (concat (map (\<lambda>d. concat (map (\<lambda>t. replicate per (d, t)) scenario_types)) ds))"
proof (induction ds arbitrary: st)
  case Nil
  then show ?case by simp
next
  case (Cons d ds)
  define st' where "st' = type_loop draw num per d scenario_types st"
  define blk where "blk = concat (map (\<lambda>t. replicate per (d, t)) scenario_types)"
  define m where "m = nat (num - int (length (fst st)))"
  have c: "map combination (fst st') = map combination (fst st) @ take m blk"
    using type_loop_combos[of draw num per d scenario_types st] unfolding st'_def blk_def m_def by simp
  have l: "length (fst st') = length (fst st) + min (length blk) m"
    using arg_cong[OF c, of length] by simp
  show ?case
  proof (cases "int (length (fst st')) \<ge> num")
    case True
    then have "m \<le> length blk" using l unfolding m_def by arith
    then show ?thesis using True c
      by (simp add: st'_def[symmetric] Let_def m_def[symmetric] blk_def[symmetric])
  next
    case False
    then have pm: "length blk < m" using l unfolding m_def by arith
    have r: "nat (num - int (length (fst st'))) = m - length blk"
      using l pm unfolding m_def by arith
    show ?thesis using False Cons.IH[of st'] c pm
      by (simp add: st'_def[symmetric] Let_def m_def[symmetric] blk_def[symmetric] r)
  qed
qed

text \<open>
  The generator emits the cross product in difficulty-major order, each combination
  \<open>max(1, num // 16)\<close> times in a row, and stops at \<open>num\<close> scenarios.
\<close>

lemma generate_evaluation_scenarios_combos:
  "map combination (generate_evaluation_scenarios draw num) =
     take (nat num) (concat (map (replicate (scenarios_per_combination num)) all_combinations))"
proof -
  have "map combination (generate_evaluation_scenarios draw num) =
      take (nat num) (concat (map (\<lambda>d. concat (map (\<lambda>t. replicate (scenarios_per_combination num) (d, t))
         scenario_types)) difficulty_levels))"
    by (simp only: generate_evaluation_scenarios_def difficulty_loop_combos) simp
  also have "concat (map (\<lambda>d. concat (map (\<lambda>t. replicate (scenarios_per_combination num) (d, t))
         scenario_types)) difficulty_levels) =
       concat (map (replicate (scenarios_per_combination num)) all_combinations)"
    by (simp add: all_combinations_def scenario_types_def difficulty_levels_def)
  finally show ?thesis .
qed

lemma count_full_enumeration:
  assumes "c \<in> set all_combinations"
  shows "length (filter (\<lambda>x. x = c) (concat (map (replicate per) all_combinations))) = per"
  using assms
  by (auto simp: all_combinations_def scenario_types_def difficulty_levels_def)

text \<open>
  Claim C8, as stated (every combination appears for every requested size of at least 1),
  fails: asked for one scenario, the generator returns the single scenario
  (easy, single_threat), and (extreme, evasive_targets) is not covered.
\<close>

theorem evaluation_scenarios_small_counterexample:
  "generate_evaluation_scenarios (\<lambda>sid stype difficulty. ()) 1 =
     [\<lparr>scenario_id = ''eval_scenario_0001'', scenario_type = ''single_threat'',
       difficulty_level = ''easy'', drawn = ()\<rparr>] \<and>
   \<not> (\<exists>s \<in> set (generate_evaluation_scenarios (\<lambda>sid stype difficulty. ()) 1).
        combination s = (''extreme'', ''evasive_targets''))"
proof -
  have f: "fmt04 (Suc 0) = ''0001''" by code_simp
  show ?thesis
    by (simp add: generate_evaluation_scenarios_def scenarios_per_combination_def difficulty_levels_def
      scenario_types_def generate_single_scenario_def f combination_def Let_def)
qed

text \<open>
  Claim C8, amended: for every requested size of at least 16, each of the 16 combinations
  of difficulty level and scenario type appears among the generated evaluation scenarios,
  exactly \<open>num div 16\<close> times (so at least once).
\<close>

theorem evaluation_scenarios_cover_from_16:
  assumes "16 \<le> num" and "c \<in> set all_combinations"
  shows "length (filter (\<lambda>s. combination s = c) (generate_evaluation_scenarios draw num)) = nat (num div 16)"
proof -
  have per: "scenarios_per_combination num = nat (num div 16)"
    using assms(1) by (simp add: scenarios_per_combination_def difficulty_levels_def scenario_types_def)
  have len: "length (concat (map (replicate (nat (num div 16))) all_combinations)) = 16 * nat (num div 16)"
    by (simp add: all_combinations_def scenario_types_def difficulty_levels_def)
  have le: "16 * nat (num div 16) \<le> nat num" using assms(1) by simp
  have "length (filter (\<lambda>s. combination s = c) (generate_evaluation_scenarios draw num))
      = length (filter (\<lambda>x. x = c) (map combination (generate_evaluation_scenarios draw num)))"
    by (simp add: filter_map o_def)
  also have "\<dots> = length (filter (\<lambda>x. x = c) (concat (map (replicate (nat (num div 16))) all_combinations)))"
    using len le by (simp add: generate_evaluation_scenarios_combos per)
  also have "\<dots> = nat (num div 16)" using assms(2) by (rule count_full_enumeration)
  finally show ?thesis .
qed

theorem evaluation_scenarios_cover_from_16_witness:
  "(16::int) \<le> 50 \<and> (''extreme'', ''evasive_targets'') \<in> set all_combinations \<and>
   length (filter (\<lambda>s. combination s = (''extreme'', ''evasive_targets''))
             (generate_evaluation_scenarios (\<lambda>sid stype difficulty. ()) 50)) = 3"
proof -
  have a: "(16::int) \<le> 50" by simp
  have b: "(''extreme'', ''evasive_targets'') \<in> set all_combinations"
    by (simp add: all_combinations_def scenario_types_def difficulty_levels_def)
  show ?thesis using a b evaluation_scenarios_cover_from_16[OF a b, of "\<lambda>sid stype difficulty. ()"] by simp
qed

section \<open>Properties of the expert policy\<close>

text \<open>
  Claim C9 at a concrete input: a missile of threat level critical (encoded 4) and one of
  level low (encoded 1) both get priority 2, and ranking leaves the low one first.
\<close>

theorem priority_ignores_threat_level:
  "get_missile_priority
      \<lparr>missile_id = Some ''M2'', m_position = None, m_velocity = None, m_trajectory = None,
       threat_level = Some ''critical'', m_flight_status = None\<rparr>
      [(''missile_threat_levels'', VList [VInt 1, VInt 4])] = 2 \<and>
   get_missile_priority
      \<lparr>missile_id = Some ''M1'', m_position = None, m_velocity = None, m_trajectory = None,
       threat_level = Some ''low'', m_flight_status = None\<rparr>
      [(''missile_threat_levels'', VList [VInt 1, VInt 4])] = 2 \<and>
   sort_missiles_by_threat
      [\<lparr>missile_id = Some ''M1'', m_position = None, m_velocity = None, m_trajectory = None,
        threat_level = Some ''low'', m_flight_status = None\<rparr>,
       \<lparr>missile_id = Some ''M2'', m_position = None, m_velocity = None, m_trajectory = None,
        threat_level = Some ''critical'', m_flight_status = None\<rparr>]
      [(''missile_threat_levels'', VList [VInt 1, VInt 4])] =
      [\<lparr>missile_id = Some ''M1'', m_position = None, m_velocity = None, m_trajectory = None,
        threat_level = Some ''low'', m_flight_status = None\<rparr>,
       \<lparr>missile_id = Some ''M2'', m_position = None, m_velocity = None, m_trajectory = None,
        threat_level = Some ''critical'', m_flight_status = None\<rparr>]"
  by (simp add: get_missile_priority_def sort_missiles_by_threat_def)

section \<open>Properties of the state extractor\<close>

lemma those_Some_iff: "those xs = Some ys \<longleftrightarrow> xs = map Some ys"
proof (induction xs arbitrary: ys)
  case Nil
  then show ?case by auto
next
  case (Cons x xs)
  then show ?case by (cases x) auto
qed

lemma entry_keys: "entry flag name val = Some e \<Longrightarrow> dict_keys e = (if flag then {name} else {})"
  by (auto simp: entry_def dict_keys_Cons dict_keys_Nil split: if_splits option.splits)

lemma list_entry_keys:
  "list_entry flag name vals = Some e \<Longrightarrow> dict_keys e = (if flag then {name} else {})"
  unfolding list_entry_def by (rule entry_keys)

lemma groups6:
  assumes "groups [a, b, c, d, e, f] = Some r"
  obtains a' b' c' d' e' f' where "a = Some a'" "b = Some b'" "c = Some c'" "d = Some d'"
    "e = Some e'" "f = Some f'" "r = a' @ b' @ c' @ d' @ e' @ f'"
proof -
  from assms have "map_option concat (those [a, b, c, d, e, f]) = Some r"
    unfolding groups_def .
  then obtain ys where "those [a, b, c, d, e, f] = Some ys" and r: "r = concat ys"
    by (cases "those [a, b, c, d, e, f]") (simp_all del: those.simps)
  then have ys: "[a, b, c, d, e, f] = map Some ys" by (simp only: those_Some_iff)
  from ys obtain a' b' c' d' e' f' where "ys = [a', b', c', d', e', f']"
    by (auto simp: map_eq_Cons_conv)
  with ys r that show thesis by auto
qed

lemma groups4:
  assumes "groups [a, b, c, d] = Some r"
  obtains a' b' c' d' where "a = Some a'" "b = Some b'" "c = Some c'" "d = Some d'"
    "r = a' @ b' @ c' @ d'"
proof -
  from assms have "map_option concat (those [a, b, c, d]) = Some r"
    unfolding groups_def .
  then obtain ys where "those [a, b, c, d] = Some ys" and r: "r = concat ys"
    by (cases "those [a, b, c, d]") (simp_all del: those.simps)
  then have ys: "[a, b, c, d] = map Some ys" by (simp only: those_Some_iff)
  from ys obtain a' b' c' d' where "ys = [a', b', c', d']"
    by (auto simp: map_eq_Cons_conv)
  with ys r that show thesis by auto
qed

lemma satellite_keys:
  assumes "extract_satellite_states cfg sats = Some d"
  shows "dict_keys d =
     (if \<not> truthy sats then
        {''satellite_positions'', ''satellite_velocities'', ''satellite_attitudes'',
         ''satellite_orbital_elements'', ''satellite_power_states'', ''satellite_payload_states''}
      else
        (if sat_position_flag cfg then {''satellite_positions''} else {}) \<union>
        (if sat_velocity_flag cfg then {''satellite_velocities''} else {}) \<union>
        (if sat_attitude_flag cfg then {''satellite_attitudes''} else {}) \<union>
        (if sat_orbital_elements_flag cfg then {''satellite_orbital_elements''} else {}) \<union>
        (if sat_power_status_flag cfg then {''satellite_power_states''} else {}) \<union>
        (if sat_payload_status_flag cfg then {''satellite_payload_states''} else {}))"
proof (cases "truthy sats")
  case False
  with assms have "d = get_empty_satellite_state" by (simp add: extract_satellite_states_def)
  then show ?thesis using False
    by (simp add: get_empty_satellite_state_def dict_keys_Cons dict_keys_Nil)
next
  case True
  with assms have g: "groups
        [list_entry (sat_position_flag cfg) ''satellite_positions''
           (for_each sats (vector_of ''position'' [(''x'', zero_f), (''y'', zero_f), (''z'', zero_f)])),
         list_entry (sat_velocity_flag cfg) ''satellite_velocities''
           (for_each sats (vector_of ''velocity'' [(''vx'', zero_f), (''vy'', zero_f), (''vz'', zero_f)])),
         list_entry (sat_attitude_flag cfg) ''satellite_attitudes''
           (for_each sats (vector_of ''attitude''
              [(''q0'', VFloat (Fl 1)), (''q1'', zero_f), (''q2'', zero_f), (''q3'', zero_f)])),
         list_entry (sat_orbital_elements_flag cfg) ''satellite_orbital_elements''
           (for_each sats (vector_of ''orbital_elements''
              [(''semi_major_axis'', zero_f), (''eccentricity'', zero_f), (''inclination'', zero_f),
               (''raan'', zero_f), (''arg_perigee'', zero_f), (''mean_anomaly'', zero_f)])),
         list_entry (sat_power_status_flag cfg) ''satellite_power_states'' (for_each sats power_state),
         list_entry (sat_payload_status_flag cfg) ''satellite_payload_states''
           (for_each sats payload_state)] = Some d"
    by (simp only: extract_satellite_states_def simp_thms if_False)
  from g obtain a b c e f h where
    k: "dict_keys a = (if sat_position_flag cfg then {''satellite_positions''} else {})"
       "dict_keys b = (if sat_velocity_flag cfg then {''satellite_velocities''} else {})"
       "dict_keys c = (if sat_attitude_flag cfg then {''satellite_attitudes''} else {})"
       "dict_keys e = (if sat_orbital_elements_flag cfg then {''satellite_orbital_elements''} else {})"
       "dict_keys f = (if sat_power_status_flag cfg then {''satellite_power_states''} else {})"
       "dict_keys h = (if sat_payload_status_flag cfg then {''satellite_payload_states''} else {})"
    and d: "d = a @ b @ c @ e @ f @ h"
    by (elim groups6) (blast dest: list_entry_keys)
  show ?thesis using True by (simp only: d dict_keys_append k simp_thms if_False Un_assoc)
qed

lemma missile_keys:
  assumes "extract_missile_states cfg ms = Some d"
  shows "dict_keys d =
     (if \<not> truthy ms then
        {''missile_positions'', ''missile_velocities'', ''missile_trajectory_predictions'',
         ''missile_threat_levels'', ''missile_flight_phases'', ''missile_remaining_times''}
      else
        (if mis_position_flag cfg then {''missile_positions''} else {}) \<union>
        (if mis_velocity_flag cfg then {''missile_velocities''} else {}) \<union>
        (if mis_trajectory_prediction_flag cfg then {''missile_trajectory_predictions''} else {}) \<union>
        (if mis_threat_level_flag cfg then {''missile_threat_levels''} else {}) \<union>
        (if mis_flight_phase_flag cfg then {''missile_flight_phases''} else {}) \<union>
        (if mis_remaining_time_flag cfg then {''missile_remaining_times''} else {}))"
proof (cases "truthy ms")
  case False
  with assms have "d = get_empty_missile_state" by (simp add: extract_missile_states_def)
  then show ?thesis using False
    by (simp add: get_empty_missile_state_def dict_keys_Cons dict_keys_Nil)
next
  case True
  with assms have g: "groups
        [list_entry (mis_position_flag cfg) ''missile_positions''
           (for_each ms (vector_of ''position'' [(''x'', zero_f), (''y'', zero_f), (''z'', zero_f)])),
         list_entry (mis_velocity_flag cfg) ''missile_velocities''
           (for_each ms (vector_of ''velocity'' [(''vx'', zero_f), (''vy'', zero_f), (''vz'', zero_f)])),
         list_entry (mis_trajectory_prediction_flag cfg) ''missile_trajectory_predictions''
           (for_each ms trajectory_prediction),
         list_entry (mis_threat_level_flag cfg) ''missile_threat_levels'' (for_each ms threat_level_of),
         list_entry (mis_flight_phase_flag cfg) ''missile_flight_phases'' (for_each ms flight_phase_of),
         list_entry (mis_remaining_time_flag cfg) ''missile_remaining_times''
           (for_each ms remaining_time)] = Some d"
    by (simp only: extract_missile_states_def simp_thms if_False)
  from g obtain a b c e f h where
    k: "dict_keys a = (if mis_position_flag cfg then {''missile_positions''} else {})"
       "dict_keys b = (if mis_velocity_flag cfg then {''missile_velocities''} else {})"
       "dict_keys c = (if mis_trajectory_prediction_flag cfg then {''missile_trajectory_predictions''} else {})"
       "dict_keys e = (if mis_threat_level_flag cfg then {''missile_threat_levels''} else {})"
       "dict_keys f = (if mis_flight_phase_flag cfg then {''missile_flight_phases''} else {})"
       "dict_keys h = (if mis_remaining_time_flag cfg then {''missile_remaining_times''} else {})"
    and d: "d = a @ b @ c @ e @ f @ h"
    by (elim groups6) (blast dest: list_entry_keys)
  show ?thesis using True by (simp only: d dict_keys_append k simp_thms if_False Un_assoc)
qed

lemma visibility_state_keys:
  "dict_keys (visibility_state M ns nm) =
     {''visibility_matrix'', ''coverage_ratio'', ''satellite_coverage_counts'', ''missile_coverage_counts''}"
  by (simp add: visibility_state_def Let_def dict_keys_Cons dict_keys_Nil)

lemma visibility_keys:
  "extract_visibility_states vis ns nm = Some d \<Longrightarrow> dict_keys d =
     {''visibility_matrix'', ''coverage_ratio'', ''satellite_coverage_counts'', ''missile_coverage_counts''}"
  by (auto simp: extract_visibility_states_def visibility_state_keys split: option.splits)

lemma environment_keys:
  "dict_keys (extract_environment_states rt cfg bd) =
     (if env_time_of_day_flag cfg then {''time_of_day''} else {}) \<union> {''simulation_progress''} \<union>
     (if env_sun_position_flag cfg then {''sun_elevation''} else {}) \<union>
     (if env_earth_shadow_flag cfg then {''earth_shadow''} else {})"
  unfolding extract_environment_states_def Let_def dict_keys_append dict_keys_if dict_keys_Cons dict_keys_Nil
  by (simp only: Un_assoc)

lemma mission_keys:
  assumes "extract_mission_states cfg bd sats ms = Some d"
  shows "dict_keys d =
     {''active_satellites'', ''active_missiles'', ''mission_progress''} \<union>
     (if mission_tracking_assignments_flag cfg then {''active_tracking_assignments''} else {}) \<union>
     (if mission_resource_utilization_flag cfg then {''power_utilization''} else {}) \<union>
     (if mission_coverage_gaps_flag cfg then {''coverage_gap_ratio''} else {})"
proof -
  from assms obtain ns nm where g: "groups
            [Some [(''active_satellites'', VInt (int ns)),
                   (''active_missiles'', VInt (int nm)),
                   (''mission_progress'', dict_get bd ''simulation_progress'' zero_f)],
             entry (mission_tracking_assignments_flag cfg) ''active_tracking_assignments''
               (count_visible (dict_get bd ''visibility'' (VList []))),
             entry (mission_resource_utilization_flag cfg) ''power_utilization''
               (power_utilization sats ns),
             entry (mission_coverage_gaps_flag cfg) ''coverage_gap_ratio''
               (coverage_gap_ratio ms nm (dict_get bd ''visibility'' (VList [])))] = Some d"
    by (auto simp: extract_mission_states_def split: option.splits)
  from g obtain a b c e where
    a: "Some [(''active_satellites'', VInt (int ns)), (''active_missiles'', VInt (int nm)),
              (''mission_progress'', dict_get bd ''simulation_progress'' zero_f)] = Some a"
    and k: "dict_keys b = (if mission_tracking_assignments_flag cfg then {''active_tracking_assignments''} else {})"
       "dict_keys c = (if mission_resource_utilization_flag cfg then {''power_utilization''} else {})"
       "dict_keys e = (if mission_coverage_gaps_flag cfg then {''coverage_gap_ratio''} else {})"
    and d: "d = a @ b @ c @ e"
    by (elim groups4) (blast dest: entry_keys)
  from a have ka: "dict_keys a = {''active_satellites'', ''active_missiles'', ''mission_progress''}"
    by (auto simp: dict_keys_Cons dict_keys_Nil)
  show ?thesis by (simp only: d dict_keys_append k ka Un_assoc)
qed

lemma extracted_parts:
  assumes "extracted rt cfg bd = Some st"
  obtains s1 s2 ns nm s3 s5 where
    "extract_satellite_states cfg (dict_get bd ''satellites'' (VList [])) = Some s1"
    "extract_missile_states cfg (dict_get bd ''missiles'' (VList [])) = Some s2"
    "py_len (dict_get bd ''satellites'' (VList [])) = Some ns"
    "py_len (dict_get bd ''missiles'' (VList [])) = Some nm"
    "extract_visibility_states (dict_get bd ''visibility'' (VList [])) ns nm = Some s3"
    "extract_mission_states cfg bd (dict_get bd ''satellites'' (VList []))
       (dict_get bd ''missiles'' (VList [])) = Some s5"
    "st = dict_update (dict_update (dict_update (dict_update (dict_update [] s1) s2) s3)
            (extract_environment_states rt cfg bd)) s5"
  using assms unfolding extracted_def Let_def
  by (auto split: option.splits prod.splits)

lemma empty_state_keys:
  "dict_keys get_empty_state =
     {''satellite_positions'', ''satellite_velocities'', ''satellite_attitudes'',
      ''missile_positions'', ''missile_velocities'', ''visibility_matrix'', ''coverage_ratio'',
      ''mission_progress'', ''active_satellites'', ''active_missiles'', ''time_of_day''}"
  by (simp add: get_empty_state_def dict_keys_Cons dict_keys_Nil)

lemma extracted_keys:
  assumes "extracted rt cfg bd = Some st"
  shows "dict_keys st =
     (if \<not> truthy (dict_get bd ''satellites'' (VList [])) then
        {''satellite_positions'', ''satellite_velocities'', ''satellite_attitudes'',
         ''satellite_orbital_elements'', ''satellite_power_states'', ''satellite_payload_states''}
      else
        (if sat_position_flag cfg then {''satellite_positions''} else {}) \<union>
        (if sat_velocity_flag cfg then {''satellite_velocities''} else {}) \<union>
        (if sat_attitude_flag cfg then {''satellite_attitudes''} else {}) \<union>
        (if sat_orbital_elements_flag cfg then {''satellite_orbital_elements''} else {}) \<union>
        (if sat_power_status_flag cfg then {''satellite_power_states''} else {}) \<union>
        (if sat_payload_status_flag cfg then {''satellite_payload_states''} else {})) \<union>
     (if \<not> truthy (dict_get bd ''missiles'' (VList [])) then
        {''missile_positions'', ''missile_velocities'', ''missile_trajectory_predictions'',
         ''missile_threat_levels'', ''missile_flight_phases'', ''missile_remaining_times''}
      else
        (if mis_position_flag cfg then {''missile_positions''} else {}) \<union>
        (if mis_velocity_flag cfg then {''missile_velocities''} else {}) \<union>
        (if mis_trajectory_prediction_flag cfg then {''missile_trajectory_predictions''} else {}) \<union>
        (if mis_threat_level_flag cfg then {''missile_threat_levels''} else {}) \<union>
        (if mis_flight_phase_flag cfg then {''missile_flight_phases''} else {}) \<union>
        (if mis_remaining_time_flag cfg then {''missile_remaining_times''} else {})) \<union>
     {''visibility_matrix'', ''coverage_ratio'', ''satellite_coverage_counts'', ''missile_coverage_counts''} \<union>
     ((if env_time_of_day_flag cfg then {''time_of_day''} else {}) \<union> {''simulation_progress''} \<union>
      (if env_sun_position_flag cfg then {''sun_elevation''} else {}) \<union>
      (if env_earth_shadow_flag cfg then {''earth_shadow''} else {})) \<union>
     ({''active_satellites'', ''active_missiles'', ''mission_progress''} \<union>
      (if mission_tracking_assignments_flag cfg then {''active_tracking_assignments''} else {}) \<union>
      (if mission_resource_utilization_flag cfg then {''power_utilization''} else {}) \<union>
      (if mission_coverage_gaps_flag cfg then {''coverage_gap_ratio''} else {}))"
proof -
  from assms obtain s1 s2 ns nm s3 s5 where
    p: "extract_satellite_states cfg (dict_get bd ''satellites'' (VList [])) = Some s1"
       "extract_missile_states cfg (dict_get bd ''missiles'' (VList [])) = Some s2"
       "extract_visibility_states (dict_get bd ''visibility'' (VList [])) ns nm = Some s3"
       "extract_mission_states cfg bd (dict_get bd ''satellites'' (VList []))
          (dict_get bd ''missiles'' (VList [])) = Some s5"
    and st: "st = dict_update (dict_update (dict_update (dict_update (dict_update [] s1) s2) s3)
            (extract_environment_states rt cfg bd)) s5"
    by (rule extracted_parts)
  show ?thesis
    unfolding st dict_keys_dict_update dict_keys_Nil
      satellite_keys[OF p(1)] missile_keys[OF p(2)] visibility_keys[OF p(3)]
      environment_keys mission_keys[OF p(4)]
    by (simp only: Un_empty_left)
qed

lemma all_disabled_flags:
  "sat_position_flag all_disabled = False" "sat_velocity_flag all_disabled = False"
  "sat_attitude_flag all_disabled = False" "sat_orbital_elements_flag all_disabled = False"
  "sat_power_status_flag all_disabled = False" "sat_payload_status_flag all_disabled = False"
  "mis_position_flag all_disabled = False" "mis_velocity_flag all_disabled = False"
  "mis_trajectory_prediction_flag all_disabled = False" "mis_threat_level_flag all_disabled = False"
  "mis_flight_phase_flag all_disabled = False" "mis_remaining_time_flag all_disabled = False"
  "env_time_of_day_flag all_disabled = False" "env_sun_position_flag all_disabled = False"
  "env_earth_shadow_flag all_disabled = False"
  "mission_tracking_assignments_flag all_disabled = False"
  "mission_resource_utilization_flag all_disabled = False"
  "mission_coverage_gaps_flag all_disabled = False"
  by (simp_all add: all_disabled_def)

lemma entry_off: "entry False name val = Some []" "list_entry False name vals = Some []"
  by (simp_all add: entry_def list_entry_def)

lemma groups_off6: "groups [Some [], Some [], Some [], Some [], Some [], Some []] = Some []"
  by (simp add: groups_def)

lemma satellites_all_disabled: "extract_satellite_states all_disabled sats =
    Some (if \<not> truthy sats then get_empty_satellite_state else [])"
  by (simp only: extract_satellite_states_def all_disabled_flags entry_off groups_off6 if_distrib
      if_cancel cong: if_cong)
     simp

lemma missiles_all_disabled: "extract_missile_states all_disabled ms =
    Some (if \<not> truthy ms then get_empty_missile_state else [])"
  by (simp only: extract_missile_states_def all_disabled_flags entry_off groups_off6)
     simp

lemma mission_all_disabled:
  "py_len sats = Some ns \<Longrightarrow> py_len ms = Some nm \<Longrightarrow>
   extract_mission_states all_disabled bd sats ms =
     Some [(''active_satellites'', VInt (int ns)), (''active_missiles'', VInt (int nm)),
           (''mission_progress'', dict_get bd ''simulation_progress'' zero_f)]"
  by (simp add: extract_mission_states_def all_disabled_flags entry_off groups_def)

lemma environment_all_disabled:
  "extract_environment_states rt all_disabled bd =
     [(''simulation_progress'', dict_get bd ''simulation_progress'' zero_f)]"
  by (simp add: extract_environment_states_def all_disabled_flags)

lemma extracted_all_disabled:
  assumes "py_len (dict_get bd ''satellites'' (VList [])) = Some ns"
    and "py_len (dict_get bd ''missiles'' (VList [])) = Some nm"
    and "create_visibility_matrix (dict_get bd ''visibility'' (VList [])) ns nm = Some M"
  shows "extracted rt all_disabled bd =
     Some (dict_update
            (dict_update
              (dict_update
                (dict_update
                   (dict_update [] (if \<not> truthy (dict_get bd ''satellites'' (VList []))
                                    then get_empty_satellite_state else []))
                   (if \<not> truthy (dict_get bd ''missiles'' (VList []))
                    then get_empty_missile_state else []))
                (visibility_state M ns nm))
              [(''simulation_progress'', dict_get bd ''simulation_progress'' zero_f)])
            [(''active_satellites'', VInt (int ns)), (''active_missiles'', VInt (int nm)),
             (''mission_progress'', dict_get bd ''simulation_progress'' zero_f)])"
  unfolding extracted_def Let_def
  by (simp only: satellites_all_disabled missiles_all_disabled assms
      mission_all_disabled[OF assms(1,2)] environment_all_disabled extract_visibility_states_def
      option.case prod.case)

lemma index_of_None: "index_of s x = None \<longleftrightarrow> \<not> list_ex (py_eq x) s"
  by (induction s) auto

lemma id_member_False: "id_member x s = Some False \<Longrightarrow> index_of s x = None"
  by (auto simp: id_member_def index_of_None split: if_splits)

lemma those_snoc:
  assumes "those (xs @ [x]) = Some ys"
  shows "\<exists>zs z. those xs = Some zs \<and> x = Some z \<and> ys = zs @ [z]"
proof -
  from assms have e: "xs @ [x] = map Some ys" by (simp only: those_Some_iff)
  show ?thesis
  proof (cases ys rule: rev_cases)
    case Nil
    with e show ?thesis by simp
  next
    case (snoc zs z)
    with e have "xs = map Some zs" "x = Some z" by simp_all
    then show ?thesis using snoc by (simp add: those_Some_iff)
  qed
qed

lemma mark_cell:
  assumes "mark sids mids ns nm v = Some (Some (c, b))"
  shows "fst c < ns \<and> snd c < nm \<and> names sids mids v c \<and>
         b = (if truthy (field_of v ''has_visibility'' (VBool False)) then 1 else 0)"
  using assms
  by (auto simp: mark_def Let_def names_def field_of_def
      split: pyval.splits option.splits bool.splits if_splits)

lemma mark_skip:
  assumes "mark sids mids ns nm v = Some None" and "fst c < ns" and "snd c < nm"
  shows "\<not> names sids mids v c"
  using assms
  by (auto simp: mark_def Let_def names_def field_of_def dest: id_member_False
      split: pyval.splits option.splits bool.splits if_splits)

lemma shown_at_snoc:
  "shown_at sids mids (recs @ [v]) c =
     (if names sids mids v c then truthy (field_of v ''has_visibility'' (VBool False))
      else shown_at sids mids recs c)"
proof (cases "names sids mids v c")
  case True
  have l: "(case ys @ [v] of [] \<Rightarrow> False | vs \<Rightarrow> truthy (field_of (last vs) ''has_visibility'' (VBool False)))
        = truthy (field_of v ''has_visibility'' (VBool False))" for ys
    by (cases ys) simp_all
  show ?thesis using True unfolding shown_at_def names_def by (simp add: l)
next
  case False
  then show ?thesis unfolding shown_at_def names_def by auto
qed

lemma put_shaped:
  assumes "shaped ns nm M" and "fits ns nm m"
  shows "shaped ns nm (put M m)"
proof (cases m)
  case None
  then show ?thesis using assms by simp
next
  case (Some cb)
  obtain i j b where cb: "cb = ((i, j), b)" by (metis prod.collapse)
  from assms Some cb have i: "i < ns" and b: "b \<le> 1" by (auto simp: fits_def)
  have row: "length (M ! i) = nm \<and> (\<forall>x \<in> set (M ! i). x \<le> 1)"
    using assms(1) i by (auto simp: shaped_def)
  have new: "length ((M ! i)[j := b]) = nm \<and> (\<forall>x \<in> set ((M ! i)[j := b]). x \<le> 1)"
    using row b by (auto dest: set_update_subset_insert[THEN subsetD])
  have "\<forall>r \<in> set (M[i := (M ! i)[j := b]]). length r = nm \<and> (\<forall>x \<in> set r. x \<le> 1)"
  proof
    fix r assume "r \<in> set (M[i := (M ! i)[j := b]])"
    then have "r = (M ! i)[j := b] \<or> r \<in> set M"
      using set_update_subset_insert[of M i "(M ! i)[j := b]"] by auto
    then show "length r = nm \<and> (\<forall>x \<in> set r. x \<le> 1)"
      using new assms(1) by (auto simp: shaped_def)
  qed
  then show ?thesis using assms(1) Some cb by (simp add: shaped_def)
qed

lemma foldl_put_shaped:
  "shaped ns nm M \<Longrightarrow> \<forall>m \<in> set marks. fits ns nm m \<Longrightarrow> shaped ns nm (foldl put M marks)"
  by (induction marks arbitrary: M) (simp_all add: put_shaped)

lemma zeros_shaped: "shaped ns nm (replicate ns (replicate nm 0))"
  by (auto simp: shaped_def)

lemma marks_fit:
  assumes "those (map (mark sids mids ns nm) recs) = Some marks"
  shows "\<forall>m \<in> set marks. fits ns nm m"
proof
  fix m assume "m \<in> set marks"
  with assms have "Some m \<in> set (map (mark sids mids ns nm) recs)"
    by (simp add: those_Some_iff)
  then obtain v where "mark sids mids ns nm v = Some m" by auto
  then show "fits ns nm m"
    by (cases m) (auto simp: fits_def dest: mark_cell)
qed

lemma cells_written:
  assumes "i < ns" and "j < nm"
  shows "those (map (mark sids mids ns nm) recs) = Some marks \<Longrightarrow>
         foldl put (replicate ns (replicate nm 0)) marks ! i ! j =
           (if shown_at sids mids recs (i, j) then 1 else 0)"
proof (induction recs arbitrary: marks rule: rev_induct)
  case Nil
  then show ?case using assms by (simp add: shown_at_def)
next
  case (snoc v recs)
  from snoc.prems have "those (map (mark sids mids ns nm) recs @ [mark sids mids ns nm v]) = Some marks"
    by simp
  from those_snoc[OF this] obtain ms m where ms: "those (map (mark sids mids ns nm) recs) = Some ms"
    and m: "mark sids mids ns nm v = Some m" and marks: "marks = ms @ [m]"
    by blast
  define M where "M = foldl put (replicate ns (replicate nm 0)) ms"
  have sh: "shaped ns nm M"
    unfolding M_def by (rule foldl_put_shaped[OF zeros_shaped marks_fit[OF ms]])
  have IH: "M ! i ! j = (if shown_at sids mids recs (i, j) then 1 else 0)"
    unfolding M_def by (rule snoc.IH[OF ms])
  have step: "foldl put (replicate ns (replicate nm 0)) marks = put M m"
    by (simp add: marks M_def)
  show ?case
  proof (cases m)
    case None
    with m have "\<not> names sids mids v (i, j)" using mark_skip assms by fastforce
    then show ?thesis using None IH by (simp add: step shown_at_snoc)
  next
    case (Some cb)
    obtain i' j' b where cb: "cb = ((i', j'), b)" by (metis prod.collapse)
    from mark_cell[OF m[unfolded Some cb]]
    have c: "i' < ns" "j' < nm" "names sids mids v (i', j')"
      and b: "b = (if truthy (field_of v ''has_visibility'' (VBool False)) then 1 else 0)"
      by simp_all
    have len: "length M = ns" "length (M ! i') = nm"
      using sh c by (auto simp: shaped_def)
    show ?thesis
    proof (cases "(i', j') = (i, j)")
      case True
      then have "put M m ! i ! j = b" using Some cb len assms by simp
      then show ?thesis using True c b by (simp add: step shown_at_snoc)
    next
      case False
      then have n: "\<not> names sids mids v (i, j)" using c(3) by (auto simp: names_def)
      have "put M m ! i ! j = M ! i ! j"
      proof (cases "i' = i")
        case True
        with False have "j' \<noteq> j" by simp
        then show ?thesis using Some cb True len assms by simp
      next
        case False
        then show ?thesis using Some cb len assms by simp
      qed
      then show ?thesis using n IH by (simp add: step shown_at_snoc)
    qed
  qed
qed

lemma product_snoc: "List.product (xs @ [x]) ys = List.product xs ys @ map (Pair x) ys"
  by (induction xs) simp_all

lemma row_sum:
  "\<forall>x \<in> set row. x \<le> (1::nat) \<Longrightarrow>
   sum_list row = length (filter (\<lambda>j. row ! j = 1) [0 ..< length row])"
proof (induction row rule: rev_induct)
  case Nil
  then show ?case by simp
next
  case (snoc x row)
  have "filter (\<lambda>j. (row @ [x]) ! j = 1) [0 ..< length row] = filter (\<lambda>j. row ! j = 1) [0 ..< length row]"
    by (rule filter_cong) (auto simp: nth_append)
  moreover have "x = 0 \<or> x = 1" using snoc.prems by auto
  ultimately show ?case using snoc by auto
qed

lemma matrix_sum:
  "length M = ns \<Longrightarrow> \<forall>row \<in> set M. length row = nm \<and> (\<forall>x \<in> set row. x \<le> (1::nat)) \<Longrightarrow>
   sum_list (map sum_list M) =
     length (filter (\<lambda>c. M ! fst c ! snd c = 1) (List.product [0 ..< ns] [0 ..< nm]))"
proof (induction M arbitrary: ns rule: rev_induct)
  case Nil
  then show ?case by simp
next
  case (snoc row M)
  define n where "n = length M"
  have ns: "ns = Suc n" using snoc.prems(1) by (simp add: n_def)
  have IH: "sum_list (map sum_list M) =
     length (filter (\<lambda>c. M ! fst c ! snd c = 1) (List.product [0 ..< n] [0 ..< nm]))"
    using snoc.prems(2) by (intro snoc.IH) (auto simp: n_def)
  have old: "filter (\<lambda>c. (M @ [row]) ! fst c ! snd c = 1) (List.product [0 ..< n] [0 ..< nm]) =
             filter (\<lambda>c. M ! fst c ! snd c = 1) (List.product [0 ..< n] [0 ..< nm])"
    by (rule filter_cong) (auto simp: nth_append n_def)
  have row: "length row = nm" "\<forall>x \<in> set row. x \<le> 1" using snoc.prems(2) by auto
  have new: "length (filter (\<lambda>c. (M @ [row]) ! fst c ! snd c = 1) (map (Pair n) [0 ..< nm])) =
             sum_list row"
    unfolding row_sum[OF row(2)] row(1)
    by (simp add: filter_map comp_def n_def)
  have e1: "[0 ..< Suc n] = [0 ..< n] @ [n]" by simp
  have e2: "sum_list (map sum_list (M @ [row])) = sum_list (map sum_list M) + sum_list row"
    by simp
  show ?case
    unfolding ns e1 e2 product_snoc filter_append length_append old new IH
    by simp
qed

lemma covered_cells:
  assumes "0 < ns" and "0 < nm"
    and "create_visibility_matrix vis ns nm = Some M"
  shows "shaped ns nm M \<and> sum_list (map sum_list M) = covered_pairs vis ns nm"
proof -
  from assms obtain recs sids mids marks where
    r: "py_iter vis = Some recs" "observed_ids ''satellite_id'' recs = Some sids"
       "observed_ids ''missile_id'' recs = Some mids"
    and t: "those (map (mark sids mids ns nm) recs) = Some marks"
    and M: "M = foldl put (replicate ns (replicate nm 0)) marks"
    by (auto simp: create_visibility_matrix_def split: option.splits prod.splits)
  have sh: "shaped ns nm M"
    unfolding M by (rule foldl_put_shaped[OF zeros_shaped marks_fit[OF t]])
  have "filter (\<lambda>c. M ! fst c ! snd c = 1) (List.product [0 ..< ns] [0 ..< nm]) =
        filter (shown_at sids mids recs) (List.product [0 ..< ns] [0 ..< nm])"
  proof (rule filter_cong[OF refl])
    fix c assume "c \<in> set (List.product [0 ..< ns] [0 ..< nm])"
    then have "fst c < ns" "snd c < nm" by auto
    from cells_written[OF this t] show "(M ! fst c ! snd c = 1) = shown_at sids mids recs c"
      by (simp add: M)
  qed
  then have "sum_list (map sum_list M) =
        length (filter (shown_at sids mids recs) (List.product [0 ..< ns] [0 ..< nm]))"
    using matrix_sum[of M ns nm] sh by (simp add: shaped_def)
  then show ?thesis using sh by (simp add: covered_pairs_def r)
qed

lemma visibility_coverage:
  assumes "extract_visibility_states vis ns nm = Some d"
  shows "map_of d ''coverage_ratio'' =
     Some (VFloat (Fl (if ns = 0 \<or> nm = 0 then 0
                       else real (covered_pairs vis ns nm) / real (ns * nm))))"
proof -
  from assms obtain M where M: "create_visibility_matrix vis ns nm = Some M"
    and d: "d = visibility_state M ns nm"
    by (auto simp: extract_visibility_states_def split: option.splits)
  show ?thesis
  proof (cases "ns = 0 \<or> nm = 0")
    case True
    with M have "M = []" by (auto simp: create_visibility_matrix_def)
    then show ?thesis using True by (simp add: d visibility_state_def)
  next
    case False
    then have pos: "0 < ns" "0 < nm" by simp_all
    from covered_cells[OF pos M] have sh: "shaped ns nm M"
      and s: "sum_list (map sum_list M) = covered_pairs vis ns nm" by simp_all
    from sh pos have ne: "M \<noteq> []" by (auto simp: shaped_def)
    show ?thesis using False ne pos s by (simp add: d visibility_state_def Let_def)
  qed
qed

lemma extracted_coverage:
  assumes "extracted rt cfg bd = Some st"
  shows "map_of st ''coverage_ratio'' =
     Some (VFloat (Fl
       (if count_of (dict_get bd ''satellites'' (VList [])) = 0 \<or>
           count_of (dict_get bd ''missiles'' (VList [])) = 0 then 0
        else real (covered_pairs (dict_get bd ''visibility'' (VList []))
                     (count_of (dict_get bd ''satellites'' (VList [])))
                     (count_of (dict_get bd ''missiles'' (VList [])))) /
             real (count_of (dict_get bd ''satellites'' (VList [])) *
                   count_of (dict_get bd ''missiles'' (VList []))))))"
proof -
  from assms obtain s1 s2 ns nm s3 s5 where
    n: "py_len (dict_get bd ''satellites'' (VList [])) = Some ns"
       "py_len (dict_get bd ''missiles'' (VList [])) = Some nm"
    and v: "extract_visibility_states (dict_get bd ''visibility'' (VList [])) ns nm = Some s3"
    and m: "extract_mission_states cfg bd (dict_get bd ''satellites'' (VList []))
          (dict_get bd ''missiles'' (VList [])) = Some s5"
    and st: "st = dict_update (dict_update (dict_update (dict_update (dict_update [] s1) s2) s3)
            (extract_environment_states rt cfg bd)) s5"
    by (rule extracted_parts)
  have e: "''coverage_ratio'' \<notin> dict_keys (extract_environment_states rt cfg bd)"
    unfolding environment_keys by (simp split del: if_split) (simp)
  have k5: "''coverage_ratio'' \<notin> dict_keys s5"
    unfolding mission_keys[OF m] by (simp split del: if_split) (simp)
  from v obtain M where s3: "s3 = visibility_state M ns nm"
    by (auto simp: extract_visibility_states_def split: option.splits)
  obtain a b c e' where shape: "s3 =
        [(''visibility_matrix'', a), (''coverage_ratio'', b),
         (''satellite_coverage_counts'', c), (''missile_coverage_counts'', e')]"
    unfolding s3 by (cases "M = []") (simp_all add: visibility_state_def Let_def)
  have "''coverage_ratio'' \<notin> dict_keys [(''satellite_coverage_counts'', c), (''missile_coverage_counts'', e')]"
    by (simp add: dict_keys_Cons dict_keys_Nil)
  from map_of_dict_update_last[OF this, of _ "[(''visibility_matrix'', a)]" b]
  have L: "map_of (dict_update d0 s3) ''coverage_ratio'' = Some b" for d0
    unfolding shape by simp
  have R: "map_of s3 ''coverage_ratio'' = Some b" unfolding shape by simp
  have "map_of st ''coverage_ratio'' = map_of s3 ''coverage_ratio''"
    unfolding st by (simp only: map_of_dict_update_other[OF k5] map_of_dict_update_other[OF e] L R)
  then show ?thesis
    using visibility_coverage[OF v] n by (simp add: count_of_def)
qed

lemma small_parts:
  "dict_get small_snapshot ''satellites'' (VList []) = VList [bare_satellite ''S1'', bare_satellite ''S2'']"
  "dict_get small_snapshot ''missiles'' (VList []) = VList [bare_missile ''M1'']"
  "dict_get small_snapshot ''visibility'' (VList []) = VList [sees ''S1'' ''M1'' True, sees ''S2'' ''M1'' False]"
  "dict_get small_snapshot ''simulation_progress'' zero_f = VFloat (Fl (1 / 2))"
  by (simp_all add: small_snapshot_def dict_get_def)

lemma empty_parts:
  "dict_get empty_snapshot ''satellites'' (VList []) = VList []"
  "dict_get empty_snapshot ''missiles'' (VList []) = VList []"
  "dict_get empty_snapshot ''visibility'' (VList []) = VList []"
  by (simp_all add: empty_snapshot_def dict_get_def)

lemma small_ids:
  "observed_ids ''satellite_id'' [sees ''S1'' ''M1'' True, sees ''S2'' ''M1'' False] = Some [VStr ''S1'', VStr ''S2'']"
  "observed_ids ''missile_id'' [sees ''S1'' ''M1'' True, sees ''S2'' ''M1'' False] = Some [VStr ''M1'']"
  by (simp_all add: observed_ids_def sees_def dict_get_def id_member_def py_sorted_def)

lemma small_matrix:
  "create_visibility_matrix (VList [sees ''S1'' ''M1'' True, sees ''S2'' ''M1'' False]) (Suc (Suc 0)) (Suc 0) =
     Some [[1], [0]]"
  unfolding create_visibility_matrix_def
  by (simp add: small_ids) (simp add: mark_def sees_def dict_get_def id_member_def)

lemma small_covered:
  "covered_pairs (VList [sees ''S1'' ''M1'' True, sees ''S2'' ''M1'' False]) (Suc (Suc 0)) (Suc 0) = 1"
  using covered_cells[OF _ _ small_matrix] by simp

lemma small_extracted: "extracted rt all_disabled small_snapshot \<noteq> None"
proof -
  have l: "py_len (dict_get small_snapshot ''satellites'' (VList [])) = Some 2"
    "py_len (dict_get small_snapshot ''missiles'' (VList [])) = Some 1"
    by (simp_all add: small_parts)
  have m: "create_visibility_matrix (dict_get small_snapshot ''visibility'' (VList [])) 2 1 = Some [[1], [0]]"
    using small_matrix by (simp add: small_parts numeral_2_eq_2)
  show ?thesis
    unfolding extracted_all_disabled[OF l m] by simp
qed

lemma empty_extracted: "extracted rt all_disabled empty_snapshot \<noteq> None"
proof -
  have l: "py_len (dict_get empty_snapshot ''satellites'' (VList [])) = Some 0"
    "py_len (dict_get empty_snapshot ''missiles'' (VList [])) = Some 0"
    by (simp_all add: empty_parts)
  have m: "create_visibility_matrix (dict_get empty_snapshot ''visibility'' (VList [])) 0 0 = Some []"
    by (simp add: create_visibility_matrix_def)
  show ?thesis
    unfolding extracted_all_disabled[OF l m] by simp
qed

lemma broken_extracted: "extracted rt power_only broken_snapshot = None"
proof -
  have s: "dict_get broken_snapshot ''satellites'' (VList []) =
      VList [VDict [(''satellite_id'', VStr ''S1''), (''payload_status'', VNone)]]"
    by (simp add: broken_snapshot_def dict_get_def)
  have p: "for_each (VList [VDict [(''satellite_id'', VStr ''S1''), (''payload_status'', VNone)]])
             power_state = None"
    by (simp add: for_each_def power_state_def dict_get_def)
  have f: "sat_power_status_flag power_only" by (simp add: power_only_def)
  have "extract_satellite_states power_only (dict_get broken_snapshot ''satellites'' (VList [])) = None"
    unfolding s extract_satellite_states_def groups_def
    by (simp add: p f list_entry_def entry_def split: option.splits)
  then show ?thesis by (simp add: extracted_def Let_def)
qed

lemma stale_extracted:
  "extracted rt all_disabled stale_snapshot \<noteq> None \<and>
   count_of (dict_get stale_snapshot ''satellites'' (VList [])) = 1 \<and>
   count_of (dict_get stale_snapshot ''missiles'' (VList [])) = 1 \<and>
   covered_pairs (dict_get stale_snapshot ''visibility'' (VList [])) 1 1 = 1"
proof -
  have parts: "dict_get stale_snapshot ''satellites'' (VList []) = VList [bare_satellite ''S1'']"
    "dict_get stale_snapshot ''missiles'' (VList []) = VList [bare_missile ''M1'']"
    "dict_get stale_snapshot ''visibility'' (VList []) = VList [sees ''S0'' ''M1'' True]"
    "dict_get stale_snapshot ''simulation_progress'' zero_f = zero_f"
    by (simp_all add: stale_snapshot_def dict_get_def)
  have l: "py_len (dict_get stale_snapshot ''satellites'' (VList [])) = Some 1"
    "py_len (dict_get stale_snapshot ''missiles'' (VList [])) = Some 1"
    by (simp_all add: parts)
  have ids: "observed_ids ''satellite_id'' [sees ''S0'' ''M1'' True] = Some [VStr ''S0'']"
    "observed_ids ''missile_id'' [sees ''S0'' ''M1'' True] = Some [VStr ''M1'']"
    by (simp_all add: observed_ids_def sees_def dict_get_def id_member_def py_sorted_def)
  have m: "create_visibility_matrix (dict_get stale_snapshot ''visibility'' (VList [])) 1 1 = Some [[1]]"
    unfolding parts create_visibility_matrix_def
    by (simp add: ids) (simp add: mark_def sees_def dict_get_def id_member_def)
  have c: "covered_pairs (dict_get stale_snapshot ''visibility'' (VList [])) 1 1 = 1"
    using covered_cells[OF _ _ m] by simp
  show ?thesis
    unfolding extracted_all_disabled[OF l m] using c by (simp add: count_of_def l)
qed

lemma stated_examples:
  "stated_coverage_ratio broken_snapshot = 1" "stated_coverage_ratio stale_snapshot = 0"
  by (simp_all add: stated_coverage_ratio_def broken_snapshot_def stale_snapshot_def dict_get_def
      records_def pair_seen_def field_of_def sees_def bare_satellite_def bare_missile_def Let_def)

text \<open>
  Claim C5, as stated, fails in two ways. A satellite record with \<open>payload_status: None\<close>,
  under a configuration that reads the power status, makes the extraction raise: the
  state is \<open>_get_empty_state()\<close> and its \<open>coverage_ratio\<close> is 0.0 although the one
  satellite of the snapshot sees its one missile. And a visibility record that names a
  satellite which is not in the snapshot is counted: the ratio is 1.0 although no
  satellite of the snapshot sees the missile.
\<close>

theorem coverage_ratio_stated_counterexample:
  "map_of (extract_state_vector plain_runtime power_only broken_snapshot) ''coverage_ratio'' =
     Some (VFloat (Fl 0)) \<and>
   stated_coverage_ratio broken_snapshot = 1 \<and>
   map_of (extract_state_vector plain_runtime all_disabled stale_snapshot) ''coverage_ratio'' =
     Some (VFloat (Fl 1)) \<and>
   stated_coverage_ratio stale_snapshot = 0"
proof -
  have a: "map_of (extract_state_vector plain_runtime power_only broken_snapshot) ''coverage_ratio'' =
     Some (VFloat (Fl 0))"
    by (simp add: extract_state_vector_def broken_extracted get_empty_state_def)
  obtain st where st: "extracted plain_runtime all_disabled stale_snapshot = Some st"
    using stale_extracted[of plain_runtime] by auto
  have b: "map_of (extract_state_vector plain_runtime all_disabled stale_snapshot) ''coverage_ratio'' =
     Some (VFloat (Fl 1))"
    using extracted_coverage[OF st] stale_extracted[of plain_runtime]
    by (simp add: extract_state_vector_def st)
  show ?thesis using a b stated_examples by simp
qed

text \<open>
  Claim C5, amended: the extracted state always carries \<open>coverage_ratio\<close>. It is 0.0 when
  the extraction raises (the state is then \<open>_get_empty_state()\<close>) and when the snapshot has
  no satellite or no missile. Otherwise it is the number of covered index pairs divided by
  satellite count times missile count, where the pairs are indexed by the sorted ids of
  the visibility records, not by the satellites and missiles of the snapshot, and a pair
  is covered when the last record with its index has \<open>has_visibility\<close>.
\<close>

theorem coverage_ratio_counts_indexed_pairs:
  "map_of (extract_state_vector rt cfg bd) ''coverage_ratio'' =
     Some (VFloat (Fl
       (if extracted rt cfg bd = None \<or>
           count_of (dict_get bd ''satellites'' (VList [])) = 0 \<or>
           count_of (dict_get bd ''missiles'' (VList [])) = 0 then 0
        else real (covered_pairs (dict_get bd ''visibility'' (VList []))
                     (count_of (dict_get bd ''satellites'' (VList [])))
                     (count_of (dict_get bd ''missiles'' (VList [])))) /
             real (count_of (dict_get bd ''satellites'' (VList [])) *
                   count_of (dict_get bd ''missiles'' (VList []))))))"
proof (cases "extracted rt cfg bd")
  case None
  then show ?thesis by (simp add: extract_state_vector_def get_empty_state_def)
next
  case (Some st)
  then show ?thesis using extracted_coverage[OF Some] by (simp add: extract_state_vector_def)
qed

theorem coverage_ratio_counts_indexed_pairs_witness:
  "map_of (extract_state_vector plain_runtime all_disabled small_snapshot) ''coverage_ratio'' =
     Some (VFloat (Fl (1 / 2))) \<and>
   map_of (extract_state_vector plain_runtime all_disabled empty_snapshot) ''coverage_ratio'' =
     Some (VFloat (Fl 0)) \<and>
   map_of (extract_state_vector plain_runtime power_only broken_snapshot) ''coverage_ratio'' =
     Some (VFloat (Fl 0))"
  using coverage_ratio_counts_indexed_pairs[of plain_runtime all_disabled small_snapshot]
        coverage_ratio_counts_indexed_pairs[of plain_runtime all_disabled empty_snapshot]
        coverage_ratio_counts_indexed_pairs[of plain_runtime power_only broken_snapshot]
        small_extracted[of plain_runtime] small_covered
  by (simp add: small_parts empty_parts count_of_def broken_extracted numeral_2_eq_2)

text \<open>
  Claim C10, as stated, fails: with every flag disabled, the state extracted from a snapshot
  without satellites still has the key \<open>satellite_positions\<close> (defaulted to an empty list),
  while the state extracted from a snapshot with two satellites does not; the key set
  depends on the snapshot.
\<close>

theorem disabled_group_present_counterexample:
  "\<not> sat_position_flag all_disabled \<and>
   ''satellite_positions'' \<in> dict_keys (extract_state_vector plain_runtime all_disabled empty_snapshot) \<and>
   ''satellite_positions'' \<notin> dict_keys (extract_state_vector plain_runtime all_disabled small_snapshot)"
proof -
  obtain s1 where s1: "extracted plain_runtime all_disabled empty_snapshot = Some s1"
    using empty_extracted[of plain_runtime] by auto
  obtain s2 where s2: "extracted plain_runtime all_disabled small_snapshot = Some s2"
    using small_extracted[of plain_runtime] by auto
  have k1: "''satellite_positions'' \<in> dict_keys s1"
    unfolding extracted_keys[OF s1] by (simp add: empty_parts)
  have k2: "''satellite_positions'' \<notin> dict_keys s2"
    unfolding extracted_keys[OF s2]
    by (simp only: all_disabled_flags small_parts truthy.simps if_False if_True simp_thms) simp
  show ?thesis using k1 k2 by (simp add: extract_state_vector_def s1 s2 all_disabled_flags)
qed

text \<open>
  Claim C10, amended: the key set of the extracted state is determined by the configuration
  together with three facts about the snapshot: whether the extraction raises, whether its
  satellites are falsy and whether its missiles are falsy. When a helper raises (a
  malformed record), the state is \<open>_get_empty_state()\<close> with its eleven keys whatever the
  flags. Otherwise, with at least one satellite (missile), a satellite (missile) field
  group is present exactly when its flag is enabled; with none, all six satellite
  (missile) keys are present whatever the flags; environment and mission keys follow their
  flags, and the visibility keys, \<open>simulation_progress\<close>, \<open>active_satellites\<close>,
  \<open>active_missiles\<close> and \<open>mission_progress\<close> are always present.
\<close>

theorem state_keys_by_configuration_and_emptiness:
  "dict_keys (extract_state_vector rt cfg bd) =
     (if extracted rt cfg bd = None then
        {''satellite_positions'', ''satellite_velocities'', ''satellite_attitudes'',
         ''missile_positions'', ''missile_velocities'', ''visibility_matrix'', ''coverage_ratio'',
         ''mission_progress'', ''active_satellites'', ''active_missiles'', ''time_of_day''}
      else
     (if \<not> truthy (dict_get bd ''satellites'' (VList [])) then
        {''satellite_positions'', ''satellite_velocities'', ''satellite_attitudes'',
         ''satellite_orbital_elements'', ''satellite_power_states'', ''satellite_payload_states''}
      else
        (if sat_position_flag cfg then {''satellite_positions''} else {}) \<union>
        (if sat_velocity_flag cfg then {''satellite_velocities''} else {}) \<union>
        (if sat_attitude_flag cfg then {''satellite_attitudes''} else {}) \<union>
        (if sat_orbital_elements_flag cfg then {''satellite_orbital_elements''} else {}) \<union>
        (if sat_power_status_flag cfg then {''satellite_power_states''} else {}) \<union>
        (if sat_payload_status_flag cfg then {''satellite_payload_states''} else {})) \<union>
     (if \<not> truthy (dict_get bd ''missiles'' (VList [])) then
        {''missile_positions'', ''missile_velocities'', ''missile_trajectory_predictions'',
         ''missile_threat_levels'', ''missile_flight_phases'', ''missile_remaining_times''}
      else
        (if mis_position_flag cfg then {''missile_positions''} else {}) \<union>
        (if mis_velocity_flag cfg then {''missile_velocities''} else {}) \<union>
        (if mis_trajectory_prediction_flag cfg then {''missile_trajectory_predictions''} else {}) \<union>
        (if mis_threat_level_flag cfg then {''missile_threat_levels''} else {}) \<union>
        (if mis_flight_phase_flag cfg then {''missile_flight_phases''} else {}) \<union>
        (if mis_remaining_time_flag cfg then {''missile_remaining_times''} else {})) \<union>
     {''visibility_matrix'', ''coverage_ratio'', ''satellite_coverage_counts'', ''missile_coverage_counts''} \<union>
     ((if env_time_of_day_flag cfg then {''time_of_day''} else {}) \<union> {''simulation_progress''} \<union>
      (if env_sun_position_flag cfg then {''sun_elevation''} else {}) \<union>
      (if env_earth_shadow_flag cfg then {''earth_shadow''} else {})) \<union>
     ({''active_satellites'', ''active_missiles'', ''mission_progress''} \<union>
      (if mission_tracking_assignments_flag cfg then {''active_tracking_assignments''} else {}) \<union>
      (if mission_resource_utilization_flag cfg then {''power_utilization''} else {}) \<union>
      (if mission_coverage_gaps_flag cfg then {''coverage_gap_ratio''} else {})))"
proof (cases "extracted rt cfg bd")
  case None
  then show ?thesis
    by (simp only: extract_state_vector_def option.case empty_state_keys if_True simp_thms)
next
  case (Some st)
  have "dict_keys (extract_state_vector rt cfg bd) = dict_keys st"
    by (simp only: extract_state_vector_def Some option.case)
  then show ?thesis
    unfolding extracted_keys[OF Some] by (simp only: Some option.distinct if_False simp_thms)
qed

theorem state_keys_by_configuration_and_emptiness_witness:
  "dict_keys (extract_state_vector plain_runtime all_disabled small_snapshot) =
     {''visibility_matrix'', ''coverage_ratio'', ''satellite_coverage_counts'', ''missile_coverage_counts''} \<union>
     {''simulation_progress''} \<union> {''active_satellites'', ''active_missiles'', ''mission_progress''} \<and>
   dict_keys (extract_state_vector plain_runtime power_only broken_snapshot) =
     {''satellite_positions'', ''satellite_velocities'', ''satellite_attitudes'',
      ''missile_positions'', ''missile_velocities'', ''visibility_matrix'', ''coverage_ratio'',
      ''mission_progress'', ''active_satellites'', ''active_missiles'', ''time_of_day''}"
proof -
  have a: "dict_keys (extract_state_vector plain_runtime all_disabled small_snapshot) =
     {''visibility_matrix'', ''coverage_ratio'', ''satellite_coverage_counts'', ''missile_coverage_counts''} \<union>
     {''simulation_progress''} \<union> {''active_satellites'', ''active_missiles'', ''mission_progress''}"
    using state_keys_by_configuration_and_emptiness[of plain_runtime all_disabled small_snapshot]
    by (simp only: all_disabled_flags small_parts small_extracted truthy.simps if_True if_False
        Un_empty_left Un_empty_right list.distinct simp_thms refl)
  have b: "dict_keys (extract_state_vector plain_runtime power_only broken_snapshot) =
     {''satellite_positions'', ''satellite_velocities'', ''satellite_attitudes'',
      ''missile_positions'', ''missile_velocities'', ''visibility_matrix'', ''coverage_ratio'',
      ''mission_progress'', ''active_satellites'', ''active_missiles'', ''time_of_day''}"
    using state_keys_by_configuration_and_emptiness[of plain_runtime power_only broken_snapshot]
    by (simp only: broken_extracted if_True simp_thms)
  show ?thesis using a b by (rule conjI)
qed

section \<open>Properties of the data quality gate\<close>

lemma ratio_unit: "0 \<le> real (length (filter P xs)) / real (length xs) \<and>
                   real (length (filter P xs)) / real (length xs) \<le> 1"
proof -
  have "length (filter P xs) \<le> length xs" by simp
  then show ?thesis by (simp add: divide_le_eq_1)
qed

lemma completeness_score_unit:
  "0 \<le> completeness_score (check_data_completeness rt cfg dp) \<and>
   completeness_score (check_data_completeness rt cfg dp) \<le> 1"
proof -
  define rc where "rc = (if required_fields cfg \<noteq> []
                        then real (length (filter (check_field_exists rt dp) (required_fields cfg)))
                             / real (length (required_fields cfg)) else 1)"
  define oc where "oc = (if optional_fields cfg \<noteq> []
                        then real (length (filter (check_field_exists rt dp) (optional_fields cfg)))
                             / real (length (optional_fields cfg)) else 1)"
  have rc: "0 \<le> rc \<and> rc \<le> 1" unfolding rc_def using ratio_unit[of "check_field_exists rt dp" "required_fields cfg"] by simp
  have oc: "0 \<le> oc \<and> oc \<le> 1" unfolding oc_def using ratio_unit[of "check_field_exists rt dp" "optional_fields cfg"] by simp
  have "completeness_score (check_data_completeness rt cfg dp) = 0.8 * rc + 0.2 * oc"
    by (simp add: check_data_completeness_def Let_def rc_def oc_def)
  then show ?thesis using rc oc by simp
qed

lemma validate_result:
  "fst (validate_rlhf_data_point rt cfg dp v) =
     (let completeness = check_data_completeness rt cfg dp;
          fmt = validate_data_format dp;
          physics = check_physical_constraints cfg dp;
          temporal = check_temporal_consistency v dp;
          anomaly = (if detect_statistical cfg then Some (detect_anomalies rt cfg v dp) else None);
          found = (case anomaly of None \<Rightarrow> [] | Some a \<Rightarrow> found_anomalies a);
          r0 = \<lparr>is_valid = is_complete completeness \<and> format_is_valid fmt,
                validation_score = 1,
                errors = (if \<not> is_complete completeness
                          then map Msg (missing_fields completeness) else []) @
                         (if \<not> format_is_valid fmt then format_errors fmt else []),
                warnings = (if \<not> physics_is_valid physics then constraint_violations physics else []) @
                           (if \<not> is_consistent temporal then inconsistencies temporal else []),
                anomalies = found,
                metrics = \<lparr>qm_completeness = Some completeness, qm_format = Some fmt,
                           qm_physics = Some physics, qm_temporal = Some temporal,
                           qm_anomaly_score = map_option anomaly_score anomaly\<rparr>\<rparr>
      in r0\<lparr>validation_score := calculate_quality_score r0\<rparr>)"
  unfolding validate_rlhf_data_point_def Let_def by (simp only: fst_conv)

lemma validate_facts:
  "errors (fst (validate_rlhf_data_point rt cfg dp v)) =
     (if \<not> is_complete (check_data_completeness rt cfg dp)
      then map Msg (missing_fields (check_data_completeness rt cfg dp)) else []) @
     (if \<not> format_is_valid (validate_data_format dp) then format_errors (validate_data_format dp) else [])"
  "anomalies (fst (validate_rlhf_data_point rt cfg dp v)) =
     (if detect_statistical cfg then found_anomalies (detect_anomalies rt cfg v dp) else [])"
  "is_valid (fst (validate_rlhf_data_point rt cfg dp v)) =
     (is_complete (check_data_completeness rt cfg dp) \<and> format_is_valid (validate_data_format dp))"
  "qm_completeness (metrics (fst (validate_rlhf_data_point rt cfg dp v))) =
     Some (check_data_completeness rt cfg dp)"
  "validation_score (fst (validate_rlhf_data_point rt cfg dp v)) =
     max 0 (min 1 ((1 - real (length (errors (fst (validate_rlhf_data_point rt cfg dp v)))) * 0.3
                      - real (length (warnings (fst (validate_rlhf_data_point rt cfg dp v)))) * 0.1
                      - real (length (anomalies (fst (validate_rlhf_data_point rt cfg dp v)))) * 0.05)
                   * completeness_score (check_data_completeness rt cfg dp)))"
  unfolding validate_result Let_def calculate_quality_score_def
  by (simp_all split del: if_split cong: if_cong) (cases "detect_statistical cfg"; simp)


text \<open>
  Claim C4: the validation score of every result is
  \<open>max(0, (1.0 - 0.3 * errors - 0.1 * warnings - 0.05 * anomalies) * completeness_score)\<close>,
  where the counts are those of the result and the completeness score is the one stored
  in its quality metrics.
\<close>

theorem validation_score_formula:
  "validation_score (fst (validate_rlhf_data_point rt cfg dp v)) =
     max 0 ((1 - 0.3 * real (length (errors (fst (validate_rlhf_data_point rt cfg dp v))))
              - 0.1 * real (length (warnings (fst (validate_rlhf_data_point rt cfg dp v))))
              - 0.05 * real (length (anomalies (fst (validate_rlhf_data_point rt cfg dp v)))))
            * completeness_score (check_data_completeness rt cfg dp)) \<and>
   qm_completeness (metrics (fst (validate_rlhf_data_point rt cfg dp v))) =
     Some (check_data_completeness rt cfg dp)"
proof -
  define e where "e = real (length (errors (fst (validate_rlhf_data_point rt cfg dp v))))"
  define w where "w = real (length (warnings (fst (validate_rlhf_data_point rt cfg dp v))))"
  define a where "a = real (length (anomalies (fst (validate_rlhf_data_point rt cfg dp v))))"
  define c where "c = completeness_score (check_data_completeness rt cfg dp)"
  have c: "0 \<le> c" "c \<le> 1" using completeness_score_unit[of rt cfg dp] by (simp_all add: c_def)
  have nn: "0 \<le> e" "0 \<le> w" "0 \<le> a" by (simp_all add: e_def w_def a_def)
  define s where "s = 1 - e * 0.3 - w * 0.1 - a * 0.05"
  have s1: "s \<le> 1" using nn by (simp add: s_def)
  have le: "s * c \<le> 1"
  proof (cases "0 \<le> s")
    case True
    then have "s * c \<le> 1 * 1" using s1 c by (intro mult_mono) simp_all
    then show ?thesis by simp
  next
    case False
    then have "s * c \<le> 0" using c by (simp add: mult_le_0_iff)
    then show ?thesis by simp
  qed
  have "validation_score (fst (validate_rlhf_data_point rt cfg dp v)) = max 0 (min 1 (s * c))"
    unfolding s_def e_def w_def a_def c_def by (rule validate_facts(5))
  also have "\<dots> = max 0 (s * c)" using le by simp
  also have "s = 1 - 0.3 * e - 0.1 * w - 0.05 * a" by (simp add: s_def)
  finally show ?thesis
    unfolding e_def w_def a_def c_def using validate_facts(4)[of rt cfg dp v] by blast
qed

text \<open>
  Claim C6: while the validator's history holds fewer than 10 records, the anomaly list
  of a validation result is empty, whatever the reward of the point.
\<close>

theorem anomalies_silent_below_ten:
  assumes "length (historical_data v) < 10"
  shows "anomalies (fst (validate_rlhf_data_point rt cfg dp v)) = []"
  using assms by (simp add: validate_facts(2) detect_anomalies_def)

theorem anomalies_silent_below_ten_witness:
  "length (historical_data one_record_validator) < 10 \<and>
   dp_reward outlier_point = Fl 1000 \<and>
   map h_reward (historical_data one_record_validator) = [Fl 0] \<and>
   anomalies (fst (validate_rlhf_data_point plain_runtime strict_quality outlier_point
                     one_record_validator)) = []"
proof -
  have h: "length (historical_data one_record_validator) < 10"
    by (simp add: one_record_validator_def)
  show ?thesis
    using h anomalies_silent_below_ten[OF h, of plain_runtime strict_quality outlier_point]
    by (simp add: one_record_validator_def outlier_point_def)
qed





theorem validation_score_formula_witness:
  "validation_score (fst (validate_rlhf_data_point plain_runtime strict_quality empty_state_point
                            fresh_validator)) = 21 / 50"
proof -
  have sp: "split_on (CHR ''.'') ''state.satellite_positions'' = [''state'', ''satellite_positions'']"
    "split_on (CHR ''.'') ''reward'' = [''reward'']"
    by simp_all
  have f: "\<not> check_field_exists plain_runtime empty_state_point ''state.satellite_positions''"
    "check_field_exists plain_runtime empty_state_point ''reward''"
    unfolding check_field_exists_def sp
    by (simp_all add: dp_getattr_def plain_runtime_def empty_state_point_def)
  have c: "check_data_completeness plain_runtime strict_quality empty_state_point =
     \<lparr>is_complete = False, completeness_score = 3 / 5,
      missing_fields = [''state.satellite_positions''], present_fields = [''reward''],
      required_completeness = 1 / 2, optional_completeness = 1\<rparr>"
    by (simp add: check_data_completeness_def strict_quality_def Let_def f)
  have fmt: "format_is_valid (validate_data_format empty_state_point)"
    by (simp add: validate_data_format_def validate_state_format_def validate_action_format_def
        empty_state_point_def Let_def)
  have e: "length (errors (fst (validate_rlhf_data_point plain_runtime strict_quality empty_state_point
                            fresh_validator))) = 1"
    by (simp add: validate_facts(1) c fmt)
  have a: "anomalies (fst (validate_rlhf_data_point plain_runtime strict_quality empty_state_point
                            fresh_validator)) = []"
    by (simp add: validate_facts(2) detect_anomalies_def fresh_validator_def)
  have w: "warnings (fst (validate_rlhf_data_point plain_runtime strict_quality empty_state_point
                            fresh_validator)) = []"
    by (simp add: validate_result Let_def check_physical_constraints_def strict_quality_def
        check_position_bounds_def check_velocity_limits_def check_attitude_constraints_def
        check_each_def in_one_try_def empty_state_point_def check_temporal_consistency_def
        fresh_validator_def)
  show ?thesis
    using validation_score_formula[of plain_runtime strict_quality empty_state_point fresh_validator]
    by (simp add: e a w c)
qed

section \<open>Properties of the reward model\<close>















section \<open>Properties of the episode manager\<close>

text \<open>
  Claim C7, as stated, fails: on a collector whose open episode already holds a data
  point, \<open>start_episode\<close> returns a new episode id as usual (no error reaches the caller)
  and the open episode is replaced by an empty one.
\<close>

theorem start_episode_while_open_counterexample:
  "current_episode open_collector = Some first_episode \<and>
   data_points first_episode = [empty_state_point] \<and>
   \<not> isl (start_episode test_start ''b'' [] open_collector) \<and>
   start_episode test_start ''b'' [] open_collector =
     Inr (''episode_20240101_000000_b'',
          fresh_collector\<lparr>current_episode :=
            Some \<lparr>episode_id = ''episode_20240101_000000_b'', ep_scenario_type = ''b'',
                  start_time = 0, end_time = None, data_points = [], total_reward = Fl 0,
                  success = False, scenario_params = [], constellation_info = VDict []\<rparr>\<rparr>)"
  by (simp add: start_episode_def Let_def open_collector_def first_episode_def test_start_def)

text \<open>
  Claim C7, amended: a collector holds at most one open episode at a time (the single
  slot \<open>current_episode\<close>); \<open>start_episode\<close> never raises on its own account: whether or
  not an episode is open, it returns the new id and puts a fresh, empty episode in the
  slot. Every other attribute of the collector, the list of completed episodes included,
  is unchanged, so an episode that was open is discarded.
\<close>

theorem start_episode_replaces:
  "start_episode env stype params c =
     Inr (''episode_'' @ now_stamp env @ ''_'' @ stype,
          c\<lparr>current_episode :=
               Some \<lparr>episode_id = ''episode_'' @ now_stamp env @ ''_'' @ stype,
                     ep_scenario_type = stype,
                     start_time = start_simulation_time env, end_time = None,
                     data_points = [], total_reward = Fl 0, success = False,
                     scenario_params = params, constellation_info = constellation env\<rparr>\<rparr>)"
  by (simp add: start_episode_def Let_def)

theorem start_episode_replaces_witness:
  "start_episode test_start ''b'' [] open_collector =
     Inr (''episode_20240101_000000_b'',
          open_collector\<lparr>current_episode :=
            Some \<lparr>episode_id = ''episode_20240101_000000_b'', ep_scenario_type = ''b'',
                  start_time = 0, end_time = None, data_points = [], total_reward = Fl 0,
                  success = False, scenario_params = [], constellation_info = VDict []\<rparr>\<rparr>) \<and>
   episodes open_collector = []"
  using start_episode_replaces[of test_start "''b''" "[]" open_collector]
  by (simp add: test_start_def open_collector_def fresh_collector_def)

lemma mission_progress_extracted:
  assumes "extracted rt cfg bd = Some st"
  shows "map_of st ''mission_progress'' = Some (dict_get bd ''simulation_progress'' zero_f)"
proof -
  from assms obtain s1 s2 ns nm s3 s5 where
    m: "extract_mission_states cfg bd (dict_get bd ''satellites'' (VList []))
          (dict_get bd ''missiles'' (VList [])) = Some s5"
    and st: "st = dict_update (dict_update (dict_update (dict_update (dict_update [] s1) s2) s3)
            (extract_environment_states rt cfg bd)) s5"
    by (rule extracted_parts)
  from m obtain ks km where g: "groups
            [Some [(''active_satellites'', VInt (int ks)),
                   (''active_missiles'', VInt (int km)),
                   (''mission_progress'', dict_get bd ''simulation_progress'' zero_f)],
             entry (mission_tracking_assignments_flag cfg) ''active_tracking_assignments''
               (count_visible (dict_get bd ''visibility'' (VList []))),
             entry (mission_resource_utilization_flag cfg) ''power_utilization''
               (power_utilization (dict_get bd ''satellites'' (VList [])) ks),
             entry (mission_coverage_gaps_flag cfg) ''coverage_gap_ratio''
               (coverage_gap_ratio (dict_get bd ''missiles'' (VList [])) km
                  (dict_get bd ''visibility'' (VList [])))] = Some s5"
    by (auto simp: extract_mission_states_def split: option.splits)
  from g obtain a b c e where
    a: "Some [(''active_satellites'', VInt (int ks)), (''active_missiles'', VInt (int km)),
              (''mission_progress'', dict_get bd ''simulation_progress'' zero_f)] = Some a"
    and k: "dict_keys b = (if mission_tracking_assignments_flag cfg then {''active_tracking_assignments''} else {})"
       "dict_keys c = (if mission_resource_utilization_flag cfg then {''power_utilization''} else {})"
       "dict_keys e = (if mission_coverage_gaps_flag cfg then {''coverage_gap_ratio''} else {})"
    and d: "s5 = a @ b @ c @ e"
    by (elim groups4) (blast dest: entry_keys)
  have n: "''mission_progress'' \<notin> dict_keys (b @ c @ e)"
    unfolding dict_keys_append k by simp
  from a d have s5: "s5 = [(''active_satellites'', VInt (int ks)), (''active_missiles'', VInt (int km))] @
      (''mission_progress'', dict_get bd ''simulation_progress'' zero_f) # (b @ c @ e)"
    by auto
  show ?thesis unfolding st s5 by (rule map_of_dict_update_last[OF n])
qed

lemma mission_progress_empty_state:
  "map_of get_empty_state ''mission_progress'' = Some (VFloat (Fl 0))"
  by (simp add: get_empty_state_def)

lemma update_average_statistics_frame:
  "current_episode (update_average_statistics rt c) = current_episode c"
  "episodes (update_average_statistics rt c) = episodes c"
  "total_data_points (statistics (update_average_statistics rt c)) = total_data_points (statistics c)"
  "valid_data_points (statistics (update_average_statistics rt c)) = valid_data_points (statistics c)"
  "invalid_data_points (statistics (update_average_statistics rt c)) = invalid_data_points (statistics c)"
  by (simp_all add: update_average_statistics_def Let_def split: option.splits)

lemma record_data_point_facts:
  assumes "record_data_point rt cfg dp c = (dp', c')"
  shows "dp' = dp\<lparr>dp_info := (dp_info dp)\<lparr>info_validation_result :=
                  Some (fst (validate_rlhf_data_point rt (data_quality cfg) dp (quality_validator c)))\<rparr>\<rparr>"
    and "total_data_points (statistics c') = total_data_points (statistics c) + 1"
    and "valid_data_points (statistics c') = valid_data_points (statistics c) +
           (if is_valid (fst (validate_rlhf_data_point rt (data_quality cfg) dp (quality_validator c))) then 1 else 0)"
    and "invalid_data_points (statistics c') = invalid_data_points (statistics c) +
           (if is_valid (fst (validate_rlhf_data_point rt (data_quality cfg) dp (quality_validator c))) then 0 else 1)"
    and "current_episode c' =
           map_option (\<lambda>e. e\<lparr>data_points := data_points e @ [dp'],
                              total_reward := fadd (total_reward e) (dp_reward dp')\<rparr>) (current_episode c)"
    and "episodes c' = episodes c"
proof -
  obtain vr v' where v: "validate_rlhf_data_point rt (data_quality cfg) dp (quality_validator c) = (vr, v')"
    by (cases "validate_rlhf_data_point rt (data_quality cfg) dp (quality_validator c)")
  from assms have d: "dp' = dp\<lparr>dp_info := (dp_info dp)\<lparr>info_validation_result := Some vr\<rparr>\<rparr>"
    and c: "c' = update_average_statistics rt
                 (c\<lparr>quality_validator := v',
                    statistics := (statistics c)\<lparr>total_data_points := total_data_points (statistics c) + 1,
                      valid_data_points := valid_data_points (statistics c) + (if is_valid vr then 1 else 0),
                      invalid_data_points := invalid_data_points (statistics c) + (if is_valid vr then 0 else 1)\<rparr>,
                    current_episode := (case current_episode c of
                        None \<Rightarrow> None
                      | Some e \<Rightarrow> Some (e\<lparr>data_points := data_points e @ [dp'],
                                          total_reward := fadd (total_reward e) (dp_reward dp')\<rparr>)),
                    state_history := state_history c @ [dp_state dp'],
                    action_history := action_history c @ [dp_action dp'],
                    reward_history := reward_history c @ [dp_reward dp'],
                    validation_history := validation_history c @ [vr]\<rparr>)"
    unfolding record_data_point_def v by (auto simp: Let_def split del: if_split)
  show "dp' = dp\<lparr>dp_info := (dp_info dp)\<lparr>info_validation_result :=
                  Some (fst (validate_rlhf_data_point rt (data_quality cfg) dp (quality_validator c)))\<rparr>\<rparr>"
    using d v by simp
  show "total_data_points (statistics c') = total_data_points (statistics c) + 1"
    unfolding c update_average_statistics_frame by simp
  show "valid_data_points (statistics c') = valid_data_points (statistics c) +
           (if is_valid (fst (validate_rlhf_data_point rt (data_quality cfg) dp (quality_validator c))) then 1 else 0)"
    unfolding c update_average_statistics_frame v by simp
  show "invalid_data_points (statistics c') = invalid_data_points (statistics c) +
           (if is_valid (fst (validate_rlhf_data_point rt (data_quality cfg) dp (quality_validator c))) then 0 else 1)"
    unfolding c update_average_statistics_frame v by simp
  show "current_episode c' =
           map_option (\<lambda>e. e\<lparr>data_points := data_points e @ [dp'],
                              total_reward := fadd (total_reward e) (dp_reward dp')\<rparr>) (current_episode c)"
    unfolding c update_average_statistics_frame by (cases "current_episode c") simp_all
  show "episodes c' = episodes c"
    unfolding c update_average_statistics_frame by simp
qed

lemma collect_cases:
  assumes "collect_rlhf_data_point rt cfg w act ex c = (r, c')"
  shows "(r = None \<and> (c' = c \<or> c' = count_failure c)) \<or>
         (\<exists>dp0 dp. r = Some dp \<and> info_validation_result (dp_info dp0) = None \<and>
                   record_data_point rt cfg dp0 c = (dp, c'))"
proof (cases w)
  case Raises
  with assms show ?thesis by (simp add: collect_rlhf_data_point_def)
next
  case (Responds obs)
  show ?thesis
  proof (cases "collected obs")
    case None
    with assms Responds show ?thesis by (simp add: collect_rlhf_data_point_def)
  next
    case (Some bd)
    define st where "st = extract_state_vector rt (state_space cfg) bd"
    define res where "res = (if ex \<and> has_action_executor c then Some (executed obs) else None)"
    show ?thesis
    proof (cases "bd = [] \<or> (res \<noteq> None \<and> \<not> is_dict (executed obs)) \<or> predict_next_state st act = None")
      case True
      with assms Responds Some show ?thesis
        unfolding collect_rlhf_data_point_def Let_def st_def res_def
        by (auto split: if_splits option.splits)
    next
      case False
      then obtain nxt where nxt: "predict_next_state st act = Some nxt" by auto
      define dp0 where "dp0 =
         \<lparr>dp_timestamp = current_simulation_time obs,
          dp_state = st, dp_action = act,
          dp_reward = calculate_total_reward rt (reward_components cfg) st act bd,
          dp_next_state = nxt,
          dp_done = is_episode_done obs bd,
          dp_info = \<lparr>info_base_data = Some bd,
                     info_simulation_progress = Some (time_progress obs),
                     info_action_result = res,
                     info_validation_result = None\<rparr>\<rparr>"
      obtain dp c2 where rd: "record_data_point rt cfg dp0 c = (dp, c2)"
        by (cases "record_data_point rt cfg dp0 c")
      from False have g1: "bd \<noteq> []" and g2: "\<not> (res \<noteq> None \<and> \<not> is_dict (executed obs))"
        by auto
      have "collect_rlhf_data_point rt cfg w act ex c =
              (case record_data_point rt cfg dp0 c of (dp, c') \<Rightarrow> (Some dp, c'))"
        unfolding collect_rlhf_data_point_def Responds
        apply (simp only: world.simps Some option.simps Let_def g1 if_False)
        apply (simp only: st_def[symmetric] res_def[symmetric] if_not_P[OF g2] nxt option.simps
            dp0_def[symmetric])
        done
      then have "collect_rlhf_data_point rt cfg w act ex c = (Some dp, c2)"
        by (simp add: rd)
      moreover have "info_validation_result (dp_info dp0) = None" by (simp add: dp0_def)
      ultimately show ?thesis using assms rd by auto
    qed
  qed
qed

lemma count_failure_frame:
  "current_episode (count_failure c) = current_episode c"
  "episodes (count_failure c) = episodes c"
  by (simp_all add: count_failure_def)

lemma collect_episode:
  assumes "collect_rlhf_data_point rt cfg w act ex c = (r, c')"
  shows "current_episode c' =
           map_option (\<lambda>e. e\<lparr>data_points := data_points e @ (case r of None \<Rightarrow> [] | Some dp \<Rightarrow> [dp]),
                              total_reward := (case r of None \<Rightarrow> total_reward e
                                               | Some dp \<Rightarrow> fadd (total_reward e) (dp_reward dp))\<rparr>)
             (current_episode c)"
  using collect_cases[OF assms]
proof (elim disjE conjE exE)
  assume "r = None" "c' = c"
  then show ?thesis by (cases "current_episode c") simp_all
next
  assume "r = None" "c' = count_failure c"
  then show ?thesis by (cases "current_episode c") (simp_all add: count_failure_frame)
next
  fix dp0 dp assume r: "r = Some dp" and rd: "record_data_point rt cfg dp0 c = (dp, c')"
    and "info_validation_result (dp_info dp0) = None"
  show ?thesis unfolding r using record_data_point_facts(5)[OF rd] by simp
qed

lemma collect_calls_episode:
  assumes "collect_calls rt cfg calls c = (results, c')"
  shows "current_episode c' =
           map_option (\<lambda>e. e\<lparr>data_points := data_points e @ List.map_filter (\<lambda>x. x) results,
                              total_reward := foldl fadd (total_reward e)
                                (map dp_reward (List.map_filter (\<lambda>x. x) results))\<rparr>)
             (current_episode c)"
  using assms
proof (induction calls arbitrary: c results c')
  case Nil
  then show ?case by (cases "current_episode c") (simp_all add: List.map_filter_simps)
next
  case (Cons call calls)
  obtain w act ex where call: "call = (w, act, ex)" by (cases call)
  obtain r c1 where one: "collect_rlhf_data_point rt cfg w act ex c = (r, c1)"
    by (cases "collect_rlhf_data_point rt cfg w act ex c")
  obtain rs c2 where rest: "collect_calls rt cfg calls c1 = (rs, c2)"
    by (cases "collect_calls rt cfg calls c1")
  from Cons.prems have res: "results = r # rs" and c': "c' = c2"
    unfolding call by (simp_all add: one rest)
  show ?case
  proof (cases "current_episode c")
    case None
    then have "current_episode c1 = None" using collect_episode[OF one] by simp
    then have "current_episode c2 = None" using Cons.IH[OF rest] by simp
    then show ?thesis using None c' by simp
  next
    case (Some e)
    have c1: "current_episode c1 =
        Some (e\<lparr>data_points := data_points e @ (case r of None \<Rightarrow> [] | Some dp \<Rightarrow> [dp]),
                total_reward := (case r of None \<Rightarrow> total_reward e
                                 | Some dp \<Rightarrow> fadd (total_reward e) (dp_reward dp))\<rparr>)"
      using collect_episode[OF one] Some by simp
    show ?thesis unfolding c' res Cons.IH[OF rest] c1 Some
      by (cases r) (simp_all add: List.map_filter_simps)
  qed
qed

lemma collect_observed:
  "fst (collect_rlhf_data_point plain_runtime example_config (observe t) act False c) \<noteq> None"
proof -
  obtain st where st: "extracted plain_runtime all_disabled small_snapshot = Some st"
    using small_extracted[of plain_runtime] by auto
  have v: "extract_state_vector plain_runtime all_disabled small_snapshot = st"
    by (simp add: extract_state_vector_def st)
  have p: "predict_next_state st act \<noteq> None"
    unfolding predict_next_state_def mission_progress_extracted[OF st] small_parts
    by (simp add: py_add_def)
  have n: "small_snapshot \<noteq> []" by (simp add: small_snapshot_def)
  have s: "state_space example_config = all_disabled" by (simp add: example_config_def)
  show ?thesis
    unfolding collect_rlhf_data_point_def observe_def using p n
    by (simp add: Let_def s v split: prod.splits option.splits split del: if_split)
qed

lemma collect_calls_all_succeed:
  assumes "list_all (\<lambda>call. \<exists>t. fst call = observe t \<and> snd (snd call) = False) calls"
  shows "length (filter (\<lambda>x. x \<noteq> None) (fst (collect_calls plain_runtime example_config calls c))) =
         length calls"
  using assms
proof (induction calls arbitrary: c)
  case Nil
  then show ?case by simp
next
  case (Cons call calls)
  obtain w act ex where call: "call = (w, act, ex)" by (cases call)
  from Cons.prems obtain t where w: "w = observe t" "ex = False"
    unfolding call by auto
  obtain r c1 where one: "collect_rlhf_data_point plain_runtime example_config w act ex c = (r, c1)"
    by (cases "collect_rlhf_data_point plain_runtime example_config w act ex c")
  have r: "r \<noteq> None" using collect_observed[of t act c] one w by simp
  obtain rs c2 where two: "collect_calls plain_runtime example_config calls c1 = (rs, c2)"
    by (cases "collect_calls plain_runtime example_config calls c1")
  have "length (filter (\<lambda>x. x \<noteq> None) (fst (collect_calls plain_runtime example_config calls c1))) =
        length calls"
    using Cons.prems by (intro Cons.IH) simp
  then have rest: "length (filter (\<lambda>x. x \<noteq> None) rs) = length calls"
    by (simp add: two)
  show ?case unfolding call using r rest
    by (simp add: one two)
qed

text \<open>
  Claim C2: after \<open>start_episode\<close>, any run of \<open>collect_rlhf_data_point\<close> calls and
  \<open>end_episode\<close>, the returned episode holds exactly the data points the calls returned
  (one per successful call, in order), and its total reward is the sum of their rewards,
  added in that order to the initial 0.0.
\<close>

theorem episode_holds_every_collected_point:
  assumes "start_episode env stype params c0 = Inr (eid, c1)"
    and "collect_calls rt cfg calls c1 = (results, c2)"
    and "end_episode now ok c2 = (r, c3)"
  shows "\<exists>ep. r = Some ep \<and>
           data_points ep = List.map_filter (\<lambda>x. x) results \<and>
           length (data_points ep) = length (filter (\<lambda>x. x \<noteq> None) results) \<and>
           total_reward ep = foldl fadd (Fl 0) (map dp_reward (data_points ep))"
proof -
  from assms(1) have e1: "current_episode c1 =
      Some \<lparr>episode_id = eid, ep_scenario_type = stype,
            start_time = start_simulation_time env, end_time = None,
            data_points = [], total_reward = Fl 0, success = False,
            scenario_params = params, constellation_info = constellation env\<rparr>"
    by (auto simp: start_episode_def Let_def)
  define e2 where "e2 =
      \<lparr>episode_id = eid, ep_scenario_type = stype,
       start_time = start_simulation_time env, end_time = None,
       data_points = List.map_filter (\<lambda>x. x) results,
       total_reward = foldl fadd (Fl 0) (map dp_reward (List.map_filter (\<lambda>x. x) results)),
       success = False,
       scenario_params = params, constellation_info = constellation env\<rparr>"
  have c2: "current_episode c2 = Some e2"
    using collect_calls_episode[OF assms(2)] unfolding e1 e2_def by simp
  from assms(3) have r: "r = Some (e2\<lparr>end_time := Some now, success := ok\<rparr>)"
    unfolding end_episode_def c2 by (simp add: Let_def)
  have len: "length (List.map_filter (\<lambda>x. x) results) = length (filter (\<lambda>x. x \<noteq> None) results)"
    by (induction results) (auto simp: List.map_filter_simps split: option.splits)
  show ?thesis unfolding r using len by (simp add: e2_def)
qed

theorem episode_holds_every_collected_point_witness:
  "\<exists>ep. fst (end_episode 90000000 True
             (snd (collect_calls plain_runtime example_config three_calls
                     (snd (projr (start_episode test_start ''t1'' [] fresh_collector)))))) = Some ep \<and>
        length (data_points ep) = 3 \<and>
        total_reward ep = foldl fadd (Fl 0) (map dp_reward (data_points ep))"
proof -
  define eid where "eid = fst (projr (start_episode test_start ''t1'' [] fresh_collector))"
  define c1 where "c1 = snd (projr (start_episode test_start ''t1'' [] fresh_collector))"
  define X where "X = collect_calls plain_runtime example_config three_calls c1"
  define Y where "Y = end_episode 90000000 True (snd X)"
  have h1: "start_episode test_start ''t1'' [] fresh_collector = Inr (eid, c1)"
    by (simp add: start_episode_def Let_def eid_def c1_def)
  have h2: "collect_calls plain_runtime example_config three_calls c1 = (fst X, snd X)"
    by (simp add: X_def)
  have h3: "end_episode 90000000 True (snd X) = (fst Y, snd Y)"
    by (simp add: Y_def)
  have ok: "list_all (\<lambda>call. \<exists>t. fst call = observe t \<and> snd (snd call) = False) three_calls"
    unfolding three_calls_def by auto
  have n: "length (filter (\<lambda>x. x \<noteq> None) (fst X)) = 3"
    unfolding X_def using collect_calls_all_succeed[OF ok, of c1]
    by (simp add: three_calls_def)
  from episode_holds_every_collected_point[OF h1 h2 h3] n
  show ?thesis unfolding Y_def X_def c1_def by auto
qed



end
